theory Spec2Isabelle
  imports Complex_Main "HOL-Library.Monad_Syntax"
begin

section \<open>Constants of the two engines\<close>

text \<open>
  The repository holds two copies of the engine: \<^verbatim>\<open>src/Pong.py\<close> and the older
  \<^verbatim>\<open>src/main.py\<close>. Definitions named as in the source embed \<^verbatim>\<open>Pong.py\<close>; where
  \<^verbatim>\<open>main.py\<close> differs, its function is embedded under the same name prefixed by
  \<open>main_\<close>. Python's \<^verbatim>\<open>//\<close> on integers is \<open>div\<close> on \<open>int\<close>.
\<close>

type_synonym point = "int \<times> int"

definition WIDTH :: int where
  "WIDTH = 1500"

definition HEIGHT :: int where
  "HEIGHT = 700"

definition BALL_DIAMETER :: int where
  "BALL_DIAMETER = 40"

definition BALL_RADIUS :: int where
  "BALL_RADIUS = BALL_DIAMETER div 2"

definition PADDLE_WIDTH :: int where
  "PADDLE_WIDTH = 60"

definition PADDLE_MOVE_PIXELS :: int where
  "PADDLE_MOVE_PIXELS = 15"

text \<open>\<^verbatim>\<open>range(a, b)\<close> with the default step.\<close>

definition range_py :: "int \<Rightarrow> int \<Rightarrow> int list" where
  "range_py a b = [a..b - 1]"

text \<open>\<^verbatim>\<open>self._ball_directions\<close>: assigned once in \<^verbatim>\<open>__init__\<close>, never mutated.\<close>

definition ball_directions :: "point list" where
  "ball_directions = [(1, 0), (1, -1), (1, 1), (-1, 0), (-1, -1), (-1, 1)]"

text \<open>\<^verbatim>\<open>self.ball_move_amounts\<close> of each file: assigned once in \<^verbatim>\<open>__init__\<close>.\<close>

definition ball_move_amounts :: "point list" where
  "ball_move_amounts = concat (map (\<lambda>x. map (\<lambda>y. (x, y)) (range_py 5 16)) (range_py 10 16))"

definition main_ball_move_amounts :: "point list" where
  "main_ball_move_amounts = concat (map (\<lambda>x. map (\<lambda>y. (x, y)) (range_py 4 11)) (range_py 4 11))"

section \<open>Python lists and the random source\<close>

text \<open>
  \<^verbatim>\<open>xs[i]\<close> raises IndexError out of range; \<open>None\<close> stands for the raised exception.
  The engine only ever indexes with the player numbers 0 and 1, so the index is a \<open>nat\<close>.
\<close>

definition index :: "'a list \<Rightarrow> nat \<Rightarrow> 'a option" where
  "index xs i = (if i < length xs then Some (xs ! i) else None)"

text \<open>\<^verbatim>\<open>enumerate(xs)\<close>, as the list of its pairs.\<close>

definition enumerate_py :: "'a list \<Rightarrow> (nat \<times> 'a) list" where
  "enumerate_py xs = zip [0..<length xs] xs"

text \<open>
  The module \<^verbatim>\<open>random\<close> is a global stream of draws. \<^verbatim>\<open>random.choice(xs)\<close> returns
  \<^verbatim>\<open>xs[k]\<close> for a drawn \<open>k\<close> below \<^verbatim>\<open>len(xs)\<close> and raises IndexError on an empty
  sequence; the model reads the next draw, reduces it below the length and advances the
  stream, so that every element can be chosen and nothing else can.
\<close>

type_synonym rng = "nat \<Rightarrow> nat"

definition choice :: "'a list \<Rightarrow> rng \<Rightarrow> ('a \<times> rng) option" where
  "choice xs g = (if xs = [] then None else Some (xs ! (g 0 mod length xs), \<lambda>i. g (Suc i)))"

section \<open>Geometry sampler\<close>

text \<open>
  One iteration of the loop of \<^verbatim>\<open>get_circle_points\<close> computes, in floating point,
  \<^verbatim>\<open>theta = start_angle + (end_angle - start_angle) * i / number_points\<close> and the point
  \<^verbatim>\<open>(int(center[0] + radius * cos(theta)), int(center[1] + radius * sin(theta)))\<close>.
  Floating-point arithmetic and the C library's \<^verbatim>\<open>cos\<close> and \<^verbatim>\<open>sin\<close> are outside
  HOL, so that computation is a parameter \<open>smp\<close> of the model:
  \<open>smp center radius number_points start_angle end_angle i\<close> is the point added in
  iteration \<open>i\<close>. Every theorem below holds for every such function. What the model keeps
  of the arithmetic is the division by \<^verbatim>\<open>number_points\<close>: with
  \<^verbatim>\<open>number_points = 0\<close> the first iteration raises ZeroDivisionError, and \<open>None\<close>
  stands for the raised exception.
\<close>

type_synonym sampler = "point \<Rightarrow> int \<Rightarrow> nat \<Rightarrow> real \<Rightarrow> real \<Rightarrow> nat \<Rightarrow> point"

definition get_circle_points ::
    "sampler \<Rightarrow> point \<Rightarrow> int \<Rightarrow> nat \<Rightarrow> real \<Rightarrow> real \<Rightarrow> point set option" where
  "get_circle_points smp center radius number_points start_angle end_angle =
     (if number_points = 0 then None
      else Some (set (map (smp center radius number_points start_angle end_angle)
                        [0..<number_points + 1])))"

text \<open>
  The result list is \<^verbatim>\<open>[right_edge, left_edge, top_set, bottom_set]\<close>. The two edges
  built with a descending \<^verbatim>\<open>range(b, a - 1, -1)\<close> are \<open>rev [a..b]\<close>.
\<close>

definition get_rounded_rectangle_points ::
    "sampler \<Rightarrow> point \<Rightarrow> int \<Rightarrow> int \<Rightarrow> int \<Rightarrow> nat \<Rightarrow> point set list option" where
  "get_rounded_rectangle_points smp center width height radius0 num_arc_points =
     (let radius = min radius0 (min (width div 2) (height div 2));
          left = fst center - width div 2;
          right = fst center + width div 2;
          top = snd center - height div 2;
          bottom = snd center + height div 2;
          top_left = (left + radius, top + radius);
          top_right = (right - radius, top + radius);
          bottom_right = (right - radius, bottom - radius);
          bottom_left = (left + radius, bottom - radius)
      in do {
        arc_tl \<leftarrow> get_circle_points smp top_left radius num_arc_points (pi / 2) pi;
        arc_tr \<leftarrow> get_circle_points smp top_right radius num_arc_points 0 (pi / 2);
        arc_br \<leftarrow> get_circle_points smp bottom_right radius num_arc_points (- pi / 2) 0;
        arc_bl \<leftarrow> get_circle_points smp bottom_left radius num_arc_points pi (3 * pi / 2);
        let top_edge = set (map (\<lambda>x. (x, top)) (range_py (left + radius) (right - radius + 1)));
        let right_edge = set (map (\<lambda>y. (right, y)) (range_py (top + radius) (bottom - radius + 1)));
        let bottom_edge = set (map (\<lambda>x. (x, bottom)) (rev [left + radius..right - radius]));
        let left_edge = set (map (\<lambda>y. (left, y)) (rev [top + radius..bottom - radius]));
        let bottom_set = arc_br \<union> bottom_edge \<union> arc_bl;
        let top_set = arc_tl \<union> top_edge \<union> arc_tr;
        Some [right_edge, left_edge, top_set, bottom_set]
      })"

text \<open>\<^verbatim>\<open>a.isdisjoint(b)\<close>.\<close>

definition isdisjoint :: "point set \<Rightarrow> point set \<Rightarrow> bool" where
  "isdisjoint a b = (a \<inter> b = {})"

section \<open>Engine state\<close>

text \<open>
  The attributes of \<^verbatim>\<open>Engine\<close>. \<open>cpus\<close> exists in \<^verbatim>\<open>Pong.py\<close> only and
  \<open>paddle_move_pixels\<close> in \<^verbatim>\<open>main.py\<close> only; the other file's functions do not read
  them.
\<close>

record engine =
  board_width :: int
  board_height :: int
  ball_move_pixels :: point
  current_ball_direction :: point
  ball_position :: point
  paddles :: "point list"
  paddle_sizes :: "int list"
  paddle_move_pixels :: int
  cpus :: "bool list"
  scores :: "int list"
  rally_counter :: "int list"

text \<open>\<^verbatim>\<open>Engine.__init__(width, height)\<close>.\<close>

definition Engine :: "int \<Rightarrow> int \<Rightarrow> engine" where
  "Engine width height =
     \<lparr>board_width = width, board_height = height, ball_move_pixels = (10, 5),
      current_ball_direction = (0, 0), ball_position = (0, 0), paddles = [(0, 0), (0, 0)],
      paddle_sizes = [120, 120], paddle_move_pixels = 10, cpus = [False, False],
      scores = [0, 0], rally_counter = [0, 0]\<rparr>"

section \<open>Engine operations of Pong.py\<close>

definition reset :: "rng \<Rightarrow> engine \<Rightarrow> (engine \<times> rng) option" where
  "reset g s = do {
     (d, g1) \<leftarrow> choice ball_directions g;
     Some (s\<lparr>current_ball_direction := d, rally_counter := [0, 0],
             ball_position := (board_width s div 2, board_height s div 2)\<rparr>, g1)
   }"

definition initialise :: "rng \<Rightarrow> engine \<Rightarrow> (engine \<times> rng) option" where
  "initialise g s =
     (let initial_paddle_y = board_height s div 2
      in reset g (s\<lparr>scores := [0, 0],
                    paddles := [(0 + PADDLE_WIDTH div 2, initial_paddle_y),
                                (board_width s - PADDLE_WIDTH div 2, initial_paddle_y)]\<rparr>))"

definition check_wall_collision :: "engine \<Rightarrow> int \<Rightarrow> int \<Rightarrow> bool" where
  "check_wall_collision s new_y offset =
     (let top = new_y + offset; bottom = new_y - offset
      in top > board_height s \<or> bottom < 0)"

definition check_ball_collision :: "sampler \<Rightarrow> engine \<Rightarrow> nat \<Rightarrow> int \<Rightarrow> int \<Rightarrow> bool option" where
  "check_ball_collision smp s player new_y offset =
     (let ball_x = fst (ball_position s)
      in if PADDLE_WIDTH * 2 < ball_x \<and> ball_x < board_width s - PADDLE_WIDTH * 2 then Some False
         else do {
           ball_perimeter \<leftarrow> get_circle_points smp (ball_position s) BALL_RADIUS 360 0 (2 * pi);
           paddle \<leftarrow> index (paddles s) player;
           paddle_perimeter \<leftarrow>
             get_rounded_rectangle_points smp (fst paddle, new_y) PADDLE_WIDTH offset 10 90;
           if \<not> isdisjoint (paddle_perimeter ! 2) ball_perimeter then Some True
           else if \<not> isdisjoint (paddle_perimeter ! 3) ball_perimeter then Some True
           else Some False
         })"

text \<open>
  \<^verbatim>\<open>a or b\<close> evaluates \<open>b\<close> only when \<open>a\<close> is false, so the ball check (and its
  possible IndexError) is skipped when the wall check already blocks the move.
\<close>

definition move_paddle :: "sampler \<Rightarrow> nat \<Rightarrow> int \<Rightarrow> int \<Rightarrow> engine \<Rightarrow> engine option" where
  "move_paddle smp player direction pixels s = do {
     paddle \<leftarrow> index (paddles s) player;
     let new_y = snd paddle + pixels * direction;
     size \<leftarrow> index (paddle_sizes s) player;
     let new_y = (if direction > 0 then min new_y (board_height s - size div 2 - 1)
                  else max new_y (size div 2 + 1));
     blocked \<leftarrow> (if check_wall_collision s new_y (size div 2) then Some True
                 else check_ball_collision smp s player new_y size);
     let new_y = (if blocked then snd paddle else new_y);
     Some (s\<lparr>paddles := (paddles s)[player := (fst paddle, new_y)]\<rparr>)
   }"

text \<open>
  The \<^verbatim>\<open>for player, paddle in enumerate(self.paddles)\<close> loop of
  \<^verbatim>\<open>check_paddle_collision\<close>, which is the same text in both files. Its parameters are
  what differs between them: the sample counts (the default arguments \<^verbatim>\<open>number_points\<close>
  and \<^verbatim>\<open>num_arc_points\<close> of the file's samplers, through \<open>ball_perimeter\<close> and \<open>na\<close>)
  and the candidate speeds \<open>amounts\<close>. \<open>current_x\<close> is the horizontal direction read
  before the loop.
\<close>

fun check_paddle_collision_loop ::
    "sampler \<Rightarrow> nat \<Rightarrow> point list \<Rightarrow> point set \<Rightarrow> int \<Rightarrow> (nat \<times> point) list \<Rightarrow> rng \<Rightarrow> engine
       \<Rightarrow> (bool \<times> engine \<times> rng) option" where
  "check_paddle_collision_loop smp na amounts ball_perimeter current_x [] g s = Some (False, s, g)"
| "check_paddle_collision_loop smp na amounts ball_perimeter current_x ((player, paddle) # rest) g s = do {
     size \<leftarrow> index (paddle_sizes s) player;
     paddle_perimeter \<leftarrow> get_rounded_rectangle_points smp paddle PADDLE_WIDTH size 10 na;
     side \<leftarrow> index paddle_perimeter player;
     if \<not> isdisjoint ball_perimeter side then do {
       (dy, g1) \<leftarrow> choice (range_py (-1) 2) g;
       (mv, g2) \<leftarrow> choice amounts g1;
       rc \<leftarrow> index (rally_counter s) player;
       Some (True, s\<lparr>current_ball_direction := (- current_x, dy), ball_move_pixels := mv,
                     rally_counter := (rally_counter s)[player := rc + 1]\<rparr>, g2)
     }
     else if \<not> isdisjoint ball_perimeter (paddle_perimeter ! 2) then do {
       (mv, g1) \<leftarrow> choice amounts g;
       rc \<leftarrow> index (rally_counter s) player;
       Some (True, s\<lparr>current_ball_direction := (- current_x, -1), ball_move_pixels := mv,
                     rally_counter := (rally_counter s)[player := rc + 1]\<rparr>, g1)
     }
     else if \<not> isdisjoint ball_perimeter (paddle_perimeter ! 3) then do {
       (mv, g1) \<leftarrow> choice amounts g;
       rc \<leftarrow> index (rally_counter s) player;
       Some (True, s\<lparr>current_ball_direction := (- current_x, 1), ball_move_pixels := mv,
                     rally_counter := (rally_counter s)[player := rc + 1]\<rparr>, g1)
     }
     else check_paddle_collision_loop smp na amounts ball_perimeter current_x rest g s
   }"

definition check_paddle_collision :: "sampler \<Rightarrow> rng \<Rightarrow> engine \<Rightarrow> (bool \<times> engine \<times> rng) option" where
  "check_paddle_collision smp g s =
     (let (current_x, current_y) = current_ball_direction s;
          new_ball_x = fst (ball_position s) + fst (current_ball_direction s) * fst (ball_move_pixels s);
          new_ball_y = snd (ball_position s) + snd (current_ball_direction s) * snd (ball_move_pixels s)
      in if PADDLE_WIDTH * 2 < new_ball_x \<and> new_ball_x < board_width s - PADDLE_WIDTH * 2
         then Some (False, s, g)
         else do {
           ball_perimeter \<leftarrow> get_circle_points smp (new_ball_x, new_ball_y) BALL_RADIUS 360 0 (2 * pi);
           check_paddle_collision_loop smp 90 ball_move_amounts ball_perimeter current_x
             (enumerate_py (paddles s)) g s
         })"

definition move_ball :: "sampler \<Rightarrow> rng \<Rightarrow> engine \<Rightarrow> (engine \<times> rng) option" where
  "move_ball smp g s =
     (let (current_x_dir, current_y_dir) = current_ball_direction s;
          new_x = fst (ball_position s) + fst (current_ball_direction s) * fst (ball_move_pixels s);
          new_y = snd (ball_position s) + snd (current_ball_direction s) * snd (ball_move_pixels s)
      in do {
        (hit, s1, g1) \<leftarrow> check_paddle_collision smp g s;
        if hit then Some (s1\<lparr>ball_position := ball_position s1\<rparr>, g1)
        else if check_wall_collision s1 new_y BALL_RADIUS then
          (let s2 = s1\<lparr>current_ball_direction := (current_x_dir, - current_y_dir)\<rparr>;
               new_y = snd (ball_position s2) + snd (current_ball_direction s2) * snd (ball_move_pixels s2)
           in Some (s2\<lparr>ball_position := (new_x, new_y)\<rparr>, g1))
        else Some (s1\<lparr>ball_position := (new_x, new_y)\<rparr>, g1)
      })"

definition move_paddle_by_cpu :: "sampler \<Rightarrow> int \<Rightarrow> nat \<Rightarrow> engine \<Rightarrow> engine option" where
  "move_paddle_by_cpu smp ball_y player s = do {
     cpu \<leftarrow> index (cpus s) player;
     if cpu then do {
       paddle \<leftarrow> index (paddles s) player;
       let paddle_y = snd paddle;
       let gap = \<bar>paddle_y - ball_y\<bar>;
       let pixels = min gap PADDLE_MOVE_PIXELS;
       if paddle_y > ball_y then move_paddle smp player (-1) pixels s
       else if paddle_y < ball_y then move_paddle smp player 1 pixels s
       else Some s
     }
     else Some s
   }"

text \<open>
  \<^verbatim>\<open>cpu_move_paddles\<close>: \<open>move_paddle_by_cpu\<close> is the body of its loop
  \<^verbatim>\<open>for player in range(2)\<close>, with \<open>ball_y\<close> read once before the loop.
\<close>

fun cpu_move_paddles_loop :: "sampler \<Rightarrow> int \<Rightarrow> nat list \<Rightarrow> engine \<Rightarrow> engine option" where
  "cpu_move_paddles_loop smp ball_y [] s = Some s"
| "cpu_move_paddles_loop smp ball_y (player # rest) s = do {
     s1 \<leftarrow> move_paddle_by_cpu smp ball_y player s;
     cpu_move_paddles_loop smp ball_y rest s1
   }"

definition cpu_move_paddles :: "sampler \<Rightarrow> engine \<Rightarrow> engine option" where
  "cpu_move_paddles smp s = cpu_move_paddles_loop smp (snd (ball_position s)) [0..<2] s"

text \<open>The result is the returned \<^verbatim>\<open>str | None\<close> and the updated engine.\<close>

definition check_goal :: "engine \<Rightarrow> (string option \<times> engine) option" where
  "check_goal s =
     (let new_x = fst (ball_position s) + fst (current_ball_direction s) * fst (ball_move_pixels s)
      in if new_x \<le> BALL_RADIUS then do {
           sc \<leftarrow> index (scores s) 1;
           Some (Some ''two'', s\<lparr>scores := (scores s)[1 := sc + 1]\<rparr>)
         }
         else if new_x \<ge> board_width s - BALL_RADIUS then do {
           sc \<leftarrow> index (scores s) 0;
           Some (Some ''one'', s\<lparr>scores := (scores s)[0 := sc + 1]\<rparr>)
         }
         else Some (None, s))"

text \<open>\<^verbatim>\<open>str.capitalize()\<close> on ASCII text: first character upper case, the rest lower case.\<close>

definition upper_char :: "char \<Rightarrow> char" where
  "upper_char c = (let n = (of_char c :: nat) in if 97 \<le> n \<and> n \<le> 122 then char_of (n - 32) else c)"

definition lower_char :: "char \<Rightarrow> char" where
  "lower_char c = (let n = (of_char c :: nat) in if 65 \<le> n \<and> n \<le> 90 then char_of (n + 32) else c)"

fun capitalize :: "string \<Rightarrow> string" where
  "capitalize [] = []"
| "capitalize (c # cs) = upper_char c # map lower_char cs"

fun check_game_over_loop :: "int \<Rightarrow> (nat \<times> int) list \<Rightarrow> string option" where
  "check_game_over_loop threshold [] = None"
| "check_game_over_loop threshold ((player, score) # rest) =
     (let winner = (if player = 0 then ''one'' else ''two'')
      in if score = threshold then Some (''Player '' @ capitalize winner @ '' won!'')
         else check_game_over_loop threshold rest)"

definition check_game_over :: "engine \<Rightarrow> string option" where
  "check_game_over s = check_game_over_loop 10 (enumerate_py (scores s))"

section \<open>Engine operations of main.py\<close>

text \<open>The functions of \<^verbatim>\<open>main.py\<close> that differ from their namesakes in \<^verbatim>\<open>Pong.py\<close>.\<close>

definition main_reset :: "rng \<Rightarrow> engine \<Rightarrow> (engine \<times> rng) option" where
  "main_reset g s = do {
     (d, g1) \<leftarrow> choice ball_directions g;
     let initial_paddle_y = board_height s div 2;
     Some (s\<lparr>current_ball_direction := d, rally_counter := [0, 0],
             ball_position := (board_width s div 2, board_height s div 2),
             paddles := [(0 + PADDLE_WIDTH div 2, initial_paddle_y),
                         (board_width s - PADDLE_WIDTH div 2, initial_paddle_y)]\<rparr>, g1)
   }"

definition main_initialise :: "rng \<Rightarrow> engine \<Rightarrow> (engine \<times> rng) option" where
  "main_initialise g s = main_reset g (s\<lparr>scores := [0, 0]\<rparr>)"

definition main_check_ball_collision :: "sampler \<Rightarrow> engine \<Rightarrow> nat \<Rightarrow> int \<Rightarrow> int \<Rightarrow> bool option" where
  "main_check_ball_collision smp s player new_y offset = do {
     ball_perimeter \<leftarrow> get_circle_points smp (ball_position s) BALL_RADIUS 72 0 (2 * pi);
     paddle \<leftarrow> index (paddles s) player;
     paddle_perimeter \<leftarrow>
       get_rounded_rectangle_points smp (fst paddle, new_y) PADDLE_WIDTH offset 10 15;
     if \<not> isdisjoint (paddle_perimeter ! 2) ball_perimeter then Some True
     else if \<not> isdisjoint (paddle_perimeter ! 3) ball_perimeter then Some True
     else Some False
   }"

definition main_move_paddle :: "sampler \<Rightarrow> nat \<Rightarrow> int \<Rightarrow> engine \<Rightarrow> engine option" where
  "main_move_paddle smp player direction s = do {
     paddle \<leftarrow> index (paddles s) player;
     let new_y = snd paddle + paddle_move_pixels s * direction;
     size \<leftarrow> index (paddle_sizes s) player;
     let new_y = (if direction > 0 then min new_y (board_height s - size div 2 - 1)
                  else max new_y (size div 2 + 1));
     blocked \<leftarrow> (if check_wall_collision s new_y (size div 2) then Some True
                 else main_check_ball_collision smp s player new_y size);
     let new_y = (if blocked then snd paddle else new_y);
     Some (s\<lparr>paddles := (paddles s)[player := (fst paddle, new_y)]\<rparr>)
   }"

definition main_check_paddle_collision :: "sampler \<Rightarrow> rng \<Rightarrow> engine \<Rightarrow> (bool \<times> engine \<times> rng) option" where
  "main_check_paddle_collision smp g s =
     (let (current_x, current_y) = current_ball_direction s;
          new_ball_x = fst (ball_position s) + fst (current_ball_direction s) * fst (ball_move_pixels s);
          new_ball_y = snd (ball_position s) + snd (current_ball_direction s) * snd (ball_move_pixels s)
      in do {
        ball_perimeter \<leftarrow> get_circle_points smp (new_ball_x, new_ball_y) BALL_RADIUS 72 0 (2 * pi);
        check_paddle_collision_loop smp 15 main_ball_move_amounts ball_perimeter current_x
          (enumerate_py (paddles s)) g s
      })"

definition main_move_ball :: "sampler \<Rightarrow> rng \<Rightarrow> engine \<Rightarrow> (engine \<times> rng) option" where
  "main_move_ball smp g s =
     (let (current_x_dir, current_y_dir) = current_ball_direction s;
          new_x = fst (ball_position s) + fst (current_ball_direction s) * fst (ball_move_pixels s);
          new_y = snd (ball_position s) + snd (current_ball_direction s) * snd (ball_move_pixels s)
      in do {
        (hit, s1, g1) \<leftarrow> main_check_paddle_collision smp g s;
        if hit then Some (s1\<lparr>ball_position := ball_position s1\<rparr>, g1)
        else if check_wall_collision s1 new_y BALL_RADIUS then
          (let s2 = s1\<lparr>current_ball_direction := (current_x_dir, - current_y_dir)\<rparr>;
               new_y = snd (ball_position s2) + snd (current_ball_direction s2) * snd (ball_move_pixels s2)
           in Some (s2\<lparr>ball_position := (new_x, new_y)\<rparr>, g1))
        else Some (s1\<lparr>ball_position := (new_x, new_y)\<rparr>, g1)
      })"

text \<open>\<^verbatim>\<open>main.py\<close> returns the string \<^verbatim>\<open>"none"\<close> where \<^verbatim>\<open>Pong.py\<close> returns \<^verbatim>\<open>None\<close>.\<close>

definition main_check_goal :: "engine \<Rightarrow> (string \<times> engine) option" where
  "main_check_goal s =
     (let new_x = fst (ball_position s) + fst (current_ball_direction s) * fst (ball_move_pixels s)
      in if new_x \<le> BALL_RADIUS then do {
           sc \<leftarrow> index (scores s) 1;
           Some (''two'', s\<lparr>scores := (scores s)[1 := sc + 1]\<rparr>)
         }
         else if new_x \<ge> board_width s - BALL_RADIUS then do {
           sc \<leftarrow> index (scores s) 0;
           Some (''one'', s\<lparr>scores := (scores s)[0 := sc + 1]\<rparr>)
         }
         else Some (''none'', s))"

text \<open>
  \<^verbatim>\<open>main.py\<close> reports game over by emitting the signal \<^verbatim>\<open>game_over\<close> once for
  every player whose score is 3, and returns nothing; the result is the list of emitted
  messages, in order.
\<close>

fun main_check_game_over_loop :: "(nat \<times> int) list \<Rightarrow> string list" where
  "main_check_game_over_loop [] = []"
| "main_check_game_over_loop ((player, score) # rest) =
     (let winner = (if player = 0 then ''one'' else ''two'')
      in if score = 3 then (''Player '' @ capitalize winner @ '' won!'') # main_check_game_over_loop rest
         else main_check_game_over_loop rest)"

definition main_check_game_over :: "engine \<Rightarrow> string list" where
  "main_check_game_over s = main_check_game_over_loop (enumerate_py (scores s))"

section \<open>Notions used in the statements\<close>

text \<open>The tentative next ball position: current position plus direction times speed.\<close>

definition tentative :: "engine \<Rightarrow> point" where
  "tentative s =
     (fst (ball_position s) + fst (current_ball_direction s) * fst (ball_move_pixels s),
      snd (ball_position s) + snd (current_ball_direction s) * snd (ball_move_pixels s))"

text \<open>An engine has two players: every per-player list has two entries.\<close>

definition two_players :: "engine \<Rightarrow> bool" where
  "two_players s =
     (length (paddles s) = 2 \<and> length (paddle_sizes s) = 2 \<and> length (cpus s) = 2 \<and>
      length (scores s) = 2 \<and> length (rally_counter s) = 2)"

text \<open>
  \<open>touches smp nb na s player k\<close>: the ball's perimeter, sampled with \<open>nb\<close> points at
  the tentative position, shares a point with region \<open>k\<close> of the player's paddle, sampled
  with \<open>na\<close> points per corner (regions: 0 right edge, 1 left edge, 2 top, 3 bottom).
\<close>

definition touches :: "sampler \<Rightarrow> nat \<Rightarrow> nat \<Rightarrow> engine \<Rightarrow> nat \<Rightarrow> nat \<Rightarrow> bool" where
  "touches smp nb na s player k =
     (case (get_circle_points smp (tentative s) BALL_RADIUS nb 0 (2 * pi),
            get_rounded_rectangle_points smp (paddles s ! player) PADDLE_WIDTH
              (paddle_sizes s ! player) 10 na) of
        (Some ball_perimeter, Some paddle_perimeter) \<Rightarrow> \<not> isdisjoint ball_perimeter (paddle_perimeter ! k)
      | _ \<Rightarrow> False)"

text \<open>
  The three assignments every bounce branch of \<^verbatim>\<open>check_paddle_collision\<close> performs:
  horizontal direction negated, vertical direction \<open>dy\<close>, speed \<open>mv\<close>, and the
  player's rally counter incremented.
\<close>

definition bounce :: "engine \<Rightarrow> int \<Rightarrow> nat \<Rightarrow> int \<Rightarrow> point \<Rightarrow> engine" where
  "bounce s cx player dy mv =
     s\<lparr>current_ball_direction := (- cx, dy), ball_move_pixels := mv,
       rally_counter := (rally_counter s)[player := rally_counter s ! player + 1]\<rparr>"

text \<open>
  The state after \<^verbatim>\<open>Engine(WIDTH, HEIGHT)\<close> and \<^verbatim>\<open>initialise()\<close> when the first
  direction is drawn: paddles at mid-height, ball in the centre moving right.
\<close>

definition kickoff :: engine where
  "kickoff = (Engine WIDTH HEIGHT)\<lparr>paddles := [(30, 350), (1470, 350)],
                current_ball_direction := (1, 0), ball_position := (750, 350)\<rparr>"

text \<open>
  States used as concrete inputs: the ball about to cross the left goal line and about to
  cross the right one.
\<close>

definition left_goal :: engine where
  "left_goal = kickoff\<lparr>current_ball_direction := (-1, 0), ball_position := (25, 350)\<rparr>"

definition right_goal :: engine where
  "right_goal = kickoff\<lparr>ball_position := (1475, 350)\<rparr>"

text \<open>A random source whose every draw is 0: each \<^verbatim>\<open>random.choice\<close> picks the first element.\<close>

definition zero_draws :: rng where
  "zero_draws = (\<lambda>_. 0)"

text \<open>A state in which the paddles have been moved away from mid-height.\<close>

definition paddles_moved :: engine where
  "paddles_moved = kickoff\<lparr>paddles := [(30, 100), (1470, 600)]\<rparr>"

text \<open>Whether player \<open>q\<close>'s paddle centre is inside the legal vertical range.\<close>

definition paddle_in_range :: "engine \<Rightarrow> nat \<Rightarrow> bool" where
  "paddle_in_range s q =
     (paddle_sizes s ! q div 2 + 1 \<le> snd (paddles s ! q) \<and>
      snd (paddles s ! q) \<le> board_height s - paddle_sizes s ! q div 2 - 1)"

text \<open>
  More concrete inputs, all on the 1500 by 700 board. The ball one step away from the front
  face of the left paddle, from the top and from the bottom of that paddle, and behind the
  left paddle, level with its outward edge; the left paddle one step below a resting ball;
  the ball one step away from the top wall and from the bottom wall; the left paddle at the
  upper end of its range.
\<close>

definition side_hit :: engine where
  "side_hit = kickoff\<lparr>current_ball_direction := (-1, 0), ball_position := (90, 350)\<rparr>"

definition top_hit :: engine where
  "top_hit = kickoff\<lparr>current_ball_direction := (-1, 1), ball_position := (40, 265)\<rparr>"

definition bottom_hit :: engine where
  "bottom_hit = kickoff\<lparr>current_ball_direction := (-1, -1), ball_position := (40, 435)\<rparr>"

definition behind_paddle :: engine where
  "behind_paddle = kickoff\<lparr>current_ball_direction := (-1, 0), ball_position := (30, 350)\<rparr>"

definition paddle_under_ball :: engine where
  "paddle_under_ball = kickoff\<lparr>ball_position := (30, 270), paddles := [(30, 365), (1470, 350)]\<rparr>"

definition near_top_wall :: engine where
  "near_top_wall = kickoff\<lparr>current_ball_direction := (1, -1), ball_position := (750, 22)\<rparr>"

definition near_bottom_wall :: engine where
  "near_bottom_wall = kickoff\<lparr>current_ball_direction := (-1, 1), ball_position := (750, 678)\<rparr>"

definition paddle_at_top :: engine where
  "paddle_at_top = kickoff\<lparr>paddles := [(30, 61), (1470, 350)]\<rparr>"

subsection \<open>Measured samples\<close>

text \<open>
  A sampler for concrete inputs. For the circles and corner arcs that the engine samples
  in the states above, the lists below hold, in the order of the loop, the points that the
  loop body of \<^verbatim>\<open>get_circle_points\<close> yields in IEEE double arithmetic with the C
  library's \<^verbatim>\<open>cos\<close> and \<^verbatim>\<open>sin\<close>: \<open>circle360\<close> and \<open>circle72\<close> are the ball's
  perimeter (radius 20, angles 0 to \<open>2 * pi\<close>) with 360 and 72 steps around the named
  centre, \<open>arc90\<close> and \<open>arc15\<close> the quarter arc (radius 10) of the paddle corner with the
  named centre, with the angles \<^verbatim>\<open>get_rounded_rectangle_points\<close> passes for that corner.
  Rounding shows: the sample at angle \<open>3 * pi / 2\<close> around (30, 270) is (29, 250), not
  (30, 250). \<open>measured_sample\<close> reads these lists; for a circle that was not measured it
  returns the centre, and no statement below depends on such a value.
\<close>

definition circle360_80_350 :: "point list" where
  "circle360_80_350 =
     [(100, 350), (99, 350), (99, 350), (99, 351), (99, 351), (99, 351), (99, 352), (99, 352),
      (99, 352), (99, 353), (99, 353), (99, 353), (99, 354), (99, 354), (99, 354), (99, 355),
      (99, 355), (99, 355), (99, 356), (98, 356), (98, 356), (98, 357), (98, 357), (98, 357),
      (98, 358), (98, 358), (97, 358), (97, 359), (97, 359), (97, 359), (97, 360), (97, 360),
      (96, 360), (96, 360), (96, 361), (96, 361), (96, 361), (95, 362), (95, 362), (95, 362),
      (95, 362), (95, 363), (94, 363), (94, 363), (94, 363), (94, 364), (93, 364), (93, 364),
      (93, 364), (93, 365), (92, 365), (92, 365), (92, 365), (92, 365), (91, 366), (91, 366),
      (91, 366), (90, 366), (90, 366), (90, 367), (90, 367), (89, 367), (89, 367), (89, 367),
      (88, 367), (88, 368), (88, 368), (87, 368), (87, 368), (87, 368), (86, 368), (86, 368),
      (86, 369), (85, 369), (85, 369), (85, 369), (84, 369), (84, 369), (84, 369), (83, 369),
      (83, 369), (83, 369), (82, 369), (82, 369), (82, 369), (81, 369), (81, 369), (81, 369),
      (80, 369), (80, 369), (80, 370), (79, 369), (79, 369), (78, 369), (78, 369), (78, 369),
      (77, 369), (77, 369), (77, 369), (76, 369), (76, 369), (76, 369), (75, 369), (75, 369),
      (75, 369), (74, 369), (74, 369), (74, 369), (73, 369), (73, 368), (73, 368), (72, 368),
      (72, 368), (72, 368), (71, 368), (71, 368), (71, 367), (70, 367), (70, 367), (70, 367),
      (70, 367), (69, 367), (69, 366), (69, 366), (68, 366), (68, 366), (68, 366), (67, 365),
      (67, 365), (67, 365), (67, 365), (66, 365), (66, 364), (66, 364), (66, 364), (65, 364),
      (65, 363), (65, 363), (65, 363), (64, 363), (64, 362), (64, 362), (64, 362), (64, 362),
      (63, 361), (63, 361), (63, 361), (63, 360), (63, 360), (62, 360), (62, 360), (62, 359),
      (62, 359), (62, 359), (62, 358), (61, 358), (61, 358), (61, 357), (61, 357), (61, 357),
      (61, 356), (61, 356), (60, 356), (60, 355), (60, 355), (60, 355), (60, 354), (60, 354),
      (60, 354), (60, 353), (60, 353), (60, 353), (60, 352), (60, 352), (60, 352), (60, 351),
      (60, 351), (60, 351), (60, 350), (60, 350), (60, 350), (60, 349), (60, 349), (60, 348),
      (60, 348), (60, 348), (60, 347), (60, 347), (60, 347), (60, 346), (60, 346), (60, 346),
      (60, 345), (60, 345), (60, 345), (60, 344), (60, 344), (60, 344), (60, 343), (61, 343),
      (61, 343), (61, 342), (61, 342), (61, 342), (61, 341), (61, 341), (62, 341), (62, 340),
      (62, 340), (62, 340), (62, 340), (62, 339), (63, 339), (63, 339), (63, 338), (63, 338),
      (63, 338), (64, 337), (64, 337), (64, 337), (64, 337), (64, 336), (65, 336), (65, 336),
      (65, 336), (65, 335), (66, 335), (66, 335), (66, 335), (66, 334), (67, 334), (67, 334),
      (67, 334), (67, 334), (68, 333), (68, 333), (68, 333), (69, 333), (69, 333), (69, 332),
      (69, 332), (70, 332), (70, 332), (70, 332), (71, 332), (71, 331), (71, 331), (72, 331),
      (72, 331), (72, 331), (73, 331), (73, 331), (73, 330), (74, 330), (74, 330), (74, 330),
      (75, 330), (75, 330), (75, 330), (76, 330), (76, 330), (76, 330), (77, 330), (77, 330),
      (77, 330), (78, 330), (78, 330), (78, 330), (79, 330), (79, 330), (80, 330), (80, 330),
      (80, 330), (81, 330), (81, 330), (81, 330), (82, 330), (82, 330), (82, 330), (83, 330),
      (83, 330), (83, 330), (84, 330), (84, 330), (84, 330), (85, 330), (85, 330), (85, 330),
      (86, 330), (86, 331), (86, 331), (87, 331), (87, 331), (87, 331), (88, 331), (88, 331),
      (88, 332), (89, 332), (89, 332), (89, 332), (90, 332), (90, 332), (90, 333), (90, 333),
      (91, 333), (91, 333), (91, 333), (92, 334), (92, 334), (92, 334), (92, 334), (93, 334),
      (93, 335), (93, 335), (93, 335), (94, 335), (94, 336), (94, 336), (94, 336), (95, 336),
      (95, 337), (95, 337), (95, 337), (95, 337), (96, 338), (96, 338), (96, 338), (96, 339),
      (96, 339), (97, 339), (97, 340), (97, 340), (97, 340), (97, 340), (97, 341), (98, 341),
      (98, 341), (98, 342), (98, 342), (98, 342), (98, 343), (98, 343), (99, 343), (99, 344),
      (99, 344), (99, 344), (99, 345), (99, 345), (99, 345), (99, 346), (99, 346), (99, 346),
      (99, 347), (99, 347), (99, 347), (99, 348), (99, 348), (99, 348), (99, 349), (99, 349),
      (100, 350)]"

definition circle360_30_270 :: "point list" where
  "circle360_30_270 =
     [(50, 270), (49, 270), (49, 270), (49, 271), (49, 271), (49, 271), (49, 272), (49, 272),
      (49, 272), (49, 273), (49, 273), (49, 273), (49, 274), (49, 274), (49, 274), (49, 275),
      (49, 275), (49, 275), (49, 276), (48, 276), (48, 276), (48, 277), (48, 277), (48, 277),
      (48, 278), (48, 278), (47, 278), (47, 279), (47, 279), (47, 279), (47, 280), (47, 280),
      (46, 280), (46, 280), (46, 281), (46, 281), (46, 281), (45, 282), (45, 282), (45, 282),
      (45, 282), (45, 283), (44, 283), (44, 283), (44, 283), (44, 284), (43, 284), (43, 284),
      (43, 284), (43, 285), (42, 285), (42, 285), (42, 285), (42, 285), (41, 286), (41, 286),
      (41, 286), (40, 286), (40, 286), (40, 287), (40, 287), (39, 287), (39, 287), (39, 287),
      (38, 287), (38, 288), (38, 288), (37, 288), (37, 288), (37, 288), (36, 288), (36, 288),
      (36, 289), (35, 289), (35, 289), (35, 289), (34, 289), (34, 289), (34, 289), (33, 289),
      (33, 289), (33, 289), (32, 289), (32, 289), (32, 289), (31, 289), (31, 289), (31, 289),
      (30, 289), (30, 289), (30, 290), (29, 289), (29, 289), (28, 289), (28, 289), (28, 289),
      (27, 289), (27, 289), (27, 289), (26, 289), (26, 289), (26, 289), (25, 289), (25, 289),
      (25, 289), (24, 289), (24, 289), (24, 289), (23, 289), (23, 288), (23, 288), (22, 288),
      (22, 288), (22, 288), (21, 288), (21, 288), (21, 287), (20, 287), (20, 287), (20, 287),
      (20, 287), (19, 287), (19, 286), (19, 286), (18, 286), (18, 286), (18, 286), (17, 285),
      (17, 285), (17, 285), (17, 285), (16, 285), (16, 284), (16, 284), (16, 284), (15, 284),
      (15, 283), (15, 283), (15, 283), (14, 283), (14, 282), (14, 282), (14, 282), (14, 282),
      (13, 281), (13, 281), (13, 281), (13, 280), (13, 280), (12, 280), (12, 280), (12, 279),
      (12, 279), (12, 279), (12, 278), (11, 278), (11, 278), (11, 277), (11, 277), (11, 277),
      (11, 276), (11, 276), (10, 276), (10, 275), (10, 275), (10, 275), (10, 274), (10, 274),
      (10, 274), (10, 273), (10, 273), (10, 273), (10, 272), (10, 272), (10, 272), (10, 271),
      (10, 271), (10, 271), (10, 270), (10, 270), (10, 270), (10, 269), (10, 269), (10, 268),
      (10, 268), (10, 268), (10, 267), (10, 267), (10, 267), (10, 266), (10, 266), (10, 266),
      (10, 265), (10, 265), (10, 265), (10, 264), (10, 264), (10, 264), (10, 263), (11, 263),
      (11, 263), (11, 262), (11, 262), (11, 262), (11, 261), (11, 261), (12, 261), (12, 260),
      (12, 260), (12, 260), (12, 260), (12, 259), (13, 259), (13, 259), (13, 258), (13, 258),
      (13, 258), (14, 257), (14, 257), (14, 257), (14, 257), (14, 256), (15, 256), (15, 256),
      (15, 256), (15, 255), (16, 255), (16, 255), (16, 255), (16, 254), (17, 254), (17, 254),
      (17, 254), (17, 254), (18, 253), (18, 253), (18, 253), (19, 253), (19, 253), (19, 252),
      (19, 252), (20, 252), (20, 252), (20, 252), (21, 252), (21, 251), (21, 251), (22, 251),
      (22, 251), (22, 251), (23, 251), (23, 251), (23, 250), (24, 250), (24, 250), (24, 250),
      (25, 250), (25, 250), (25, 250), (26, 250), (26, 250), (26, 250), (27, 250), (27, 250),
      (27, 250), (28, 250), (28, 250), (28, 250), (29, 250), (29, 250), (29, 250), (30, 250),
      (30, 250), (31, 250), (31, 250), (31, 250), (32, 250), (32, 250), (32, 250), (33, 250),
      (33, 250), (33, 250), (34, 250), (34, 250), (34, 250), (35, 250), (35, 250), (35, 250),
      (36, 250), (36, 251), (36, 251), (37, 251), (37, 251), (37, 251), (38, 251), (38, 251),
      (38, 252), (39, 252), (39, 252), (39, 252), (40, 252), (40, 252), (40, 253), (40, 253),
      (41, 253), (41, 253), (41, 253), (42, 254), (42, 254), (42, 254), (42, 254), (43, 254),
      (43, 255), (43, 255), (43, 255), (44, 255), (44, 256), (44, 256), (44, 256), (45, 256),
      (45, 257), (45, 257), (45, 257), (45, 257), (46, 258), (46, 258), (46, 258), (46, 259),
      (46, 259), (47, 259), (47, 260), (47, 260), (47, 260), (47, 260), (47, 261), (48, 261),
      (48, 261), (48, 262), (48, 262), (48, 262), (48, 263), (48, 263), (49, 263), (49, 264),
      (49, 264), (49, 264), (49, 265), (49, 265), (49, 265), (49, 266), (49, 266), (49, 266),
      (49, 267), (49, 267), (49, 267), (49, 268), (49, 268), (49, 268), (49, 269), (49, 269),
      (50, 270)]"

definition circle360_30_430 :: "point list" where
  "circle360_30_430 =
     [(50, 430), (49, 430), (49, 430), (49, 431), (49, 431), (49, 431), (49, 432), (49, 432),
      (49, 432), (49, 433), (49, 433), (49, 433), (49, 434), (49, 434), (49, 434), (49, 435),
      (49, 435), (49, 435), (49, 436), (48, 436), (48, 436), (48, 437), (48, 437), (48, 437),
      (48, 438), (48, 438), (47, 438), (47, 439), (47, 439), (47, 439), (47, 440), (47, 440),
      (46, 440), (46, 440), (46, 441), (46, 441), (46, 441), (45, 442), (45, 442), (45, 442),
      (45, 442), (45, 443), (44, 443), (44, 443), (44, 443), (44, 444), (43, 444), (43, 444),
      (43, 444), (43, 445), (42, 445), (42, 445), (42, 445), (42, 445), (41, 446), (41, 446),
      (41, 446), (40, 446), (40, 446), (40, 447), (40, 447), (39, 447), (39, 447), (39, 447),
      (38, 447), (38, 448), (38, 448), (37, 448), (37, 448), (37, 448), (36, 448), (36, 448),
      (36, 449), (35, 449), (35, 449), (35, 449), (34, 449), (34, 449), (34, 449), (33, 449),
      (33, 449), (33, 449), (32, 449), (32, 449), (32, 449), (31, 449), (31, 449), (31, 449),
      (30, 449), (30, 449), (30, 450), (29, 449), (29, 449), (28, 449), (28, 449), (28, 449),
      (27, 449), (27, 449), (27, 449), (26, 449), (26, 449), (26, 449), (25, 449), (25, 449),
      (25, 449), (24, 449), (24, 449), (24, 449), (23, 449), (23, 448), (23, 448), (22, 448),
      (22, 448), (22, 448), (21, 448), (21, 448), (21, 447), (20, 447), (20, 447), (20, 447),
      (20, 447), (19, 447), (19, 446), (19, 446), (18, 446), (18, 446), (18, 446), (17, 445),
      (17, 445), (17, 445), (17, 445), (16, 445), (16, 444), (16, 444), (16, 444), (15, 444),
      (15, 443), (15, 443), (15, 443), (14, 443), (14, 442), (14, 442), (14, 442), (14, 442),
      (13, 441), (13, 441), (13, 441), (13, 440), (13, 440), (12, 440), (12, 440), (12, 439),
      (12, 439), (12, 439), (12, 438), (11, 438), (11, 438), (11, 437), (11, 437), (11, 437),
      (11, 436), (11, 436), (10, 436), (10, 435), (10, 435), (10, 435), (10, 434), (10, 434),
      (10, 434), (10, 433), (10, 433), (10, 433), (10, 432), (10, 432), (10, 432), (10, 431),
      (10, 431), (10, 431), (10, 430), (10, 430), (10, 430), (10, 429), (10, 429), (10, 428),
      (10, 428), (10, 428), (10, 427), (10, 427), (10, 427), (10, 426), (10, 426), (10, 426),
      (10, 425), (10, 425), (10, 425), (10, 424), (10, 424), (10, 424), (10, 423), (11, 423),
      (11, 423), (11, 422), (11, 422), (11, 422), (11, 421), (11, 421), (12, 421), (12, 420),
      (12, 420), (12, 420), (12, 420), (12, 419), (13, 419), (13, 419), (13, 418), (13, 418),
      (13, 418), (14, 417), (14, 417), (14, 417), (14, 417), (14, 416), (15, 416), (15, 416),
      (15, 416), (15, 415), (16, 415), (16, 415), (16, 415), (16, 414), (17, 414), (17, 414),
      (17, 414), (17, 414), (18, 413), (18, 413), (18, 413), (19, 413), (19, 413), (19, 412),
      (19, 412), (20, 412), (20, 412), (20, 412), (21, 412), (21, 411), (21, 411), (22, 411),
      (22, 411), (22, 411), (23, 411), (23, 411), (23, 410), (24, 410), (24, 410), (24, 410),
      (25, 410), (25, 410), (25, 410), (26, 410), (26, 410), (26, 410), (27, 410), (27, 410),
      (27, 410), (28, 410), (28, 410), (28, 410), (29, 410), (29, 410), (29, 410), (30, 410),
      (30, 410), (31, 410), (31, 410), (31, 410), (32, 410), (32, 410), (32, 410), (33, 410),
      (33, 410), (33, 410), (34, 410), (34, 410), (34, 410), (35, 410), (35, 410), (35, 410),
      (36, 410), (36, 411), (36, 411), (37, 411), (37, 411), (37, 411), (38, 411), (38, 411),
      (38, 412), (39, 412), (39, 412), (39, 412), (40, 412), (40, 412), (40, 413), (40, 413),
      (41, 413), (41, 413), (41, 413), (42, 414), (42, 414), (42, 414), (42, 414), (43, 414),
      (43, 415), (43, 415), (43, 415), (44, 415), (44, 416), (44, 416), (44, 416), (45, 416),
      (45, 417), (45, 417), (45, 417), (45, 417), (46, 418), (46, 418), (46, 418), (46, 419),
      (46, 419), (47, 419), (47, 420), (47, 420), (47, 420), (47, 420), (47, 421), (48, 421),
      (48, 421), (48, 422), (48, 422), (48, 422), (48, 423), (48, 423), (49, 423), (49, 424),
      (49, 424), (49, 424), (49, 425), (49, 425), (49, 425), (49, 426), (49, 426), (49, 426),
      (49, 427), (49, 427), (49, 427), (49, 428), (49, 428), (49, 428), (49, 429), (49, 429),
      (50, 430)]"

definition circle360_20_350 :: "point list" where
  "circle360_20_350 =
     [(40, 350), (39, 350), (39, 350), (39, 351), (39, 351), (39, 351), (39, 352), (39, 352),
      (39, 352), (39, 353), (39, 353), (39, 353), (39, 354), (39, 354), (39, 354), (39, 355),
      (39, 355), (39, 355), (39, 356), (38, 356), (38, 356), (38, 357), (38, 357), (38, 357),
      (38, 358), (38, 358), (37, 358), (37, 359), (37, 359), (37, 359), (37, 360), (37, 360),
      (36, 360), (36, 360), (36, 361), (36, 361), (36, 361), (35, 362), (35, 362), (35, 362),
      (35, 362), (35, 363), (34, 363), (34, 363), (34, 363), (34, 364), (33, 364), (33, 364),
      (33, 364), (33, 365), (32, 365), (32, 365), (32, 365), (32, 365), (31, 366), (31, 366),
      (31, 366), (30, 366), (30, 366), (30, 367), (30, 367), (29, 367), (29, 367), (29, 367),
      (28, 367), (28, 368), (28, 368), (27, 368), (27, 368), (27, 368), (26, 368), (26, 368),
      (26, 369), (25, 369), (25, 369), (25, 369), (24, 369), (24, 369), (24, 369), (23, 369),
      (23, 369), (23, 369), (22, 369), (22, 369), (22, 369), (21, 369), (21, 369), (21, 369),
      (20, 369), (20, 369), (20, 370), (19, 369), (19, 369), (18, 369), (18, 369), (18, 369),
      (17, 369), (17, 369), (17, 369), (16, 369), (16, 369), (16, 369), (15, 369), (15, 369),
      (15, 369), (14, 369), (14, 369), (14, 369), (13, 369), (13, 368), (13, 368), (12, 368),
      (12, 368), (12, 368), (11, 368), (11, 368), (11, 367), (10, 367), (10, 367), (10, 367),
      (10, 367), (9, 367), (9, 366), (9, 366), (8, 366), (8, 366), (8, 366), (7, 365), (7, 365),
      (7, 365), (7, 365), (6, 365), (6, 364), (6, 364), (6, 364), (5, 364), (5, 363), (5, 363),
      (5, 363), (4, 363), (4, 362), (4, 362), (4, 362), (4, 362), (3, 361), (3, 361), (3, 361),
      (3, 360), (3, 360), (2, 360), (2, 360), (2, 359), (2, 359), (2, 359), (2, 358), (1, 358),
      (1, 358), (1, 357), (1, 357), (1, 357), (1, 356), (1, 356), (0, 356), (0, 355), (0, 355),
      (0, 355), (0, 354), (0, 354), (0, 354), (0, 353), (0, 353), (0, 353), (0, 352), (0, 352),
      (0, 352), (0, 351), (0, 351), (0, 351), (0, 350), (0, 350), (0, 350), (0, 349), (0, 349),
      (0, 348), (0, 348), (0, 348), (0, 347), (0, 347), (0, 347), (0, 346), (0, 346), (0, 346),
      (0, 345), (0, 345), (0, 345), (0, 344), (0, 344), (0, 344), (0, 343), (1, 343), (1, 343),
      (1, 342), (1, 342), (1, 342), (1, 341), (1, 341), (2, 341), (2, 340), (2, 340), (2, 340),
      (2, 340), (2, 339), (3, 339), (3, 339), (3, 338), (3, 338), (3, 338), (4, 337), (4, 337),
      (4, 337), (4, 337), (4, 336), (5, 336), (5, 336), (5, 336), (5, 335), (6, 335), (6, 335),
      (6, 335), (6, 334), (7, 334), (7, 334), (7, 334), (7, 334), (8, 333), (8, 333), (8, 333),
      (9, 333), (9, 333), (9, 332), (9, 332), (10, 332), (10, 332), (10, 332), (11, 332),
      (11, 331), (11, 331), (12, 331), (12, 331), (12, 331), (13, 331), (13, 331), (13, 330),
      (14, 330), (14, 330), (14, 330), (15, 330), (15, 330), (15, 330), (16, 330), (16, 330),
      (16, 330), (17, 330), (17, 330), (17, 330), (18, 330), (18, 330), (18, 330), (19, 330),
      (19, 330), (19, 330), (20, 330), (20, 330), (21, 330), (21, 330), (21, 330), (22, 330),
      (22, 330), (22, 330), (23, 330), (23, 330), (23, 330), (24, 330), (24, 330), (24, 330),
      (25, 330), (25, 330), (25, 330), (26, 330), (26, 331), (26, 331), (27, 331), (27, 331),
      (27, 331), (28, 331), (28, 331), (28, 332), (29, 332), (29, 332), (29, 332), (30, 332),
      (30, 332), (30, 333), (30, 333), (31, 333), (31, 333), (31, 333), (32, 334), (32, 334),
      (32, 334), (32, 334), (33, 334), (33, 335), (33, 335), (33, 335), (34, 335), (34, 336),
      (34, 336), (34, 336), (35, 336), (35, 337), (35, 337), (35, 337), (35, 337), (36, 338),
      (36, 338), (36, 338), (36, 339), (36, 339), (37, 339), (37, 340), (37, 340), (37, 340),
      (37, 340), (37, 341), (38, 341), (38, 341), (38, 342), (38, 342), (38, 342), (38, 343),
      (38, 343), (39, 343), (39, 344), (39, 344), (39, 344), (39, 345), (39, 345), (39, 345),
      (39, 346), (39, 346), (39, 346), (39, 347), (39, 347), (39, 347), (39, 348), (39, 348),
      (39, 348), (39, 349), (39, 349), (40, 350)]"

definition circle72_20_350 :: "point list" where
  "circle72_20_350 =
     [(40, 350), (39, 351), (39, 353), (39, 355), (38, 356), (38, 358), (37, 360), (36, 361),
      (35, 362), (34, 364), (32, 365), (31, 366), (30, 367), (28, 368), (26, 368), (25, 369),
      (23, 369), (21, 369), (20, 370), (18, 369), (16, 369), (14, 369), (13, 368), (11, 368),
      (10, 367), (8, 366), (7, 365), (5, 364), (4, 362), (3, 361), (2, 360), (1, 358), (1, 356),
      (0, 355), (0, 353), (0, 351), (0, 350), (0, 348), (0, 346), (0, 344), (1, 343), (1, 341),
      (2, 340), (3, 338), (4, 337), (5, 335), (7, 334), (8, 333), (9, 332), (11, 331), (13, 331),
      (14, 330), (16, 330), (18, 330), (19, 330), (21, 330), (23, 330), (25, 330), (26, 331),
      (28, 331), (29, 332), (31, 333), (32, 334), (34, 335), (35, 337), (36, 338), (37, 340),
      (38, 341), (38, 343), (39, 344), (39, 346), (39, 348), (40, 350)]"

definition circle72_760_350 :: "point list" where
  "circle72_760_350 =
     [(780, 350), (779, 351), (779, 353), (779, 355), (778, 356), (778, 358), (777, 360),
      (776, 361), (775, 362), (774, 364), (772, 365), (771, 366), (770, 367), (768, 368),
      (766, 368), (765, 369), (763, 369), (761, 369), (760, 370), (758, 369), (756, 369),
      (754, 369), (753, 368), (751, 368), (750, 367), (748, 366), (747, 365), (745, 364),
      (744, 362), (743, 361), (742, 360), (741, 358), (741, 356), (740, 355), (740, 353),
      (740, 351), (740, 350), (740, 348), (740, 346), (740, 344), (741, 343), (741, 341),
      (742, 340), (743, 338), (744, 337), (745, 335), (747, 334), (748, 333), (750, 332),
      (751, 331), (753, 331), (754, 330), (756, 330), (758, 330), (760, 330), (761, 330),
      (763, 330), (765, 330), (766, 331), (768, 331), (770, 332), (771, 333), (772, 334),
      (774, 335), (775, 337), (776, 338), (777, 340), (778, 341), (778, 343), (779, 344),
      (779, 346), (779, 348), (780, 350)]"

definition arc90_10_300 :: "point list" where
  "arc90_10_300 =
     [(10, 310), (9, 309), (9, 309), (9, 309), (9, 309), (9, 309), (8, 309), (8, 309), (8, 309),
      (8, 309), (8, 309), (8, 309), (7, 309), (7, 309), (7, 309), (7, 309), (7, 309), (7, 309),
      (6, 309), (6, 309), (6, 309), (6, 309), (6, 309), (6, 309), (5, 309), (5, 309), (5, 308),
      (5, 308), (5, 308), (5, 308), (5, 308), (4, 308), (4, 308), (4, 308), (4, 308), (4, 308),
      (4, 308), (3, 307), (3, 307), (3, 307), (3, 307), (3, 307), (3, 307), (3, 307), (3, 307),
      (2, 307), (2, 306), (2, 306), (2, 306), (2, 306), (2, 306), (2, 306), (2, 306), (2, 306),
      (1, 305), (1, 305), (1, 305), (1, 305), (1, 305), (1, 305), (1, 305), (1, 304), (1, 304),
      (1, 304), (1, 304), (0, 304), (0, 304), (0, 303), (0, 303), (0, 303), (0, 303), (0, 303),
      (0, 303), (0, 302), (0, 302), (0, 302), (0, 302), (0, 302), (0, 302), (0, 301), (0, 301),
      (0, 301), (0, 301), (0, 301), (0, 301), (0, 300), (0, 300), (0, 300), (0, 300), (0, 300),
      (0, 300)]"

definition arc90_50_300 :: "point list" where
  "arc90_50_300 =
     [(60, 300), (59, 300), (59, 300), (59, 300), (59, 300), (59, 300), (59, 301), (59, 301),
      (59, 301), (59, 301), (59, 301), (59, 301), (59, 302), (59, 302), (59, 302), (59, 302),
      (59, 302), (59, 302), (59, 303), (59, 303), (59, 303), (59, 303), (59, 303), (59, 303),
      (59, 304), (59, 304), (58, 304), (58, 304), (58, 304), (58, 304), (58, 305), (58, 305),
      (58, 305), (58, 305), (58, 305), (58, 305), (58, 305), (57, 306), (57, 306), (57, 306),
      (57, 306), (57, 306), (57, 306), (57, 306), (57, 306), (57, 307), (56, 307), (56, 307),
      (56, 307), (56, 307), (56, 307), (56, 307), (56, 307), (56, 307), (55, 308), (55, 308),
      (55, 308), (55, 308), (55, 308), (55, 308), (55, 308), (54, 308), (54, 308), (54, 308),
      (54, 308), (54, 309), (54, 309), (53, 309), (53, 309), (53, 309), (53, 309), (53, 309),
      (53, 309), (52, 309), (52, 309), (52, 309), (52, 309), (52, 309), (52, 309), (51, 309),
      (51, 309), (51, 309), (51, 309), (51, 309), (51, 309), (50, 309), (50, 309), (50, 309),
      (50, 309), (50, 309), (50, 310)]"

definition arc90_50_400 :: "point list" where
  "arc90_50_400 =
     [(50, 390), (50, 390), (50, 390), (50, 390), (50, 390), (50, 390), (51, 390), (51, 390),
      (51, 390), (51, 390), (51, 390), (51, 390), (52, 390), (52, 390), (52, 390), (52, 390),
      (52, 390), (52, 390), (53, 390), (53, 390), (53, 390), (53, 390), (53, 390), (53, 390),
      (54, 390), (54, 390), (54, 391), (54, 391), (54, 391), (54, 391), (55, 391), (55, 391),
      (55, 391), (55, 391), (55, 391), (55, 391), (55, 391), (56, 392), (56, 392), (56, 392),
      (56, 392), (56, 392), (56, 392), (56, 392), (56, 392), (57, 392), (57, 393), (57, 393),
      (57, 393), (57, 393), (57, 393), (57, 393), (57, 393), (57, 393), (58, 394), (58, 394),
      (58, 394), (58, 394), (58, 394), (58, 394), (58, 395), (58, 395), (58, 395), (58, 395),
      (58, 395), (59, 395), (59, 395), (59, 396), (59, 396), (59, 396), (59, 396), (59, 396),
      (59, 396), (59, 397), (59, 397), (59, 397), (59, 397), (59, 397), (59, 397), (59, 398),
      (59, 398), (59, 398), (59, 398), (59, 398), (59, 398), (59, 399), (59, 399), (59, 399),
      (59, 399), (59, 399), (60, 400)]"

definition arc90_10_400 :: "point list" where
  "arc90_10_400 =
     [(0, 400), (0, 399), (0, 399), (0, 399), (0, 399), (0, 399), (0, 398), (0, 398), (0, 398),
      (0, 398), (0, 398), (0, 398), (0, 397), (0, 397), (0, 397), (0, 397), (0, 397), (0, 397),
      (0, 396), (0, 396), (0, 396), (0, 396), (0, 396), (0, 396), (0, 395), (0, 395), (1, 395),
      (1, 395), (1, 395), (1, 395), (1, 395), (1, 394), (1, 394), (1, 394), (1, 394), (1, 394),
      (1, 394), (2, 393), (2, 393), (2, 393), (2, 393), (2, 393), (2, 393), (2, 393), (2, 393),
      (2, 392), (3, 392), (3, 392), (3, 392), (3, 392), (3, 392), (3, 392), (3, 392), (3, 392),
      (4, 391), (4, 391), (4, 391), (4, 391), (4, 391), (4, 391), (4, 391), (5, 391), (5, 391),
      (5, 391), (5, 391), (5, 390), (5, 390), (6, 390), (6, 390), (6, 390), (6, 390), (6, 390),
      (6, 390), (7, 390), (7, 390), (7, 390), (7, 390), (7, 390), (7, 390), (8, 390), (8, 390),
      (8, 390), (8, 390), (8, 390), (8, 390), (9, 390), (9, 390), (9, 390), (9, 390), (9, 390),
      (9, 390)]"

definition arc90_1450_300 :: "point list" where
  "arc90_1450_300 =
     [(1450, 310), (1449, 309), (1449, 309), (1449, 309), (1449, 309), (1449, 309), (1448, 309),
      (1448, 309), (1448, 309), (1448, 309), (1448, 309), (1448, 309), (1447, 309), (1447, 309),
      (1447, 309), (1447, 309), (1447, 309), (1447, 309), (1446, 309), (1446, 309), (1446, 309),
      (1446, 309), (1446, 309), (1446, 309), (1445, 309), (1445, 309), (1445, 308), (1445, 308),
      (1445, 308), (1445, 308), (1445, 308), (1444, 308), (1444, 308), (1444, 308), (1444, 308),
      (1444, 308), (1444, 308), (1443, 307), (1443, 307), (1443, 307), (1443, 307), (1443, 307),
      (1443, 307), (1443, 307), (1443, 307), (1442, 307), (1442, 306), (1442, 306), (1442, 306),
      (1442, 306), (1442, 306), (1442, 306), (1442, 306), (1442, 306), (1441, 305), (1441, 305),
      (1441, 305), (1441, 305), (1441, 305), (1441, 305), (1441, 305), (1441, 304), (1441, 304),
      (1441, 304), (1441, 304), (1440, 304), (1440, 304), (1440, 303), (1440, 303), (1440, 303),
      (1440, 303), (1440, 303), (1440, 303), (1440, 302), (1440, 302), (1440, 302), (1440, 302),
      (1440, 302), (1440, 302), (1440, 301), (1440, 301), (1440, 301), (1440, 301), (1440, 301),
      (1440, 301), (1440, 300), (1440, 300), (1440, 300), (1440, 300), (1440, 300), (1440, 300)]"

definition arc90_1490_300 :: "point list" where
  "arc90_1490_300 =
     [(1500, 300), (1499, 300), (1499, 300), (1499, 300), (1499, 300), (1499, 300), (1499, 301),
      (1499, 301), (1499, 301), (1499, 301), (1499, 301), (1499, 301), (1499, 302), (1499, 302),
      (1499, 302), (1499, 302), (1499, 302), (1499, 302), (1499, 303), (1499, 303), (1499, 303),
      (1499, 303), (1499, 303), (1499, 303), (1499, 304), (1499, 304), (1498, 304), (1498, 304),
      (1498, 304), (1498, 304), (1498, 305), (1498, 305), (1498, 305), (1498, 305), (1498, 305),
      (1498, 305), (1498, 305), (1497, 306), (1497, 306), (1497, 306), (1497, 306), (1497, 306),
      (1497, 306), (1497, 306), (1497, 306), (1497, 307), (1496, 307), (1496, 307), (1496, 307),
      (1496, 307), (1496, 307), (1496, 307), (1496, 307), (1496, 307), (1495, 308), (1495, 308),
      (1495, 308), (1495, 308), (1495, 308), (1495, 308), (1495, 308), (1494, 308), (1494, 308),
      (1494, 308), (1494, 308), (1494, 309), (1494, 309), (1493, 309), (1493, 309), (1493, 309),
      (1493, 309), (1493, 309), (1493, 309), (1492, 309), (1492, 309), (1492, 309), (1492, 309),
      (1492, 309), (1492, 309), (1491, 309), (1491, 309), (1491, 309), (1491, 309), (1491, 309),
      (1491, 309), (1490, 309), (1490, 309), (1490, 309), (1490, 309), (1490, 309), (1490, 310)]"

definition arc90_1490_400 :: "point list" where
  "arc90_1490_400 =
     [(1490, 390), (1490, 390), (1490, 390), (1490, 390), (1490, 390), (1490, 390), (1491, 390),
      (1491, 390), (1491, 390), (1491, 390), (1491, 390), (1491, 390), (1492, 390), (1492, 390),
      (1492, 390), (1492, 390), (1492, 390), (1492, 390), (1493, 390), (1493, 390), (1493, 390),
      (1493, 390), (1493, 390), (1493, 390), (1494, 390), (1494, 390), (1494, 391), (1494, 391),
      (1494, 391), (1494, 391), (1495, 391), (1495, 391), (1495, 391), (1495, 391), (1495, 391),
      (1495, 391), (1495, 391), (1496, 392), (1496, 392), (1496, 392), (1496, 392), (1496, 392),
      (1496, 392), (1496, 392), (1496, 392), (1497, 392), (1497, 393), (1497, 393), (1497, 393),
      (1497, 393), (1497, 393), (1497, 393), (1497, 393), (1497, 393), (1498, 394), (1498, 394),
      (1498, 394), (1498, 394), (1498, 394), (1498, 394), (1498, 395), (1498, 395), (1498, 395),
      (1498, 395), (1498, 395), (1499, 395), (1499, 395), (1499, 396), (1499, 396), (1499, 396),
      (1499, 396), (1499, 396), (1499, 396), (1499, 397), (1499, 397), (1499, 397), (1499, 397),
      (1499, 397), (1499, 397), (1499, 398), (1499, 398), (1499, 398), (1499, 398), (1499, 398),
      (1499, 398), (1499, 399), (1499, 399), (1499, 399), (1499, 399), (1499, 399), (1500, 400)]"

definition arc90_1450_400 :: "point list" where
  "arc90_1450_400 =
     [(1440, 400), (1440, 399), (1440, 399), (1440, 399), (1440, 399), (1440, 399), (1440, 398),
      (1440, 398), (1440, 398), (1440, 398), (1440, 398), (1440, 398), (1440, 397), (1440, 397),
      (1440, 397), (1440, 397), (1440, 397), (1440, 397), (1440, 396), (1440, 396), (1440, 396),
      (1440, 396), (1440, 396), (1440, 396), (1440, 395), (1440, 395), (1441, 395), (1441, 395),
      (1441, 395), (1441, 395), (1441, 395), (1441, 394), (1441, 394), (1441, 394), (1441, 394),
      (1441, 394), (1441, 394), (1442, 393), (1442, 393), (1442, 393), (1442, 393), (1442, 393),
      (1442, 393), (1442, 393), (1442, 393), (1442, 392), (1443, 392), (1443, 392), (1443, 392),
      (1443, 392), (1443, 392), (1443, 392), (1443, 392), (1443, 392), (1444, 391), (1444, 391),
      (1444, 391), (1444, 391), (1444, 391), (1444, 391), (1445, 391), (1445, 391), (1445, 391),
      (1445, 391), (1445, 391), (1445, 390), (1445, 390), (1446, 390), (1446, 390), (1446, 390),
      (1446, 390), (1446, 390), (1446, 390), (1447, 390), (1447, 390), (1447, 390), (1447, 390),
      (1447, 390), (1447, 390), (1448, 390), (1448, 390), (1448, 390), (1448, 390), (1448, 390),
      (1448, 390), (1449, 390), (1449, 390), (1449, 390), (1449, 390), (1449, 390), (1450, 390)]"

definition arc15_10_300 :: "point list" where
  "arc15_10_300 =
     [(10, 310), (8, 309), (7, 309), (6, 309), (5, 309), (5, 308), (4, 308), (3, 307), (2, 306),
      (1, 305), (1, 305), (0, 304), (0, 303), (0, 302), (0, 301), (0, 300)]"

definition arc15_50_300 :: "point list" where
  "arc15_50_300 =
     [(60, 300), (59, 301), (59, 302), (59, 303), (59, 304), (58, 305), (58, 305), (57, 306),
      (56, 307), (55, 308), (55, 308), (54, 309), (53, 309), (52, 309), (51, 309), (50, 310)]"

definition arc15_50_400 :: "point list" where
  "arc15_50_400 =
     [(50, 390), (51, 390), (52, 390), (53, 390), (54, 390), (55, 391), (55, 391), (56, 392),
      (57, 393), (58, 394), (58, 395), (59, 395), (59, 396), (59, 397), (59, 398), (60, 400)]"

definition arc15_10_400 :: "point list" where
  "arc15_10_400 =
     [(0, 400), (0, 398), (0, 397), (0, 396), (0, 395), (1, 395), (1, 394), (2, 393), (3, 392),
      (4, 391), (4, 391), (5, 390), (6, 390), (7, 390), (8, 390), (9, 390)]"

definition arc15_1450_300 :: "point list" where
  "arc15_1450_300 =
     [(1450, 310), (1448, 309), (1447, 309), (1446, 309), (1445, 309), (1445, 308), (1444, 308),
      (1443, 307), (1442, 306), (1441, 305), (1441, 305), (1440, 304), (1440, 303), (1440, 302),
      (1440, 301), (1440, 300)]"

definition arc15_1490_300 :: "point list" where
  "arc15_1490_300 =
     [(1500, 300), (1499, 301), (1499, 302), (1499, 303), (1499, 304), (1498, 305), (1498, 305),
      (1497, 306), (1496, 307), (1495, 308), (1495, 308), (1494, 309), (1493, 309), (1492, 309),
      (1491, 309), (1490, 310)]"

definition arc15_1490_400 :: "point list" where
  "arc15_1490_400 =
     [(1490, 390), (1491, 390), (1492, 390), (1493, 390), (1494, 390), (1495, 391), (1495, 391),
      (1496, 392), (1497, 393), (1498, 394), (1498, 395), (1499, 395), (1499, 396), (1499, 397),
      (1499, 398), (1500, 400)]"

definition arc15_1450_400 :: "point list" where
  "arc15_1450_400 =
     [(1440, 400), (1440, 398), (1440, 397), (1440, 396), (1440, 395), (1441, 395), (1441, 394),
      (1442, 393), (1443, 392), (1444, 391), (1445, 391), (1445, 390), (1446, 390), (1447, 390),
      (1448, 390), (1450, 390)]"

definition circle72_750_350 :: "point list" where
  "circle72_750_350 =
     [(770, 350), (769, 351), (769, 353), (769, 355), (768, 356), (768, 358), (767, 360),
      (766, 361), (765, 362), (764, 364), (762, 365), (761, 366), (760, 367), (758, 368),
      (756, 368), (755, 369), (753, 369), (751, 369), (750, 370), (748, 369), (746, 369),
      (744, 369), (743, 368), (741, 368), (740, 367), (738, 366), (737, 365), (735, 364),
      (734, 362), (733, 361), (732, 360), (731, 358), (731, 356), (730, 355), (730, 353),
      (730, 351), (730, 350), (730, 348), (730, 346), (730, 344), (731, 343), (731, 341),
      (732, 340), (733, 338), (734, 337), (735, 335), (737, 334), (738, 333), (740, 332),
      (741, 331), (743, 331), (744, 330), (746, 330), (748, 330), (750, 330), (751, 330),
      (753, 330), (755, 330), (756, 331), (758, 331), (760, 332), (761, 333), (762, 334),
      (764, 335), (765, 337), (766, 338), (767, 340), (768, 341), (768, 343), (769, 344),
      (769, 346), (769, 348), (770, 350)]"

definition arc15_10_290 :: "point list" where
  "arc15_10_290 =
     [(10, 300), (8, 299), (7, 299), (6, 299), (5, 299), (5, 298), (4, 298), (3, 297), (2, 296),
      (1, 295), (1, 295), (0, 294), (0, 293), (0, 292), (0, 291), (0, 290)]"

definition arc15_50_290 :: "point list" where
  "arc15_50_290 =
     [(60, 290), (59, 291), (59, 292), (59, 293), (59, 294), (58, 295), (58, 295), (57, 296),
      (56, 297), (55, 298), (55, 298), (54, 299), (53, 299), (52, 299), (51, 299), (50, 300)]"

definition arc15_50_390 :: "point list" where
  "arc15_50_390 =
     [(50, 380), (51, 380), (52, 380), (53, 380), (54, 380), (55, 381), (55, 381), (56, 382),
      (57, 383), (58, 384), (58, 385), (59, 385), (59, 386), (59, 387), (59, 388), (60, 390)]"

definition arc15_10_390 :: "point list" where
  "arc15_10_390 =
     [(0, 390), (0, 388), (0, 387), (0, 386), (0, 385), (1, 385), (1, 384), (2, 383), (3, 382),
      (4, 381), (4, 381), (5, 380), (6, 380), (7, 380), (8, 380), (9, 380)]"

definition measurements :: "((point \<times> int \<times> nat) \<times> point list) list" where
  "measurements =
     [(((80, 350), 20, 360), circle360_80_350),
      (((30, 270), 20, 360), circle360_30_270),
      (((30, 430), 20, 360), circle360_30_430),
      (((20, 350), 20, 360), circle360_20_350),
      (((20, 350), 20, 72), circle72_20_350),
      (((760, 350), 20, 72), circle72_760_350),
      (((10, 300), 10, 90), arc90_10_300),
      (((50, 300), 10, 90), arc90_50_300),
      (((50, 400), 10, 90), arc90_50_400),
      (((10, 400), 10, 90), arc90_10_400),
      (((1450, 300), 10, 90), arc90_1450_300),
      (((1490, 300), 10, 90), arc90_1490_300),
      (((1490, 400), 10, 90), arc90_1490_400),
      (((1450, 400), 10, 90), arc90_1450_400),
      (((10, 300), 10, 15), arc15_10_300),
      (((50, 300), 10, 15), arc15_50_300),
      (((50, 400), 10, 15), arc15_50_400),
      (((10, 400), 10, 15), arc15_10_400),
      (((1450, 300), 10, 15), arc15_1450_300),
      (((1490, 300), 10, 15), arc15_1490_300),
      (((1490, 400), 10, 15), arc15_1490_400),
      (((1450, 400), 10, 15), arc15_1450_400),
      (((750, 350), 20, 72), circle72_750_350),
      (((10, 290), 10, 15), arc15_10_290),
      (((50, 290), 10, 15), arc15_50_290),
      (((50, 390), 10, 15), arc15_50_390),
      (((10, 390), 10, 15), arc15_10_390)]"

definition measured_sample :: sampler where
  "measured_sample center radius number_points start_angle end_angle i =
     (case map_of measurements (center, radius, number_points) of
        Some points \<Rightarrow> points ! i
      | None \<Rightarrow> center)"

text \<open>
  The contract \<^verbatim>\<open>ballHitsPaddleRegion\<close> of the specification: for each paddle in turn the
  side region is checked first, then the top, then the bottom, and the first match wins.
  The side region of a player's paddle is the one the engine tests, region number
  \<open>player\<close>. \<open>ballHitsPaddleRegion\<close> is the contract for \<^verbatim>\<open>Pong.py\<close>, which reports
  nothing inside the culling zone and samples with 360 and 90 points.
\<close>

datatype hit = Side nat | Top nat | Bottom nat

fun first_hit :: "(nat \<Rightarrow> nat \<Rightarrow> bool) \<Rightarrow> nat list \<Rightarrow> hit option" where
  "first_hit t [] = None"
| "first_hit t (player # rest) =
     (if t player player then Some (Side player)
      else if t player 2 then Some (Top player)
      else if t player 3 then Some (Bottom player)
      else first_hit t rest)"

definition ballHitsPaddleRegion :: "sampler \<Rightarrow> engine \<Rightarrow> hit option" where
  "ballHitsPaddleRegion smp s =
     (if PADDLE_WIDTH * 2 < fst (tentative s) \<and> fst (tentative s) < board_width s - PADDLE_WIDTH * 2
      then None
      else first_hit (touches smp 360 90 s) [0..<length (paddles s)])"

section \<open>Basic facts\<close>

lemma index_Some: "index xs i = Some x \<longleftrightarrow> i < length xs \<and> x = xs ! i"
  by (auto simp: index_def)

lemma index_in_range: "i < length xs \<Longrightarrow> index xs i = Some (xs ! i)"
  by (simp add: index_def)

lemma range_py_dirs: "range_py (-1) 2 = [-1, 0, 1]"
  by (simp add: range_py_def upto.simps)

lemma choice_Some: "choice xs g = Some (x, g') \<Longrightarrow> x \<in> set xs \<and> g' = (\<lambda>i. g (Suc i))"
  by (auto simp: choice_def split: if_splits)

lemma choice_first: "xs \<noteq> [] \<Longrightarrow> choice xs (\<lambda>_. 0) = Some (xs ! 0, \<lambda>_. 0)"
  by (simp add: choice_def)

lemma enumerate_two: "length xs = 2 \<Longrightarrow> enumerate_py xs = [(0, xs ! 0), (1, xs ! 1)]"
  by (cases xs; cases "tl xs") (auto simp: enumerate_py_def upt_rec)

lemma circle_points_Some:
  "0 < n \<Longrightarrow> get_circle_points smp c r n a b = Some (set (map (smp c r n a b) [0..<n + 1]))"
  by (simp add: get_circle_points_def)

lemma regions_Some:
  "0 < n \<Longrightarrow> \<exists>pp. get_rounded_rectangle_points smp c w h r n = Some pp \<and> length pp = 4"
  by (simp add: get_rounded_rectangle_points_def get_circle_points_def Let_def)

lemma regions_length:
  "0 < n \<Longrightarrow> length (the (get_rounded_rectangle_points smp c w h r n)) = 4"
  using regions_Some[of n smp c w h r] by auto

lemma ball_move_amounts_first: "ball_move_amounts \<noteq> [] \<and> ball_move_amounts ! 0 = (10, 5)"
  by (simp add: ball_move_amounts_def range_py_def upto.simps)

lemma main_ball_move_amounts_first: "main_ball_move_amounts \<noteq> [] \<and> main_ball_move_amounts ! 0 = (4, 4)"
  by (simp add: main_ball_move_amounts_def range_py_def upto.simps)

lemma kickoff_simps:
  "board_width kickoff = 1500" "board_height kickoff = 700" "ball_move_pixels kickoff = (10, 5)"
  "current_ball_direction kickoff = (1, 0)" "ball_position kickoff = (750, 350)"
  "paddles kickoff = [(30, 350), (1470, 350)]" "paddle_sizes kickoff = [120, 120]"
  "paddle_move_pixels kickoff = 10" "cpus kickoff = [False, False]" "scores kickoff = [0, 0]"
  "rally_counter kickoff = [0, 0]"
  by (simp_all add: kickoff_def Engine_def WIDTH_def HEIGHT_def)

lemma two_players_kickoff: "two_players kickoff"
  by (simp add: two_players_def kickoff_simps)

subsection \<open>The collision loop\<close>

lemma loop_Cons:
  "0 < na \<Longrightarrow> check_paddle_collision_loop smp na amounts bp cx ((player, paddle) # rest) g s =
     (if player < length (paddle_sizes s) \<and> player < 4 then
        if \<not> isdisjoint bp (the (get_rounded_rectangle_points smp paddle PADDLE_WIDTH (paddle_sizes s ! player) 10 na) ! player)
        then do { (dy, g1) \<leftarrow> choice (range_py (-1) 2) g;
                  (mv, g2) \<leftarrow> choice amounts g1;
                  rc \<leftarrow> index (rally_counter s) player;
                  Some (True, bounce s cx player dy mv, g2) }
        else if \<not> isdisjoint bp (the (get_rounded_rectangle_points smp paddle PADDLE_WIDTH (paddle_sizes s ! player) 10 na) ! 2)
        then do { (mv, g1) \<leftarrow> choice amounts g;
                  rc \<leftarrow> index (rally_counter s) player;
                  Some (True, bounce s cx player (-1) mv, g1) }
        else if \<not> isdisjoint bp (the (get_rounded_rectangle_points smp paddle PADDLE_WIDTH (paddle_sizes s ! player) 10 na) ! 3)
        then do { (mv, g1) \<leftarrow> choice amounts g;
                  rc \<leftarrow> index (rally_counter s) player;
                  Some (True, bounce s cx player 1 mv, g1) }
        else check_paddle_collision_loop smp na amounts bp cx rest g s
      else None)"
  using regions_Some[of na smp paddle PADDLE_WIDTH "paddle_sizes s ! player" 10]
  by (auto simp: index_def Let_def bounce_def)

lemma bounce_side_Some:
  assumes "do { (dy, g1) \<leftarrow> choice (range_py (-1) 2) g;
                (mv, g2) \<leftarrow> choice amounts g1;
                rc \<leftarrow> index (rally_counter s) player;
                Some (True, bounce s cx player dy mv, g2) } = Some (hit, s1, g')"
  shows "\<exists>dy mv. player < length (rally_counter s) \<and> dy \<in> {-1, 0, 1} \<and> mv \<in> set amounts \<and> hit \<and>
           s1 = bounce s cx player dy mv"
proof -
  from assms obtain dy g1 where 1: "choice (range_py (-1) 2) g = Some (dy, g1)"
    by (cases "choice (range_py (-1) 2) g") auto
  with assms obtain mv g2 where 2: "choice amounts g1 = Some (mv, g2)"
    by (cases "choice amounts g1") auto
  from assms 1 2 have 3: "player < length (rally_counter s)" and 4: "hit"
    and 5: "s1 = bounce s cx player dy mv"
    by (auto simp: index_def split: if_splits)
  from 1 have "dy \<in> {-1, 0, 1}" by (auto dest!: choice_Some simp: range_py_dirs)
  moreover from 2 have "mv \<in> set amounts" by (auto dest!: choice_Some)
  ultimately show ?thesis using 3 4 5 by blast
qed

lemma bounce_flat_Some:
  assumes "do { (mv, g1) \<leftarrow> choice amounts g;
                rc \<leftarrow> index (rally_counter s) player;
                Some (True, bounce s cx player dy mv, g1) } = Some (hit, s1, g')"
  shows "\<exists>mv. player < length (rally_counter s) \<and> mv \<in> set amounts \<and> hit \<and>
           s1 = bounce s cx player dy mv"
proof -
  from assms obtain mv g1 where 2: "choice amounts g = Some (mv, g1)"
    by (cases "choice amounts g") auto
  from assms 2 have 3: "player < length (rally_counter s)" and 4: "hit"
    and 5: "s1 = bounce s cx player dy mv"
    by (auto simp: index_def split: if_splits)
  from 2 have "mv \<in> set amounts" by (auto dest!: choice_Some)
  then show ?thesis using 3 4 5 by blast
qed

text \<open>Whatever the loop returns: either no hit and nothing changed, or one bounce.\<close>

lemma loop_result:
  "0 < na \<Longrightarrow> check_paddle_collision_loop smp na amounts bp cx ps g s = Some (hit, s1, g1) \<Longrightarrow>
   (\<not> hit \<and> s1 = s \<and> g1 = g) \<or>
   (hit \<and> (\<exists>player dy mv. player < length (rally_counter s) \<and> dy \<in> {-1, 0, 1} \<and>
      mv \<in> set amounts \<and> s1 = bounce s cx player dy mv))"
proof (induction ps)
  case Nil
  then show ?case by simp
next
  case (Cons a ps)
  obtain player paddle where a: "a = (player, paddle)" by (cases a)
  note step = Cons.prems(2)[unfolded a loop_Cons[OF Cons.prems(1)]]
  show ?case
  proof (cases "player < length (paddle_sizes s) \<and> player < 4")
    case False
    with step show ?thesis by simp
  next
    case rng: True
    define pp where
      "pp = the (get_rounded_rectangle_points smp paddle PADDLE_WIDTH (paddle_sizes s ! player) 10 na)"
    note step' = step[folded pp_def]
    consider (side) "\<not> isdisjoint bp (pp ! player)"
      | (top) "isdisjoint bp (pp ! player)" "\<not> isdisjoint bp (pp ! 2)"
      | (bottom) "isdisjoint bp (pp ! player)" "isdisjoint bp (pp ! 2)" "\<not> isdisjoint bp (pp ! 3)"
      | (none) "isdisjoint bp (pp ! player)" "isdisjoint bp (pp ! 2)" "isdisjoint bp (pp ! 3)"
      by blast
    then show ?thesis
    proof cases
      case side
      with step' rng have "do { (dy, g1) \<leftarrow> choice (range_py (-1) 2) g;
                  (mv, g2) \<leftarrow> choice amounts g1;
                  rc \<leftarrow> index (rally_counter s) player;
                  Some (True, bounce s cx player dy mv, g2) } = Some (hit, s1, g1)" by simp
      from bounce_side_Some[OF this] show ?thesis by blast
    next
      case top
      with step' rng have "do { (mv, g1) \<leftarrow> choice amounts g;
                  rc \<leftarrow> index (rally_counter s) player;
                  Some (True, bounce s cx player (-1) mv, g1) } = Some (hit, s1, g1)" by simp
      from bounce_flat_Some[OF this] show ?thesis by blast
    next
      case bottom
      with step' rng have "do { (mv, g1) \<leftarrow> choice amounts g;
                  rc \<leftarrow> index (rally_counter s) player;
                  Some (True, bounce s cx player 1 mv, g1) } = Some (hit, s1, g1)" by simp
      from bounce_flat_Some[OF this] show ?thesis by blast
    next
      case none
      with step' rng
      have "check_paddle_collision_loop smp na amounts bp cx ps g s = Some (hit, s1, g1)"
        by simp
      with Cons.IH[OF Cons.prems(1)] show ?thesis by simp
    qed
  qed
qed

lemma culled:
  assumes "PADDLE_WIDTH * 2 < fst (tentative s)" "fst (tentative s) < board_width s - PADDLE_WIDTH * 2"
  shows "check_paddle_collision smp g s = Some (False, s, g)"
  using assms by (simp add: check_paddle_collision_def tentative_def Let_def split: prod.splits)

lemma check_paddle_collision_result:
  assumes "check_paddle_collision smp g s = Some (hit, s1, g1)"
  shows "(\<not> hit \<and> s1 = s \<and> g1 = g) \<or>
         (hit \<and> (\<exists>player dy mv. player < length (rally_counter s) \<and> dy \<in> {-1, 0, 1} \<and>
            mv \<in> set ball_move_amounts \<and>
            s1 = bounce s (fst (current_ball_direction s)) player dy mv))"
proof (cases "PADDLE_WIDTH * 2 < fst (tentative s) \<and> fst (tentative s) < board_width s - PADDLE_WIDTH * 2")
  case True
  with assms culled[of s smp g] show ?thesis by simp
next
  case False
  with assms have "check_paddle_collision_loop smp 90 ball_move_amounts
      (the (get_circle_points smp (tentative s) BALL_RADIUS 360 0 (2 * pi)))
      (fst (current_ball_direction s)) (enumerate_py (paddles s)) g s = Some (hit, s1, g1)"
    by (simp add: check_paddle_collision_def tentative_def Let_def circle_points_Some
        split: prod.splits if_splits)
  then show ?thesis by (rule loop_result[rotated]) simp
qed

lemma main_check_paddle_collision_result:
  assumes "main_check_paddle_collision smp g s = Some (hit, s1, g1)"
  shows "(\<not> hit \<and> s1 = s \<and> g1 = g) \<or>
         (hit \<and> (\<exists>player dy mv. player < length (rally_counter s) \<and> dy \<in> {-1, 0, 1} \<and>
            mv \<in> set main_ball_move_amounts \<and>
            s1 = bounce s (fst (current_ball_direction s)) player dy mv))"
proof -
  from assms have "check_paddle_collision_loop smp 15 main_ball_move_amounts
      (the (get_circle_points smp (tentative s) BALL_RADIUS 72 0 (2 * pi)))
      (fst (current_ball_direction s)) (enumerate_py (paddles s)) g s = Some (hit, s1, g1)"
    by (simp add: main_check_paddle_collision_def tentative_def Let_def circle_points_Some
        split: prod.splits)
  then show ?thesis by (rule loop_result[rotated]) simp
qed

section \<open>The claims\<close>

text \<open>
  C6. In \<^verbatim>\<open>Pong.py\<close>, while the x-coordinate a collision check looks at lies strictly
  between \<open>2 * PADDLE_WIDTH\<close> and \<open>board_width - 2 * PADDLE_WIDTH\<close>, the check reports
  no collision and changes nothing: direction, speed, rally counters, ball position and
  the random source are as before. The ball-moving check \<^verbatim>\<open>check_paddle_collision\<close>
  looks at the tentative x, the paddle-moving check \<^verbatim>\<open>check_ball_collision\<close> at the
  current x. Conversely a collision is only ever detected outside that zone.
\<close>

theorem culling_band:
  "(PADDLE_WIDTH * 2 < fst (tentative s) \<and> fst (tentative s) < board_width s - PADDLE_WIDTH * 2
      \<longrightarrow> check_paddle_collision smp g s = Some (False, s, g)) \<and>
   (PADDLE_WIDTH * 2 < fst (ball_position s) \<and> fst (ball_position s) < board_width s - PADDLE_WIDTH * 2
      \<longrightarrow> check_ball_collision smp s player new_y offset = Some False) \<and>
   (check_paddle_collision smp g s = Some (True, s1, g1)
      \<longrightarrow> fst (tentative s) \<le> PADDLE_WIDTH * 2 \<or> board_width s - PADDLE_WIDTH * 2 \<le> fst (tentative s)) \<and>
   (check_ball_collision smp s player new_y offset = Some True
      \<longrightarrow> fst (ball_position s) \<le> PADDLE_WIDTH * 2 \<or> board_width s - PADDLE_WIDTH * 2 \<le> fst (ball_position s))"
proof (intro conjI impI)
  assume "PADDLE_WIDTH * 2 < fst (tentative s) \<and> fst (tentative s) < board_width s - PADDLE_WIDTH * 2"
  then show "check_paddle_collision smp g s = Some (False, s, g)"
    by (simp add: culled)
next
  assume "PADDLE_WIDTH * 2 < fst (ball_position s) \<and> fst (ball_position s) < board_width s - PADDLE_WIDTH * 2"
  then show "check_ball_collision smp s player new_y offset = Some False"
    by (simp add: check_ball_collision_def Let_def)
next
  assume hit: "check_paddle_collision smp g s = Some (True, s1, g1)"
  show "fst (tentative s) \<le> PADDLE_WIDTH * 2 \<or> board_width s - PADDLE_WIDTH * 2 \<le> fst (tentative s)"
  proof (rule ccontr)
    assume "\<not> ?thesis"
    then have "check_paddle_collision smp g s = Some (False, s, g)" by (simp add: culled)
    with hit show False by simp
  qed
next
  assume hit: "check_ball_collision smp s player new_y offset = Some True"
  show "fst (ball_position s) \<le> PADDLE_WIDTH * 2 \<or> board_width s - PADDLE_WIDTH * 2 \<le> fst (ball_position s)"
  proof (rule ccontr)
    assume "\<not> ?thesis"
    then have "check_ball_collision smp s player new_y offset = Some False"
      by (simp add: check_ball_collision_def Let_def)
    with hit show False by simp
  qed
qed

lemma goal_tests_exclusive:
  "2 * BALL_RADIUS < board_width s \<Longrightarrow> board_width s - BALL_RADIUS \<le> fst (tentative s) \<Longrightarrow>
   BALL_RADIUS < fst (tentative s)"
  by simp

text \<open>
  C3. With two scores: if the tentative x is at most \<open>BALL_RADIUS\<close>, \<^verbatim>\<open>check_goal\<close>
  raises player two's score by exactly 1 and leaves player one's unchanged; if the
  tentative x is at least \<open>board_width - BALL_RADIUS\<close> (and beyond the left goal line,
  which on a board wider than the ball is no further condition, see \<open>goal_tests_exclusive\<close>),
  it raises player one's score by exactly 1 and leaves player two's unchanged; otherwise
  no score changes. Nothing but the score list changes, and the returned value names the
  scorer, in both files.
\<close>

theorem check_goal_scores:
  assumes "length (scores s) = 2"
  shows
  "(fst (tentative s) \<le> BALL_RADIUS \<longrightarrow>
      check_goal s = Some (Some ''two'', s\<lparr>scores := [scores s ! 0, scores s ! 1 + 1]\<rparr>) \<and>
      main_check_goal s = Some (''two'', s\<lparr>scores := [scores s ! 0, scores s ! 1 + 1]\<rparr>)) \<and>
   (BALL_RADIUS < fst (tentative s) \<and> board_width s - BALL_RADIUS \<le> fst (tentative s) \<longrightarrow>
      check_goal s = Some (Some ''one'', s\<lparr>scores := [scores s ! 0 + 1, scores s ! 1]\<rparr>) \<and>
      main_check_goal s = Some (''one'', s\<lparr>scores := [scores s ! 0 + 1, scores s ! 1]\<rparr>)) \<and>
   (BALL_RADIUS < fst (tentative s) \<and> fst (tentative s) < board_width s - BALL_RADIUS \<longrightarrow>
      check_goal s = Some (None, s) \<and> main_check_goal s = Some (''none'', s))"
proof -
  from assms obtain a b where ab: "scores s = [a, b]"
    by (cases "scores s"; cases "tl (scores s)") auto
  show ?thesis
    by (simp add: check_goal_def main_check_goal_def tentative_def index_def ab Let_def)
qed

theorem check_goal_scores_witness:
  "length (scores kickoff) = 2 \<and>
   fst (tentative left_goal) \<le> BALL_RADIUS \<and>
   check_goal left_goal = Some (Some ''two'', left_goal\<lparr>scores := [0, 1]\<rparr>) \<and>
   main_check_goal left_goal = Some (''two'', left_goal\<lparr>scores := [0, 1]\<rparr>) \<and>
   BALL_RADIUS < fst (tentative right_goal) \<and>
   board_width right_goal - BALL_RADIUS \<le> fst (tentative right_goal) \<and>
   check_goal right_goal = Some (Some ''one'', right_goal\<lparr>scores := [1, 0]\<rparr>) \<and>
   main_check_goal right_goal = Some (''one'', right_goal\<lparr>scores := [1, 0]\<rparr>) \<and>
   BALL_RADIUS < fst (tentative kickoff) \<and> fst (tentative kickoff) < board_width kickoff - BALL_RADIUS \<and>
   check_goal kickoff = Some (None, kickoff) \<and> main_check_goal kickoff = Some (''none'', kickoff)"
  using check_goal_scores[of left_goal] check_goal_scores[of right_goal] check_goal_scores[of kickoff]
  by (simp add: left_goal_def right_goal_def kickoff_simps tentative_def BALL_RADIUS_def BALL_DIAMETER_def)

lemma capitalize_players: "capitalize ''one'' = ''One''" "capitalize ''two'' = ''Two''"
  by code_simp+

lemma choice_zero_draws: "xs \<noteq> [] \<Longrightarrow> choice xs zero_draws = Some (xs ! 0, zero_draws)"
  by (simp add: choice_def zero_draws_def)

lemma ball_directions_member: "ball_directions ! (k mod length ball_directions) \<in> set ball_directions"
  by (rule nth_mem) (simp add: ball_directions_def)

text \<open>
  C5, as stated, fails for \<^verbatim>\<open>main.py\<close>: its \<^verbatim>\<open>reset\<close> also assigns
  \<^verbatim>\<open>self.paddles\<close>, so paddles standing at heights 100 and 600 are back at mid-height
  350 afterwards.
\<close>

theorem main_reset_moves_paddles:
  "paddles paddles_moved = [(30, 100), (1470, 600)] \<and>
   map_option (\<lambda>r. paddles (fst r)) (main_reset zero_draws paddles_moved) = Some [(30, 350), (1470, 350)]"
  by (simp add: paddles_moved_def kickoff_simps main_reset_def choice_zero_draws ball_directions_def
      PADDLE_WIDTH_def)

text \<open>
  C5, amended. For every prior state and every draw, \<^verbatim>\<open>reset\<close> returns; it sets the
  direction to a member \<open>d\<close> of the six directions, both rally counters to 0 and the ball
  position to \<open>(board_width div 2, board_height div 2)\<close>. In \<^verbatim>\<open>Pong.py\<close> nothing else
  changes: paddles and scores are as before. In \<^verbatim>\<open>main.py\<close> the scores are as before
  too, but the paddles are set to mid-height at the two ends of the board.
\<close>

theorem reset_effect:
  "\<exists>d. d \<in> set ball_directions \<and>
     reset g s = Some (s\<lparr>current_ball_direction := d, rally_counter := [0, 0],
                         ball_position := (board_width s div 2, board_height s div 2)\<rparr>,
                       \<lambda>i. g (Suc i)) \<and>
     main_reset g s = Some (s\<lparr>current_ball_direction := d, rally_counter := [0, 0],
                              ball_position := (board_width s div 2, board_height s div 2),
                              paddles := [(PADDLE_WIDTH div 2, board_height s div 2),
                                          (board_width s - PADDLE_WIDTH div 2, board_height s div 2)]\<rparr>,
                            \<lambda>i. g (Suc i))"
proof -
  have ne: "ball_directions \<noteq> []" by (simp add: ball_directions_def)
  have "ball_directions ! (g 0 mod length ball_directions) \<in> set ball_directions"
    by (rule ball_directions_member)
  moreover have "reset g s = Some (s\<lparr>current_ball_direction := ball_directions ! (g 0 mod length ball_directions),
      rally_counter := [0, 0], ball_position := (board_width s div 2, board_height s div 2)\<rparr>, \<lambda>i. g (Suc i))"
    using ne by (simp add: reset_def choice_def)
  moreover have "main_reset g s = Some (s\<lparr>current_ball_direction := ball_directions ! (g 0 mod length ball_directions),
      rally_counter := [0, 0], ball_position := (board_width s div 2, board_height s div 2),
      paddles := [(PADDLE_WIDTH div 2, board_height s div 2),
                  (board_width s - PADDLE_WIDTH div 2, board_height s div 2)]\<rparr>, \<lambda>i. g (Suc i))"
    using ne by (simp add: main_reset_def choice_def Let_def)
  ultimately show ?thesis by blast
qed

subsection \<open>The measured sampler\<close>

lemma measured_circle:
  assumes "map_of measurements (c, r, n) = Some ps" "length ps = n + 1" "0 < n"
  shows "get_circle_points measured_sample c r n a b = Some (set ps)"
proof -
  have "measured_sample c r n a b = (!) ps"
    by (rule ext) (simp add: measured_sample_def assms)
  then have "map (measured_sample c r n a b) [0..<n + 1] = map ((!) ps) [0..<length ps]"
    using assms by simp
  then show ?thesis using assms(3) by (simp add: get_circle_points_def map_nth)
qed

lemma circle360_80_350_length: "length circle360_80_350 = 361"
  by (simp add: circle360_80_350_def)

lemma circle360_80_350_points: "get_circle_points measured_sample (80, 350) 20 360 a b = Some (set circle360_80_350)"
  by (rule measured_circle) (simp_all add: measurements_def circle360_80_350_length)

lemma circle360_80_350_box: "\<forall>p\<in>set circle360_80_350. 60 \<le> fst p \<and> fst p \<le> 100 \<and> 330 \<le> snd p \<and> snd p \<le> 370"
  by (simp add: circle360_80_350_def)

lemma circle360_30_270_length: "length circle360_30_270 = 361"
  by (simp add: circle360_30_270_def)

lemma circle360_30_270_points: "get_circle_points measured_sample (30, 270) 20 360 a b = Some (set circle360_30_270)"
  by (rule measured_circle) (simp_all add: measurements_def circle360_30_270_length)

lemma circle360_30_270_box: "\<forall>p\<in>set circle360_30_270. 10 \<le> fst p \<and> fst p \<le> 50 \<and> 250 \<le> snd p \<and> snd p \<le> 290"
  by (simp add: circle360_30_270_def)

lemma circle360_30_430_length: "length circle360_30_430 = 361"
  by (simp add: circle360_30_430_def)

lemma circle360_30_430_points: "get_circle_points measured_sample (30, 430) 20 360 a b = Some (set circle360_30_430)"
  by (rule measured_circle) (simp_all add: measurements_def circle360_30_430_length)

lemma circle360_30_430_box: "\<forall>p\<in>set circle360_30_430. 10 \<le> fst p \<and> fst p \<le> 50 \<and> 410 \<le> snd p \<and> snd p \<le> 450"
  by (simp add: circle360_30_430_def)

lemma circle360_20_350_length: "length circle360_20_350 = 361"
  by (simp add: circle360_20_350_def)

lemma circle360_20_350_points: "get_circle_points measured_sample (20, 350) 20 360 a b = Some (set circle360_20_350)"
  by (rule measured_circle) (simp_all add: measurements_def circle360_20_350_length)

lemma circle360_20_350_box: "\<forall>p\<in>set circle360_20_350. 0 \<le> fst p \<and> fst p \<le> 40 \<and> 330 \<le> snd p \<and> snd p \<le> 370"
  by (simp add: circle360_20_350_def)

lemma circle72_20_350_length: "length circle72_20_350 = 73"
  by (simp add: circle72_20_350_def)

lemma circle72_20_350_points: "get_circle_points measured_sample (20, 350) 20 72 a b = Some (set circle72_20_350)"
  by (rule measured_circle) (simp_all add: measurements_def circle72_20_350_length)

lemma circle72_20_350_box: "\<forall>p\<in>set circle72_20_350. 0 \<le> fst p \<and> fst p \<le> 40 \<and> 330 \<le> snd p \<and> snd p \<le> 370"
  by (simp add: circle72_20_350_def)

lemma circle72_760_350_length: "length circle72_760_350 = 73"
  by (simp add: circle72_760_350_def)

lemma circle72_760_350_points: "get_circle_points measured_sample (760, 350) 20 72 a b = Some (set circle72_760_350)"
  by (rule measured_circle) (simp_all add: measurements_def circle72_760_350_length)

lemma circle72_760_350_box: "\<forall>p\<in>set circle72_760_350. 740 \<le> fst p \<and> fst p \<le> 780 \<and> 330 \<le> snd p \<and> snd p \<le> 370"
  by (simp add: circle72_760_350_def)

lemma arc90_10_300_length: "length arc90_10_300 = 91"
  by (simp add: arc90_10_300_def)

lemma arc90_10_300_points: "get_circle_points measured_sample (10, 300) 10 90 a b = Some (set arc90_10_300)"
  by (rule measured_circle) (simp_all add: measurements_def arc90_10_300_length)

lemma arc90_10_300_box: "\<forall>p\<in>set arc90_10_300. 0 \<le> fst p \<and> fst p \<le> 10 \<and> 300 \<le> snd p \<and> snd p \<le> 310"
  by (simp add: arc90_10_300_def)

lemma arc90_50_300_length: "length arc90_50_300 = 91"
  by (simp add: arc90_50_300_def)

lemma arc90_50_300_points: "get_circle_points measured_sample (50, 300) 10 90 a b = Some (set arc90_50_300)"
  by (rule measured_circle) (simp_all add: measurements_def arc90_50_300_length)

lemma arc90_50_300_box: "\<forall>p\<in>set arc90_50_300. 50 \<le> fst p \<and> fst p \<le> 60 \<and> 300 \<le> snd p \<and> snd p \<le> 310"
  by (simp add: arc90_50_300_def)

lemma arc90_50_400_length: "length arc90_50_400 = 91"
  by (simp add: arc90_50_400_def)

lemma arc90_50_400_points: "get_circle_points measured_sample (50, 400) 10 90 a b = Some (set arc90_50_400)"
  by (rule measured_circle) (simp_all add: measurements_def arc90_50_400_length)

lemma arc90_50_400_box: "\<forall>p\<in>set arc90_50_400. 50 \<le> fst p \<and> fst p \<le> 60 \<and> 390 \<le> snd p \<and> snd p \<le> 400"
  by (simp add: arc90_50_400_def)

lemma arc90_10_400_length: "length arc90_10_400 = 91"
  by (simp add: arc90_10_400_def)

lemma arc90_10_400_points: "get_circle_points measured_sample (10, 400) 10 90 a b = Some (set arc90_10_400)"
  by (rule measured_circle) (simp_all add: measurements_def arc90_10_400_length)

lemma arc90_10_400_box: "\<forall>p\<in>set arc90_10_400. 0 \<le> fst p \<and> fst p \<le> 9 \<and> 390 \<le> snd p \<and> snd p \<le> 400"
  by (simp add: arc90_10_400_def)

lemma arc90_1450_300_length: "length arc90_1450_300 = 91"
  by (simp add: arc90_1450_300_def)

lemma arc90_1450_300_points: "get_circle_points measured_sample (1450, 300) 10 90 a b = Some (set arc90_1450_300)"
  by (rule measured_circle) (simp_all add: measurements_def arc90_1450_300_length)

lemma arc90_1450_300_box: "\<forall>p\<in>set arc90_1450_300. 1440 \<le> fst p \<and> fst p \<le> 1450 \<and> 300 \<le> snd p \<and> snd p \<le> 310"
  by (simp add: arc90_1450_300_def)

lemma arc90_1490_300_length: "length arc90_1490_300 = 91"
  by (simp add: arc90_1490_300_def)

lemma arc90_1490_300_points: "get_circle_points measured_sample (1490, 300) 10 90 a b = Some (set arc90_1490_300)"
  by (rule measured_circle) (simp_all add: measurements_def arc90_1490_300_length)

lemma arc90_1490_300_box: "\<forall>p\<in>set arc90_1490_300. 1490 \<le> fst p \<and> fst p \<le> 1500 \<and> 300 \<le> snd p \<and> snd p \<le> 310"
  by (simp add: arc90_1490_300_def)

lemma arc90_1490_400_length: "length arc90_1490_400 = 91"
  by (simp add: arc90_1490_400_def)

lemma arc90_1490_400_points: "get_circle_points measured_sample (1490, 400) 10 90 a b = Some (set arc90_1490_400)"
  by (rule measured_circle) (simp_all add: measurements_def arc90_1490_400_length)

lemma arc90_1490_400_box: "\<forall>p\<in>set arc90_1490_400. 1490 \<le> fst p \<and> fst p \<le> 1500 \<and> 390 \<le> snd p \<and> snd p \<le> 400"
  by (simp add: arc90_1490_400_def)

lemma arc90_1450_400_length: "length arc90_1450_400 = 91"
  by (simp add: arc90_1450_400_def)

lemma arc90_1450_400_points: "get_circle_points measured_sample (1450, 400) 10 90 a b = Some (set arc90_1450_400)"
  by (rule measured_circle) (simp_all add: measurements_def arc90_1450_400_length)

lemma arc90_1450_400_box: "\<forall>p\<in>set arc90_1450_400. 1440 \<le> fst p \<and> fst p \<le> 1450 \<and> 390 \<le> snd p \<and> snd p \<le> 400"
  by (simp add: arc90_1450_400_def)

lemma arc15_10_300_length: "length arc15_10_300 = 16"
  by (simp add: arc15_10_300_def)

lemma arc15_10_300_points: "get_circle_points measured_sample (10, 300) 10 15 a b = Some (set arc15_10_300)"
  by (rule measured_circle) (simp_all add: measurements_def arc15_10_300_length)

lemma arc15_10_300_box: "\<forall>p\<in>set arc15_10_300. 0 \<le> fst p \<and> fst p \<le> 10 \<and> 300 \<le> snd p \<and> snd p \<le> 310"
  by (simp add: arc15_10_300_def)

lemma arc15_50_300_length: "length arc15_50_300 = 16"
  by (simp add: arc15_50_300_def)

lemma arc15_50_300_points: "get_circle_points measured_sample (50, 300) 10 15 a b = Some (set arc15_50_300)"
  by (rule measured_circle) (simp_all add: measurements_def arc15_50_300_length)

lemma arc15_50_300_box: "\<forall>p\<in>set arc15_50_300. 50 \<le> fst p \<and> fst p \<le> 60 \<and> 300 \<le> snd p \<and> snd p \<le> 310"
  by (simp add: arc15_50_300_def)

lemma arc15_50_400_length: "length arc15_50_400 = 16"
  by (simp add: arc15_50_400_def)

lemma arc15_50_400_points: "get_circle_points measured_sample (50, 400) 10 15 a b = Some (set arc15_50_400)"
  by (rule measured_circle) (simp_all add: measurements_def arc15_50_400_length)

lemma arc15_50_400_box: "\<forall>p\<in>set arc15_50_400. 50 \<le> fst p \<and> fst p \<le> 60 \<and> 390 \<le> snd p \<and> snd p \<le> 400"
  by (simp add: arc15_50_400_def)

lemma arc15_10_400_length: "length arc15_10_400 = 16"
  by (simp add: arc15_10_400_def)

lemma arc15_10_400_points: "get_circle_points measured_sample (10, 400) 10 15 a b = Some (set arc15_10_400)"
  by (rule measured_circle) (simp_all add: measurements_def arc15_10_400_length)

lemma arc15_10_400_box: "\<forall>p\<in>set arc15_10_400. 0 \<le> fst p \<and> fst p \<le> 9 \<and> 390 \<le> snd p \<and> snd p \<le> 400"
  by (simp add: arc15_10_400_def)

lemma arc15_1450_300_length: "length arc15_1450_300 = 16"
  by (simp add: arc15_1450_300_def)

lemma arc15_1450_300_points: "get_circle_points measured_sample (1450, 300) 10 15 a b = Some (set arc15_1450_300)"
  by (rule measured_circle) (simp_all add: measurements_def arc15_1450_300_length)

lemma arc15_1450_300_box: "\<forall>p\<in>set arc15_1450_300. 1440 \<le> fst p \<and> fst p \<le> 1450 \<and> 300 \<le> snd p \<and> snd p \<le> 310"
  by (simp add: arc15_1450_300_def)

lemma arc15_1490_300_length: "length arc15_1490_300 = 16"
  by (simp add: arc15_1490_300_def)

lemma arc15_1490_300_points: "get_circle_points measured_sample (1490, 300) 10 15 a b = Some (set arc15_1490_300)"
  by (rule measured_circle) (simp_all add: measurements_def arc15_1490_300_length)

lemma arc15_1490_300_box: "\<forall>p\<in>set arc15_1490_300. 1490 \<le> fst p \<and> fst p \<le> 1500 \<and> 300 \<le> snd p \<and> snd p \<le> 310"
  by (simp add: arc15_1490_300_def)

lemma arc15_1490_400_length: "length arc15_1490_400 = 16"
  by (simp add: arc15_1490_400_def)

lemma arc15_1490_400_points: "get_circle_points measured_sample (1490, 400) 10 15 a b = Some (set arc15_1490_400)"
  by (rule measured_circle) (simp_all add: measurements_def arc15_1490_400_length)

lemma arc15_1490_400_box: "\<forall>p\<in>set arc15_1490_400. 1490 \<le> fst p \<and> fst p \<le> 1500 \<and> 390 \<le> snd p \<and> snd p \<le> 400"
  by (simp add: arc15_1490_400_def)

lemma arc15_1450_400_length: "length arc15_1450_400 = 16"
  by (simp add: arc15_1450_400_def)

lemma arc15_1450_400_points: "get_circle_points measured_sample (1450, 400) 10 15 a b = Some (set arc15_1450_400)"
  by (rule measured_circle) (simp_all add: measurements_def arc15_1450_400_length)

lemma arc15_1450_400_box: "\<forall>p\<in>set arc15_1450_400. 1440 \<le> fst p \<and> fst p \<le> 1450 \<and> 390 \<le> snd p \<and> snd p \<le> 400"
  by (simp add: arc15_1450_400_def)
subsection \<open>One tick of the ball\<close>

lemma move_ball_unfold:
  "move_ball smp g s = do {
     (hit, s1, g1) \<leftarrow> check_paddle_collision smp g s;
     if hit then Some (s1, g1)
     else if check_wall_collision s1 (snd (tentative s)) BALL_RADIUS then
       Some (s1\<lparr>current_ball_direction := (fst (current_ball_direction s), - snd (current_ball_direction s)),
               ball_position := (fst (tentative s),
                 snd (ball_position s1) + (- snd (current_ball_direction s)) * snd (ball_move_pixels s1))\<rparr>, g1)
     else Some (s1\<lparr>ball_position := tentative s\<rparr>, g1)
   }"
  by (cases "check_paddle_collision smp g s")
     (auto simp: move_ball_def tentative_def Let_def split: prod.splits)

lemma main_move_ball_unfold:
  "main_move_ball smp g s = do {
     (hit, s1, g1) \<leftarrow> main_check_paddle_collision smp g s;
     if hit then Some (s1, g1)
     else if check_wall_collision s1 (snd (tentative s)) BALL_RADIUS then
       Some (s1\<lparr>current_ball_direction := (fst (current_ball_direction s), - snd (current_ball_direction s)),
               ball_position := (fst (tentative s),
                 snd (ball_position s1) + (- snd (current_ball_direction s)) * snd (ball_move_pixels s1))\<rparr>, g1)
     else Some (s1\<lparr>ball_position := tentative s\<rparr>, g1)
   }"
  by (cases "main_check_paddle_collision smp g s")
     (auto simp: main_move_ball_def tentative_def Let_def split: prod.splits)

lemma no_hit_unchanged:
  "check_paddle_collision smp g s = Some (False, s1, g1) \<Longrightarrow> s1 = s \<and> g1 = g"
  by (drule check_paddle_collision_result) simp

lemma main_no_hit_unchanged:
  "main_check_paddle_collision smp g s = Some (False, s1, g1) \<Longrightarrow> s1 = s \<and> g1 = g"
  by (drule main_check_paddle_collision_result) simp

lemma check_wall_collision_frame:
  "board_height s' = board_height s \<Longrightarrow> check_wall_collision s' y off = check_wall_collision s y off"
  by (simp add: check_wall_collision_def)

text \<open>
  C2. In a tick of \<^verbatim>\<open>move_ball\<close> in which the paddle check reports no collision and the
  wall check on the tentative y reports none either, the ball moves to the tentative
  position, position plus direction times speed in each component, and nothing else
  changes: direction, speed and every other attribute are as before, and no random draw
  is consumed. This holds in both files.
\<close>

theorem move_ball_free:
  "(check_paddle_collision smp g s = Some (False, s1, g1) \<and>
    \<not> check_wall_collision s (snd (tentative s)) BALL_RADIUS \<longrightarrow>
      move_ball smp g s = Some (s\<lparr>ball_position :=
          (fst (ball_position s) + fst (current_ball_direction s) * fst (ball_move_pixels s),
           snd (ball_position s) + snd (current_ball_direction s) * snd (ball_move_pixels s))\<rparr>, g)) \<and>
   (main_check_paddle_collision smp g s = Some (False, s1, g1) \<and>
    \<not> check_wall_collision s (snd (tentative s)) BALL_RADIUS \<longrightarrow>
      main_move_ball smp g s = Some (s\<lparr>ball_position :=
          (fst (ball_position s) + fst (current_ball_direction s) * fst (ball_move_pixels s),
           snd (ball_position s) + snd (current_ball_direction s) * snd (ball_move_pixels s))\<rparr>, g))"
proof (intro conjI impI)
  assume a: "check_paddle_collision smp g s = Some (False, s1, g1) \<and>
    \<not> check_wall_collision s (snd (tentative s)) BALL_RADIUS"
  then have "s1 = s" "g1 = g" using no_hit_unchanged[of smp g s s1 g1] by simp_all
  with a show "move_ball smp g s = Some (s\<lparr>ball_position :=
          (fst (ball_position s) + fst (current_ball_direction s) * fst (ball_move_pixels s),
           snd (ball_position s) + snd (current_ball_direction s) * snd (ball_move_pixels s))\<rparr>, g)"
    by (simp add: move_ball_unfold) (simp add: tentative_def)
next
  assume a: "main_check_paddle_collision smp g s = Some (False, s1, g1) \<and>
    \<not> check_wall_collision s (snd (tentative s)) BALL_RADIUS"
  then have "s1 = s" "g1 = g" using main_no_hit_unchanged[of smp g s s1 g1] by simp_all
  with a show "main_move_ball smp g s = Some (s\<lparr>ball_position :=
          (fst (ball_position s) + fst (current_ball_direction s) * fst (ball_move_pixels s),
           snd (ball_position s) + snd (current_ball_direction s) * snd (ball_move_pixels s))\<rparr>, g)"
    by (simp add: main_move_ball_unfold) (simp add: tentative_def)
qed

text \<open>
  C7. In a tick of \<^verbatim>\<open>move_ball\<close> of \<^verbatim>\<open>Pong.py\<close> in which the paddle check reports no
  collision but the tentative y plus or minus the ball radius leaves the board, only the
  vertical direction is negated; the ball's new x is the tentative x and its new y is the
  current y plus the new vertical direction times the vertical speed. Horizontal
  direction, speed and every other attribute are as before.
\<close>

theorem move_ball_wall:
  "check_paddle_collision smp g s = Some (False, s1, g1) \<and>
   (snd (tentative s) + BALL_RADIUS > board_height s \<or> snd (tentative s) - BALL_RADIUS < 0) \<longrightarrow>
     move_ball smp g s = Some (s\<lparr>
       current_ball_direction := (fst (current_ball_direction s), - snd (current_ball_direction s)),
       ball_position := (fst (ball_position s) + fst (current_ball_direction s) * fst (ball_move_pixels s),
                         snd (ball_position s) + (- snd (current_ball_direction s)) * snd (ball_move_pixels s))\<rparr>, g)"
proof
  assume a: "check_paddle_collision smp g s = Some (False, s1, g1) \<and>
   (snd (tentative s) + BALL_RADIUS > board_height s \<or> snd (tentative s) - BALL_RADIUS < 0)"
  then have "s1 = s" "g1 = g" using no_hit_unchanged[of smp g s s1 g1] by simp_all
  moreover from a have "check_wall_collision s (snd (tentative s)) BALL_RADIUS"
    by (simp add: check_wall_collision_def Let_def)
  ultimately show "move_ball smp g s = Some (s\<lparr>
       current_ball_direction := (fst (current_ball_direction s), - snd (current_ball_direction s)),
       ball_position := (fst (ball_position s) + fst (current_ball_direction s) * fst (ball_move_pixels s),
                         snd (ball_position s) + (- snd (current_ball_direction s)) * snd (ball_move_pixels s))\<rparr>, g)"
    using a by (simp add: move_ball_unfold) (simp add: tentative_def)
qed

subsection \<open>Closed forms of the collision check\<close>

lemma loop_step:
  assumes "0 < na" "player < length (paddle_sizes s)" "player < length (rally_counter s)" "player < 4"
    and "amounts \<noteq> []"
    and "get_rounded_rectangle_points smp paddle PADDLE_WIDTH (paddle_sizes s ! player) 10 na = Some pp"
  shows "check_paddle_collision_loop smp na amounts bp cx ((player, paddle) # rest) g s =
     (if \<not> isdisjoint bp (pp ! player)
      then Some (True, bounce s cx player ([-1, 0, 1] ! (g 0 mod 3))
                   (amounts ! (g 1 mod length amounts)), \<lambda>i. g (Suc (Suc i)))
      else if \<not> isdisjoint bp (pp ! 2)
      then Some (True, bounce s cx player (-1) (amounts ! (g 0 mod length amounts)), \<lambda>i. g (Suc i))
      else if \<not> isdisjoint bp (pp ! 3)
      then Some (True, bounce s cx player 1 (amounts ! (g 0 mod length amounts)), \<lambda>i. g (Suc i))
      else check_paddle_collision_loop smp na amounts bp cx rest g s)"
  using assms regions_Some[of na smp paddle PADDLE_WIDTH "paddle_sizes s ! player" 10]
  by (auto simp: choice_def index_def range_py_dirs bounce_def)

lemma touches_eq:
  assumes "0 < nb" "0 < na"
    and "get_rounded_rectangle_points smp (paddles s ! player) PADDLE_WIDTH (paddle_sizes s ! player) 10 na = Some pp"
  shows "touches smp nb na s player k =
     (\<not> isdisjoint (set (map (smp (tentative s) BALL_RADIUS nb 0 (2 * pi)) [0..<nb + 1])) (pp ! k))"
  using assms by (simp add: touches_def circle_points_Some)

lemma two_players_enumerate:
  "two_players s \<Longrightarrow> enumerate_py (paddles s) = [(0, paddles s ! 0), (1, paddles s ! 1)]"
  by (simp add: two_players_def enumerate_two)

lemma loop_two:
  assumes "two_players s" "0 < nb" "0 < na" "amounts \<noteq> []"
  shows "check_paddle_collision_loop smp na amounts
           (set (map (smp (tentative s) BALL_RADIUS nb 0 (2 * pi)) [0..<nb + 1])) cx
           (enumerate_py (paddles s)) g s =
     (if touches smp nb na s 0 0
      then Some (True, bounce s cx 0 ([-1, 0, 1] ! (g 0 mod 3))
                   (amounts ! (g 1 mod length amounts)), \<lambda>i. g (Suc (Suc i)))
      else if touches smp nb na s 0 2
      then Some (True, bounce s cx 0 (-1) (amounts ! (g 0 mod length amounts)), \<lambda>i. g (Suc i))
      else if touches smp nb na s 0 3
      then Some (True, bounce s cx 0 1 (amounts ! (g 0 mod length amounts)), \<lambda>i. g (Suc i))
      else if touches smp nb na s 1 1
      then Some (True, bounce s cx 1 ([-1, 0, 1] ! (g 0 mod 3))
                   (amounts ! (g 1 mod length amounts)), \<lambda>i. g (Suc (Suc i)))
      else if touches smp nb na s 1 2
      then Some (True, bounce s cx 1 (-1) (amounts ! (g 0 mod length amounts)), \<lambda>i. g (Suc i))
      else if touches smp nb na s 1 3
      then Some (True, bounce s cx 1 1 (amounts ! (g 0 mod length amounts)), \<lambda>i. g (Suc i))
      else Some (False, s, g))"
proof -
  from assms(3) obtain pp0 where pp0:
    "get_rounded_rectangle_points smp (paddles s ! 0) PADDLE_WIDTH (paddle_sizes s ! 0) 10 na = Some pp0"
    using regions_Some by blast
  from assms(3) obtain pp1 where pp1:
    "get_rounded_rectangle_points smp (paddles s ! 1) PADDLE_WIDTH (paddle_sizes s ! 1) 10 na = Some pp1"
    using regions_Some by blast
  have len: "0 < length (paddle_sizes s)" "1 < length (paddle_sizes s)"
    "0 < length (rally_counter s)" "1 < length (rally_counter s)"
    using assms(1) by (simp_all add: two_players_def)
  have four: "(0::nat) < 4" "(1::nat) < 4" by simp_all
  show ?thesis
    by (simp only: two_players_enumerate[OF assms(1)]
      loop_step[OF assms(3) len(1) len(3) four(1) assms(4) pp0]
      loop_step[OF assms(3) len(2) len(4) four(2) assms(4) pp1]
      touches_eq[OF assms(2) assms(3) pp0] touches_eq[OF assms(2) assms(3) pp1]
      check_paddle_collision_loop.simps(1))
qed

lemma check_paddle_collision_two:
  assumes "two_players s"
  shows "check_paddle_collision smp g s =
     (if PADDLE_WIDTH * 2 < fst (tentative s) \<and> fst (tentative s) < board_width s - PADDLE_WIDTH * 2
      then Some (False, s, g)
      else check_paddle_collision_loop smp 90 ball_move_amounts
             (set (map (smp (tentative s) BALL_RADIUS 360 0 (2 * pi)) [0..<360 + 1]))
             (fst (current_ball_direction s)) (enumerate_py (paddles s)) g s)"
  by (simp add: check_paddle_collision_def tentative_def Let_def circle_points_Some split: prod.splits)

lemma main_check_paddle_collision_two:
  "main_check_paddle_collision smp g s =
     check_paddle_collision_loop smp 15 main_ball_move_amounts
       (set (map (smp (tentative s) BALL_RADIUS 72 0 (2 * pi)) [0..<72 + 1]))
       (fst (current_ball_direction s)) (enumerate_py (paddles s)) g s"
  by (simp add: main_check_paddle_collision_def tentative_def Let_def circle_points_Some split: prod.splits)

lemma ball_move_amounts_nth: "ball_move_amounts ! (k mod length ball_move_amounts) \<in> set ball_move_amounts"
  by (rule nth_mem) (simp add: ball_move_amounts_first)

lemma dirs_nth: "[-1, 0, 1::int] ! (k mod 3) \<in> {-1, 0, 1}"
proof -
  have "k mod 3 = 0 \<or> k mod 3 = 1 \<or> k mod 3 = 2" by arith
  then show ?thesis by auto
qed

lemma first_hit_two:
  "first_hit t [0..<2] =
     (if t 0 0 then Some (Side 0) else if t 0 2 then Some (Top 0) else if t 0 3 then Some (Bottom 0)
      else if t 1 1 then Some (Side 1) else if t 1 2 then Some (Top 1) else if t 1 3 then Some (Bottom 1)
      else None)"
  by (simp add: upt_rec)

lemma bounce_simps:
  "ball_position (bounce s cx p dy mv) = ball_position s"
  "current_ball_direction (bounce s cx p dy mv) = (- cx, dy)"
  "ball_move_pixels (bounce s cx p dy mv) = mv"
  "rally_counter (bounce s cx p dy mv) = (rally_counter s)[p := rally_counter s ! p + 1]"
  by (simp_all add: bounce_def)

lemma hit_bouncesI:
  "p < 2 \<Longrightarrow> mv \<in> set ball_move_amounts \<Longrightarrow> c = Some (True, bounce s cx p dy mv, g') \<Longrightarrow>
   (h = Side p \<and> dy \<in> {-1, 0, 1} \<or> h = Top p \<and> dy = -1 \<or> h = Bottom p \<and> dy = 1) \<Longrightarrow>
   \<exists>p dy mv g'. p < (2::nat) \<and> mv \<in> set ball_move_amounts \<and> c = Some (True, bounce s cx p dy mv, g') \<and>
      (h = Side p \<and> dy \<in> {-1, 0, 1::int} \<or> h = Top p \<and> dy = -1 \<or> h = Bottom p \<and> dy = 1)"
  by blast

lemma hit_bounces:
  assumes "two_players s" "ballHitsPaddleRegion smp s = Some h"
  shows "\<exists>p dy mv g'. p < 2 \<and> mv \<in> set ball_move_amounts \<and>
           check_paddle_collision smp g s = Some (True, bounce s (fst (current_ball_direction s)) p dy mv, g') \<and>
           (h = Side p \<and> dy \<in> {-1, 0, 1} \<or> h = Top p \<and> dy = -1 \<or> h = Bottom p \<and> dy = 1)"
proof -
  have ne: "ball_move_amounts \<noteq> []" by (simp add: ball_move_amounts_first)
  have len: "length (paddles s) = 2" using assms(1) by (simp add: two_players_def)
  from assms(2) have nc: "\<not> (PADDLE_WIDTH * 2 < fst (tentative s) \<and> fst (tentative s) < board_width s - PADDLE_WIDTH * 2)"
    and fh: "first_hit (touches smp 360 90 s) [0..<2] = Some h"
    by (simp_all add: ballHitsPaddleRegion_def len split: if_splits)
  have cpc: "check_paddle_collision smp g s = check_paddle_collision_loop smp 90 ball_move_amounts
             (set (map (smp (tentative s) BALL_RADIUS 360 0 (2 * pi)) [0..<360 + 1]))
             (fst (current_ball_direction s)) (enumerate_py (paddles s)) g s"
    using nc by (simp only: check_paddle_collision_two[OF assms(1)] if_False)
  have pos: "(0::nat) < 360" "(0::nat) < 90" by simp_all
  note lt = loop_two[OF assms(1) pos ne, of smp "fst (current_ball_direction s)" g]
  from fh[unfolded first_hit_two] consider
      (s0) "touches smp 360 90 s 0 0" "h = Side 0"
    | (t0) "\<not> touches smp 360 90 s 0 0" "touches smp 360 90 s 0 2" "h = Top 0"
    | (b0) "\<not> touches smp 360 90 s 0 0" "\<not> touches smp 360 90 s 0 2" "touches smp 360 90 s 0 3" "h = Bottom 0"
    | (s1) "\<not> touches smp 360 90 s 0 0" "\<not> touches smp 360 90 s 0 2" "\<not> touches smp 360 90 s 0 3" "touches smp 360 90 s 1 1" "h = Side 1"
    | (t1) "\<not> touches smp 360 90 s 0 0" "\<not> touches smp 360 90 s 0 2" "\<not> touches smp 360 90 s 0 3" "\<not> touches smp 360 90 s 1 1" "touches smp 360 90 s 1 2" "h = Top 1"
    | (b1) "\<not> touches smp 360 90 s 0 0" "\<not> touches smp 360 90 s 0 2" "\<not> touches smp 360 90 s 0 3" "\<not> touches smp 360 90 s 1 1" "\<not> touches smp 360 90 s 1 2" "touches smp 360 90 s 1 3" "h = Bottom 1"
    by (auto split: if_splits)
  then show ?thesis
  proof cases
    case s0
    then have r: "check_paddle_collision smp g s = Some (True, bounce s (fst (current_ball_direction s)) 0 ([-1, 0, 1] ! (g 0 mod 3))
        (ball_move_amounts ! (g 1 mod length ball_move_amounts)), \<lambda>i. g (Suc (Suc i)))"
      by (simp only: cpc lt if_True if_False)
    show ?thesis
      by (rule hit_bouncesI[OF _ ball_move_amounts_nth r]) (simp_all add: s0 dirs_nth[simplified])
  next
    case t0
    then have r: "check_paddle_collision smp g s = Some (True, bounce s (fst (current_ball_direction s)) 0 (-1)
        (ball_move_amounts ! (g 0 mod length ball_move_amounts)), \<lambda>i. g (Suc i))"
      by (simp only: cpc lt if_True if_False)
    show ?thesis
      by (rule hit_bouncesI[OF _ ball_move_amounts_nth r]) (simp_all add: t0 dirs_nth[simplified])
  next
    case b0
    then have r: "check_paddle_collision smp g s = Some (True, bounce s (fst (current_ball_direction s)) 0 1
        (ball_move_amounts ! (g 0 mod length ball_move_amounts)), \<lambda>i. g (Suc i))"
      by (simp only: cpc lt if_True if_False)
    show ?thesis
      by (rule hit_bouncesI[OF _ ball_move_amounts_nth r]) (simp_all add: b0 dirs_nth[simplified])
  next
    case s1
    then have r: "check_paddle_collision smp g s = Some (True, bounce s (fst (current_ball_direction s)) 1 ([-1, 0, 1] ! (g 0 mod 3))
        (ball_move_amounts ! (g 1 mod length ball_move_amounts)), \<lambda>i. g (Suc (Suc i)))"
      by (simp only: cpc lt if_True if_False)
    show ?thesis
      by (rule hit_bouncesI[OF _ ball_move_amounts_nth r]) (simp_all add: s1 dirs_nth[simplified])
  next
    case t1
    then have r: "check_paddle_collision smp g s = Some (True, bounce s (fst (current_ball_direction s)) 1 (-1)
        (ball_move_amounts ! (g 0 mod length ball_move_amounts)), \<lambda>i. g (Suc i))"
      by (simp only: cpc lt if_True if_False)
    show ?thesis
      by (rule hit_bouncesI[OF _ ball_move_amounts_nth r]) (simp_all add: t1 dirs_nth[simplified])
  next
    case b1
    then have r: "check_paddle_collision smp g s = Some (True, bounce s (fst (current_ball_direction s)) 1 1
        (ball_move_amounts ! (g 0 mod length ball_move_amounts)), \<lambda>i. g (Suc i))"
      by (simp only: cpc lt if_True if_False)
    show ?thesis
      by (rule hit_bouncesI[OF _ ball_move_amounts_nth r]) (simp_all add: b1 dirs_nth[simplified])
  qed
qed

subsection \<open>The regions of the two paddles at mid-height, measured\<close>

lemma regions90_30_350:
  "get_rounded_rectangle_points measured_sample (30, 350) PADDLE_WIDTH 120 10 90 =
     Some [(\<lambda>y. (60, y)) ` {300..400}, (\<lambda>y. (0, y)) ` {300..400},
           set arc90_10_300 \<union> (\<lambda>x. (x, 290)) ` {10..50} \<union> set arc90_50_300,
           set arc90_50_400 \<union> (\<lambda>x. (x, 410)) ` {10..50} \<union> set arc90_10_400]"
  by (simp add: get_rounded_rectangle_points_def Let_def PADDLE_WIDTH_def range_py_def
      arc90_10_300_points arc90_50_300_points arc90_50_400_points arc90_10_400_points)

lemma top90_30_350_box:
  "\<forall>p\<in>set arc90_10_300 \<union> (\<lambda>x. (x, 290)) ` {10..50} \<union> set arc90_50_300. fst p \<le> 60 \<and> snd p \<le> 310"
  using arc90_10_300_box arc90_50_300_box by fastforce

lemma bottom90_30_350_box:
  "\<forall>p\<in>set arc90_50_400 \<union> (\<lambda>x. (x, 410)) ` {10..50} \<union> set arc90_10_400. fst p \<le> 60 \<and> 390 \<le> snd p"
  using arc90_50_400_box arc90_10_400_box by fastforce

lemma regions90_1470_350:
  "get_rounded_rectangle_points measured_sample (1470, 350) PADDLE_WIDTH 120 10 90 =
     Some [(\<lambda>y. (1500, y)) ` {300..400}, (\<lambda>y. (1440, y)) ` {300..400},
           set arc90_1450_300 \<union> (\<lambda>x. (x, 290)) ` {1450..1490} \<union> set arc90_1490_300,
           set arc90_1490_400 \<union> (\<lambda>x. (x, 410)) ` {1450..1490} \<union> set arc90_1450_400]"
  by (simp add: get_rounded_rectangle_points_def Let_def PADDLE_WIDTH_def range_py_def
      arc90_1450_300_points arc90_1490_300_points arc90_1490_400_points arc90_1450_400_points)

lemma top90_1470_350_box:
  "\<forall>p\<in>set arc90_1450_300 \<union> (\<lambda>x. (x, 290)) ` {1450..1490} \<union> set arc90_1490_300. 1440 \<le> fst p"
  using arc90_1450_300_box arc90_1490_300_box by fastforce

lemma bottom90_1470_350_box:
  "\<forall>p\<in>set arc90_1490_400 \<union> (\<lambda>x. (x, 410)) ` {1450..1490} \<union> set arc90_1450_400. 1440 \<le> fst p"
  using arc90_1490_400_box arc90_1450_400_box by fastforce

lemma regions15_30_350:
  "get_rounded_rectangle_points measured_sample (30, 350) PADDLE_WIDTH 120 10 15 =
     Some [(\<lambda>y. (60, y)) ` {300..400}, (\<lambda>y. (0, y)) ` {300..400},
           set arc15_10_300 \<union> (\<lambda>x. (x, 290)) ` {10..50} \<union> set arc15_50_300,
           set arc15_50_400 \<union> (\<lambda>x. (x, 410)) ` {10..50} \<union> set arc15_10_400]"
  by (simp add: get_rounded_rectangle_points_def Let_def PADDLE_WIDTH_def range_py_def
      arc15_10_300_points arc15_50_300_points arc15_50_400_points arc15_10_400_points)

lemma top15_30_350_box:
  "\<forall>p\<in>set arc15_10_300 \<union> (\<lambda>x. (x, 290)) ` {10..50} \<union> set arc15_50_300. fst p \<le> 60 \<and> snd p \<le> 310"
  using arc15_10_300_box arc15_50_300_box by fastforce

lemma bottom15_30_350_box:
  "\<forall>p\<in>set arc15_50_400 \<union> (\<lambda>x. (x, 410)) ` {10..50} \<union> set arc15_10_400. fst p \<le> 60 \<and> 390 \<le> snd p"
  using arc15_50_400_box arc15_10_400_box by fastforce

lemma regions15_1470_350:
  "get_rounded_rectangle_points measured_sample (1470, 350) PADDLE_WIDTH 120 10 15 =
     Some [(\<lambda>y. (1500, y)) ` {300..400}, (\<lambda>y. (1440, y)) ` {300..400},
           set arc15_1450_300 \<union> (\<lambda>x. (x, 290)) ` {1450..1490} \<union> set arc15_1490_300,
           set arc15_1490_400 \<union> (\<lambda>x. (x, 410)) ` {1450..1490} \<union> set arc15_1450_400]"
  by (simp add: get_rounded_rectangle_points_def Let_def PADDLE_WIDTH_def range_py_def
      arc15_1450_300_points arc15_1490_300_points arc15_1490_400_points arc15_1450_400_points)

lemma top15_1470_350_box:
  "\<forall>p\<in>set arc15_1450_300 \<union> (\<lambda>x. (x, 290)) ` {1450..1490} \<union> set arc15_1490_300. 1440 \<le> fst p"
  using arc15_1450_300_box arc15_1490_300_box by fastforce

lemma bottom15_1470_350_box:
  "\<forall>p\<in>set arc15_1490_400 \<union> (\<lambda>x. (x, 410)) ` {1450..1490} \<union> set arc15_1450_400. 1440 \<le> fst p"
  using arc15_1490_400_box arc15_1450_400_box by fastforce

lemma touches_Some:
  "get_circle_points smp (tentative s) BALL_RADIUS nb 0 (2 * pi) = Some bp \<Longrightarrow>
   get_rounded_rectangle_points smp (paddles s ! player) PADDLE_WIDTH (paddle_sizes s ! player) 10 na = Some pp \<Longrightarrow>
   touches smp nb na s player k = (\<not> isdisjoint bp (pp ! k))"
  by (simp add: touches_def)

lemma isdisjoint_common: "p \<in> a \<Longrightarrow> p \<in> b \<Longrightarrow> \<not> isdisjoint a b"
  by (auto simp: isdisjoint_def)

lemma isdisjoint_lr: "\<forall>p\<in>a. fst p \<le> m \<Longrightarrow> \<forall>p\<in>b. n \<le> fst p \<Longrightarrow> m < n \<Longrightarrow> isdisjoint a b"
  by (fastforce simp: isdisjoint_def)

lemma isdisjoint_rl: "\<forall>p\<in>a. n \<le> fst p \<Longrightarrow> \<forall>p\<in>b. fst p \<le> m \<Longrightarrow> m < n \<Longrightarrow> isdisjoint a b"
  by (fastforce simp: isdisjoint_def)

lemma isdisjoint_ud: "\<forall>p\<in>a. snd p \<le> m \<Longrightarrow> \<forall>p\<in>b. n \<le> snd p \<Longrightarrow> m < n \<Longrightarrow> isdisjoint a b"
  by (fastforce simp: isdisjoint_def)

lemma isdisjoint_du: "\<forall>p\<in>a. n \<le> snd p \<Longrightarrow> \<forall>p\<in>b. snd p \<le> m \<Longrightarrow> m < n \<Longrightarrow> isdisjoint a b"
  by (fastforce simp: isdisjoint_def)

subsection \<open>What the ball touches in the concrete states\<close>

lemma side_hit_touches:
  "touches measured_sample 360 90 side_hit 0 0"
proof -
  have bp: "get_circle_points measured_sample (tentative side_hit) BALL_RADIUS 360 0 (2 * pi) = Some (set circle360_80_350)"
    by (simp add: tentative_def side_hit_def kickoff_simps BALL_RADIUS_def BALL_DIAMETER_def circle360_80_350_points)
  have pp0: "get_rounded_rectangle_points measured_sample (paddles side_hit ! 0) PADDLE_WIDTH (paddle_sizes side_hit ! 0) 10 90 =
     Some [(\<lambda>y. (60, y)) ` {300..400}, (\<lambda>y. (0, y)) ` {300..400},
           set arc90_10_300 \<union> (\<lambda>x. (x, 290)) ` {10..50} \<union> set arc90_50_300,
           set arc90_50_400 \<union> (\<lambda>x. (x, 410)) ` {10..50} \<union> set arc90_10_400]"
    by (simp add: side_hit_def kickoff_simps regions90_30_350)
  have "(60, 350) \<in> set circle360_80_350" by (simp add: circle360_80_350_def)
  then show "touches measured_sample 360 90 side_hit 0 0"
    unfolding touches_Some[OF bp pp0] by (auto simp: isdisjoint_def)
qed

lemma top_hit_touches:
  "\<not> touches measured_sample 360 90 top_hit 0 0" "touches measured_sample 360 90 top_hit 0 2"
proof -
  have bp: "get_circle_points measured_sample (tentative top_hit) BALL_RADIUS 360 0 (2 * pi) = Some (set circle360_30_270)"
    by (simp add: tentative_def top_hit_def kickoff_simps BALL_RADIUS_def BALL_DIAMETER_def circle360_30_270_points)
  have pp0: "get_rounded_rectangle_points measured_sample (paddles top_hit ! 0) PADDLE_WIDTH (paddle_sizes top_hit ! 0) 10 90 =
     Some [(\<lambda>y. (60, y)) ` {300..400}, (\<lambda>y. (0, y)) ` {300..400},
           set arc90_10_300 \<union> (\<lambda>x. (x, 290)) ` {10..50} \<union> set arc90_50_300,
           set arc90_50_400 \<union> (\<lambda>x. (x, 410)) ` {10..50} \<union> set arc90_10_400]"
    by (simp add: top_hit_def kickoff_simps regions90_30_350)
  have "isdisjoint (set circle360_30_270) ([(\<lambda>y. (60, y)) ` {300..400}, (\<lambda>y. (0, y)) ` {300..400},
           set arc90_10_300 \<union> (\<lambda>x. (x, 290)) ` {10..50} \<union> set arc90_50_300,
           set arc90_50_400 \<union> (\<lambda>x. (x, 410)) ` {10..50} \<union> set arc90_10_400] ! 0)"
    apply (rule isdisjoint_lr[where m=50 and n=60])
     apply (use circle360_30_270_box in fastforce)
    apply fastforce
    apply simp
    done
  then show "\<not> touches measured_sample 360 90 top_hit 0 0"
    unfolding touches_Some[OF bp pp0] by simp
  have "(30, 290) \<in> set circle360_30_270" by (simp add: circle360_30_270_def)
  then show "touches measured_sample 360 90 top_hit 0 2"
    unfolding touches_Some[OF bp pp0] by (auto simp: isdisjoint_def)
qed

lemma bottom_hit_touches:
  "\<not> touches measured_sample 360 90 bottom_hit 0 0" "\<not> touches measured_sample 360 90 bottom_hit 0 2" "touches measured_sample 360 90 bottom_hit 0 3"
proof -
  have bp: "get_circle_points measured_sample (tentative bottom_hit) BALL_RADIUS 360 0 (2 * pi) = Some (set circle360_30_430)"
    by (simp add: tentative_def bottom_hit_def kickoff_simps BALL_RADIUS_def BALL_DIAMETER_def circle360_30_430_points)
  have pp0: "get_rounded_rectangle_points measured_sample (paddles bottom_hit ! 0) PADDLE_WIDTH (paddle_sizes bottom_hit ! 0) 10 90 =
     Some [(\<lambda>y. (60, y)) ` {300..400}, (\<lambda>y. (0, y)) ` {300..400},
           set arc90_10_300 \<union> (\<lambda>x. (x, 290)) ` {10..50} \<union> set arc90_50_300,
           set arc90_50_400 \<union> (\<lambda>x. (x, 410)) ` {10..50} \<union> set arc90_10_400]"
    by (simp add: bottom_hit_def kickoff_simps regions90_30_350)
  have "isdisjoint (set circle360_30_430) ([(\<lambda>y. (60, y)) ` {300..400}, (\<lambda>y. (0, y)) ` {300..400},
           set arc90_10_300 \<union> (\<lambda>x. (x, 290)) ` {10..50} \<union> set arc90_50_300,
           set arc90_50_400 \<union> (\<lambda>x. (x, 410)) ` {10..50} \<union> set arc90_10_400] ! 0)"
    apply (rule isdisjoint_lr[where m=50 and n=60])
     apply (use circle360_30_430_box in fastforce)
    apply fastforce
    apply simp
    done
  then show "\<not> touches measured_sample 360 90 bottom_hit 0 0"
    unfolding touches_Some[OF bp pp0] by simp
  have "isdisjoint (set circle360_30_430) ([(\<lambda>y. (60, y)) ` {300..400}, (\<lambda>y. (0, y)) ` {300..400},
           set arc90_10_300 \<union> (\<lambda>x. (x, 290)) ` {10..50} \<union> set arc90_50_300,
           set arc90_50_400 \<union> (\<lambda>x. (x, 410)) ` {10..50} \<union> set arc90_10_400] ! 2)"
    apply (rule isdisjoint_du[where m=310 and n=410])
     apply (use circle360_30_430_box in fastforce)
    apply (use top90_30_350_box in fastforce)
    apply simp
    done
  then show "\<not> touches measured_sample 360 90 bottom_hit 0 2"
    unfolding touches_Some[OF bp pp0] by simp
  have "(29, 410) \<in> set circle360_30_430" by (simp add: circle360_30_430_def)
  then show "touches measured_sample 360 90 bottom_hit 0 3"
    unfolding touches_Some[OF bp pp0] by (auto simp: isdisjoint_def)
qed

lemma behind_paddle_touches:
  "\<not> touches measured_sample 360 90 behind_paddle 0 0" "\<not> touches measured_sample 360 90 behind_paddle 0 2" "\<not> touches measured_sample 360 90 behind_paddle 0 3" "\<not> touches measured_sample 360 90 behind_paddle 1 1" "\<not> touches measured_sample 360 90 behind_paddle 1 2" "\<not> touches measured_sample 360 90 behind_paddle 1 3" "touches measured_sample 360 90 behind_paddle 0 1"
proof -
  have bp: "get_circle_points measured_sample (tentative behind_paddle) BALL_RADIUS 360 0 (2 * pi) = Some (set circle360_20_350)"
    by (simp add: tentative_def behind_paddle_def kickoff_simps BALL_RADIUS_def BALL_DIAMETER_def circle360_20_350_points)
  have pp0: "get_rounded_rectangle_points measured_sample (paddles behind_paddle ! 0) PADDLE_WIDTH (paddle_sizes behind_paddle ! 0) 10 90 =
     Some [(\<lambda>y. (60, y)) ` {300..400}, (\<lambda>y. (0, y)) ` {300..400},
           set arc90_10_300 \<union> (\<lambda>x. (x, 290)) ` {10..50} \<union> set arc90_50_300,
           set arc90_50_400 \<union> (\<lambda>x. (x, 410)) ` {10..50} \<union> set arc90_10_400]"
    by (simp add: behind_paddle_def kickoff_simps regions90_30_350)
  have pp1: "get_rounded_rectangle_points measured_sample (paddles behind_paddle ! 1) PADDLE_WIDTH (paddle_sizes behind_paddle ! 1) 10 90 =
     Some [(\<lambda>y. (1500, y)) ` {300..400}, (\<lambda>y. (1440, y)) ` {300..400},
           set arc90_1450_300 \<union> (\<lambda>x. (x, 290)) ` {1450..1490} \<union> set arc90_1490_300,
           set arc90_1490_400 \<union> (\<lambda>x. (x, 410)) ` {1450..1490} \<union> set arc90_1450_400]"
    by (simp add: behind_paddle_def kickoff_simps regions90_1470_350)
  have "isdisjoint (set circle360_20_350) ([(\<lambda>y. (60, y)) ` {300..400}, (\<lambda>y. (0, y)) ` {300..400},
           set arc90_10_300 \<union> (\<lambda>x. (x, 290)) ` {10..50} \<union> set arc90_50_300,
           set arc90_50_400 \<union> (\<lambda>x. (x, 410)) ` {10..50} \<union> set arc90_10_400] ! 0)"
    apply (rule isdisjoint_lr[where m=40 and n=60])
     apply (use circle360_20_350_box in fastforce)
    apply fastforce
    apply simp
    done
  then show "\<not> touches measured_sample 360 90 behind_paddle 0 0"
    unfolding touches_Some[OF bp pp0] by simp
  have "isdisjoint (set circle360_20_350) ([(\<lambda>y. (60, y)) ` {300..400}, (\<lambda>y. (0, y)) ` {300..400},
           set arc90_10_300 \<union> (\<lambda>x. (x, 290)) ` {10..50} \<union> set arc90_50_300,
           set arc90_50_400 \<union> (\<lambda>x. (x, 410)) ` {10..50} \<union> set arc90_10_400] ! 2)"
    apply (rule isdisjoint_du[where m=310 and n=330])
     apply (use circle360_20_350_box in fastforce)
    apply (use top90_30_350_box in fastforce)
    apply simp
    done
  then show "\<not> touches measured_sample 360 90 behind_paddle 0 2"
    unfolding touches_Some[OF bp pp0] by simp
  have "isdisjoint (set circle360_20_350) ([(\<lambda>y. (60, y)) ` {300..400}, (\<lambda>y. (0, y)) ` {300..400},
           set arc90_10_300 \<union> (\<lambda>x. (x, 290)) ` {10..50} \<union> set arc90_50_300,
           set arc90_50_400 \<union> (\<lambda>x. (x, 410)) ` {10..50} \<union> set arc90_10_400] ! 3)"
    apply (rule isdisjoint_ud[where m=370 and n=390])
     apply (use circle360_20_350_box in fastforce)
    apply (use bottom90_30_350_box in fastforce)
    apply simp
    done
  then show "\<not> touches measured_sample 360 90 behind_paddle 0 3"
    unfolding touches_Some[OF bp pp0] by simp
  have "isdisjoint (set circle360_20_350) ([(\<lambda>y. (1500, y)) ` {300..400}, (\<lambda>y. (1440, y)) ` {300..400},
           set arc90_1450_300 \<union> (\<lambda>x. (x, 290)) ` {1450..1490} \<union> set arc90_1490_300,
           set arc90_1490_400 \<union> (\<lambda>x. (x, 410)) ` {1450..1490} \<union> set arc90_1450_400] ! 1)"
    apply (rule isdisjoint_lr[where m=40 and n=1440])
     apply (use circle360_20_350_box in fastforce)
    apply fastforce
    apply simp
    done
  then show "\<not> touches measured_sample 360 90 behind_paddle 1 1"
    unfolding touches_Some[OF bp pp1] by simp
  have "isdisjoint (set circle360_20_350) ([(\<lambda>y. (1500, y)) ` {300..400}, (\<lambda>y. (1440, y)) ` {300..400},
           set arc90_1450_300 \<union> (\<lambda>x. (x, 290)) ` {1450..1490} \<union> set arc90_1490_300,
           set arc90_1490_400 \<union> (\<lambda>x. (x, 410)) ` {1450..1490} \<union> set arc90_1450_400] ! 2)"
    apply (rule isdisjoint_lr[where m=40 and n=1440])
     apply (use circle360_20_350_box in fastforce)
    apply (use top90_1470_350_box in fastforce)
    apply simp
    done
  then show "\<not> touches measured_sample 360 90 behind_paddle 1 2"
    unfolding touches_Some[OF bp pp1] by simp
  have "isdisjoint (set circle360_20_350) ([(\<lambda>y. (1500, y)) ` {300..400}, (\<lambda>y. (1440, y)) ` {300..400},
           set arc90_1450_300 \<union> (\<lambda>x. (x, 290)) ` {1450..1490} \<union> set arc90_1490_300,
           set arc90_1490_400 \<union> (\<lambda>x. (x, 410)) ` {1450..1490} \<union> set arc90_1450_400] ! 3)"
    apply (rule isdisjoint_lr[where m=40 and n=1440])
     apply (use circle360_20_350_box in fastforce)
    apply (use bottom90_1470_350_box in fastforce)
    apply simp
    done
  then show "\<not> touches measured_sample 360 90 behind_paddle 1 3"
    unfolding touches_Some[OF bp pp1] by simp
  have "(0, 350) \<in> set circle360_20_350" by (simp add: circle360_20_350_def)
  then show "touches measured_sample 360 90 behind_paddle 0 1"
    unfolding touches_Some[OF bp pp0] by (auto simp: isdisjoint_def)
qed

lemma behind_paddle_touches_main:
  "\<not> touches measured_sample 72 15 behind_paddle 0 0" "\<not> touches measured_sample 72 15 behind_paddle 0 2" "\<not> touches measured_sample 72 15 behind_paddle 0 3" "\<not> touches measured_sample 72 15 behind_paddle 1 1" "\<not> touches measured_sample 72 15 behind_paddle 1 2" "\<not> touches measured_sample 72 15 behind_paddle 1 3" "touches measured_sample 72 15 behind_paddle 0 1"
proof -
  have bp: "get_circle_points measured_sample (tentative behind_paddle) BALL_RADIUS 72 0 (2 * pi) = Some (set circle72_20_350)"
    by (simp add: tentative_def behind_paddle_def kickoff_simps BALL_RADIUS_def BALL_DIAMETER_def circle72_20_350_points)
  have pp0: "get_rounded_rectangle_points measured_sample (paddles behind_paddle ! 0) PADDLE_WIDTH (paddle_sizes behind_paddle ! 0) 10 15 =
     Some [(\<lambda>y. (60, y)) ` {300..400}, (\<lambda>y. (0, y)) ` {300..400},
           set arc15_10_300 \<union> (\<lambda>x. (x, 290)) ` {10..50} \<union> set arc15_50_300,
           set arc15_50_400 \<union> (\<lambda>x. (x, 410)) ` {10..50} \<union> set arc15_10_400]"
    by (simp add: behind_paddle_def kickoff_simps regions15_30_350)
  have pp1: "get_rounded_rectangle_points measured_sample (paddles behind_paddle ! 1) PADDLE_WIDTH (paddle_sizes behind_paddle ! 1) 10 15 =
     Some [(\<lambda>y. (1500, y)) ` {300..400}, (\<lambda>y. (1440, y)) ` {300..400},
           set arc15_1450_300 \<union> (\<lambda>x. (x, 290)) ` {1450..1490} \<union> set arc15_1490_300,
           set arc15_1490_400 \<union> (\<lambda>x. (x, 410)) ` {1450..1490} \<union> set arc15_1450_400]"
    by (simp add: behind_paddle_def kickoff_simps regions15_1470_350)
  have "isdisjoint (set circle72_20_350) ([(\<lambda>y. (60, y)) ` {300..400}, (\<lambda>y. (0, y)) ` {300..400},
           set arc15_10_300 \<union> (\<lambda>x. (x, 290)) ` {10..50} \<union> set arc15_50_300,
           set arc15_50_400 \<union> (\<lambda>x. (x, 410)) ` {10..50} \<union> set arc15_10_400] ! 0)"
    apply (rule isdisjoint_lr[where m=40 and n=60])
     apply (use circle72_20_350_box in fastforce)
    apply fastforce
    apply simp
    done
  then show "\<not> touches measured_sample 72 15 behind_paddle 0 0"
    unfolding touches_Some[OF bp pp0] by simp
  have "isdisjoint (set circle72_20_350) ([(\<lambda>y. (60, y)) ` {300..400}, (\<lambda>y. (0, y)) ` {300..400},
           set arc15_10_300 \<union> (\<lambda>x. (x, 290)) ` {10..50} \<union> set arc15_50_300,
           set arc15_50_400 \<union> (\<lambda>x. (x, 410)) ` {10..50} \<union> set arc15_10_400] ! 2)"
    apply (rule isdisjoint_du[where m=310 and n=330])
     apply (use circle72_20_350_box in fastforce)
    apply (use top15_30_350_box in fastforce)
    apply simp
    done
  then show "\<not> touches measured_sample 72 15 behind_paddle 0 2"
    unfolding touches_Some[OF bp pp0] by simp
  have "isdisjoint (set circle72_20_350) ([(\<lambda>y. (60, y)) ` {300..400}, (\<lambda>y. (0, y)) ` {300..400},
           set arc15_10_300 \<union> (\<lambda>x. (x, 290)) ` {10..50} \<union> set arc15_50_300,
           set arc15_50_400 \<union> (\<lambda>x. (x, 410)) ` {10..50} \<union> set arc15_10_400] ! 3)"
    apply (rule isdisjoint_ud[where m=370 and n=390])
     apply (use circle72_20_350_box in fastforce)
    apply (use bottom15_30_350_box in fastforce)
    apply simp
    done
  then show "\<not> touches measured_sample 72 15 behind_paddle 0 3"
    unfolding touches_Some[OF bp pp0] by simp
  have "isdisjoint (set circle72_20_350) ([(\<lambda>y. (1500, y)) ` {300..400}, (\<lambda>y. (1440, y)) ` {300..400},
           set arc15_1450_300 \<union> (\<lambda>x. (x, 290)) ` {1450..1490} \<union> set arc15_1490_300,
           set arc15_1490_400 \<union> (\<lambda>x. (x, 410)) ` {1450..1490} \<union> set arc15_1450_400] ! 1)"
    apply (rule isdisjoint_lr[where m=40 and n=1440])
     apply (use circle72_20_350_box in fastforce)
    apply fastforce
    apply simp
    done
  then show "\<not> touches measured_sample 72 15 behind_paddle 1 1"
    unfolding touches_Some[OF bp pp1] by simp
  have "isdisjoint (set circle72_20_350) ([(\<lambda>y. (1500, y)) ` {300..400}, (\<lambda>y. (1440, y)) ` {300..400},
           set arc15_1450_300 \<union> (\<lambda>x. (x, 290)) ` {1450..1490} \<union> set arc15_1490_300,
           set arc15_1490_400 \<union> (\<lambda>x. (x, 410)) ` {1450..1490} \<union> set arc15_1450_400] ! 2)"
    apply (rule isdisjoint_lr[where m=40 and n=1440])
     apply (use circle72_20_350_box in fastforce)
    apply (use top15_1470_350_box in fastforce)
    apply simp
    done
  then show "\<not> touches measured_sample 72 15 behind_paddle 1 2"
    unfolding touches_Some[OF bp pp1] by simp
  have "isdisjoint (set circle72_20_350) ([(\<lambda>y. (1500, y)) ` {300..400}, (\<lambda>y. (1440, y)) ` {300..400},
           set arc15_1450_300 \<union> (\<lambda>x. (x, 290)) ` {1450..1490} \<union> set arc15_1490_300,
           set arc15_1490_400 \<union> (\<lambda>x. (x, 410)) ` {1450..1490} \<union> set arc15_1450_400] ! 3)"
    apply (rule isdisjoint_lr[where m=40 and n=1440])
     apply (use circle72_20_350_box in fastforce)
    apply (use bottom15_1470_350_box in fastforce)
    apply simp
    done
  then show "\<not> touches measured_sample 72 15 behind_paddle 1 3"
    unfolding touches_Some[OF bp pp1] by simp
  have "(0, 350) \<in> set circle72_20_350" by (simp add: circle72_20_350_def)
  then show "touches measured_sample 72 15 behind_paddle 0 1"
    unfolding touches_Some[OF bp pp0] by (auto simp: isdisjoint_def)
qed

lemma kickoff_touches_main:
  "\<not> touches measured_sample 72 15 kickoff 0 0" "\<not> touches measured_sample 72 15 kickoff 0 2" "\<not> touches measured_sample 72 15 kickoff 0 3" "\<not> touches measured_sample 72 15 kickoff 1 1" "\<not> touches measured_sample 72 15 kickoff 1 2" "\<not> touches measured_sample 72 15 kickoff 1 3"
proof -
  have bp: "get_circle_points measured_sample (tentative kickoff) BALL_RADIUS 72 0 (2 * pi) = Some (set circle72_760_350)"
    by (simp add: tentative_def  kickoff_simps BALL_RADIUS_def BALL_DIAMETER_def circle72_760_350_points)
  have pp0: "get_rounded_rectangle_points measured_sample (paddles kickoff ! 0) PADDLE_WIDTH (paddle_sizes kickoff ! 0) 10 15 =
     Some [(\<lambda>y. (60, y)) ` {300..400}, (\<lambda>y. (0, y)) ` {300..400},
           set arc15_10_300 \<union> (\<lambda>x. (x, 290)) ` {10..50} \<union> set arc15_50_300,
           set arc15_50_400 \<union> (\<lambda>x. (x, 410)) ` {10..50} \<union> set arc15_10_400]"
    by (simp add: kickoff_simps regions15_30_350)
  have pp1: "get_rounded_rectangle_points measured_sample (paddles kickoff ! 1) PADDLE_WIDTH (paddle_sizes kickoff ! 1) 10 15 =
     Some [(\<lambda>y. (1500, y)) ` {300..400}, (\<lambda>y. (1440, y)) ` {300..400},
           set arc15_1450_300 \<union> (\<lambda>x. (x, 290)) ` {1450..1490} \<union> set arc15_1490_300,
           set arc15_1490_400 \<union> (\<lambda>x. (x, 410)) ` {1450..1490} \<union> set arc15_1450_400]"
    by (simp add: kickoff_simps regions15_1470_350)
  have "isdisjoint (set circle72_760_350) ([(\<lambda>y. (60, y)) ` {300..400}, (\<lambda>y. (0, y)) ` {300..400},
           set arc15_10_300 \<union> (\<lambda>x. (x, 290)) ` {10..50} \<union> set arc15_50_300,
           set arc15_50_400 \<union> (\<lambda>x. (x, 410)) ` {10..50} \<union> set arc15_10_400] ! 0)"
    apply (rule isdisjoint_rl[where m=60 and n=740])
     apply (use circle72_760_350_box in fastforce)
    apply fastforce
    apply simp
    done
  then show "\<not> touches measured_sample 72 15 kickoff 0 0"
    unfolding touches_Some[OF bp pp0] by simp
  have "isdisjoint (set circle72_760_350) ([(\<lambda>y. (60, y)) ` {300..400}, (\<lambda>y. (0, y)) ` {300..400},
           set arc15_10_300 \<union> (\<lambda>x. (x, 290)) ` {10..50} \<union> set arc15_50_300,
           set arc15_50_400 \<union> (\<lambda>x. (x, 410)) ` {10..50} \<union> set arc15_10_400] ! 2)"
    apply (rule isdisjoint_rl[where m=60 and n=740])
     apply (use circle72_760_350_box in fastforce)
    apply (use top15_30_350_box in fastforce)
    apply simp
    done
  then show "\<not> touches measured_sample 72 15 kickoff 0 2"
    unfolding touches_Some[OF bp pp0] by simp
  have "isdisjoint (set circle72_760_350) ([(\<lambda>y. (60, y)) ` {300..400}, (\<lambda>y. (0, y)) ` {300..400},
           set arc15_10_300 \<union> (\<lambda>x. (x, 290)) ` {10..50} \<union> set arc15_50_300,
           set arc15_50_400 \<union> (\<lambda>x. (x, 410)) ` {10..50} \<union> set arc15_10_400] ! 3)"
    apply (rule isdisjoint_rl[where m=60 and n=740])
     apply (use circle72_760_350_box in fastforce)
    apply (use bottom15_30_350_box in fastforce)
    apply simp
    done
  then show "\<not> touches measured_sample 72 15 kickoff 0 3"
    unfolding touches_Some[OF bp pp0] by simp
  have "isdisjoint (set circle72_760_350) ([(\<lambda>y. (1500, y)) ` {300..400}, (\<lambda>y. (1440, y)) ` {300..400},
           set arc15_1450_300 \<union> (\<lambda>x. (x, 290)) ` {1450..1490} \<union> set arc15_1490_300,
           set arc15_1490_400 \<union> (\<lambda>x. (x, 410)) ` {1450..1490} \<union> set arc15_1450_400] ! 1)"
    apply (rule isdisjoint_lr[where m=780 and n=1440])
     apply (use circle72_760_350_box in fastforce)
    apply fastforce
    apply simp
    done
  then show "\<not> touches measured_sample 72 15 kickoff 1 1"
    unfolding touches_Some[OF bp pp1] by simp
  have "isdisjoint (set circle72_760_350) ([(\<lambda>y. (1500, y)) ` {300..400}, (\<lambda>y. (1440, y)) ` {300..400},
           set arc15_1450_300 \<union> (\<lambda>x. (x, 290)) ` {1450..1490} \<union> set arc15_1490_300,
           set arc15_1490_400 \<union> (\<lambda>x. (x, 410)) ` {1450..1490} \<union> set arc15_1450_400] ! 2)"
    apply (rule isdisjoint_lr[where m=780 and n=1440])
     apply (use circle72_760_350_box in fastforce)
    apply (use top15_1470_350_box in fastforce)
    apply simp
    done
  then show "\<not> touches measured_sample 72 15 kickoff 1 2"
    unfolding touches_Some[OF bp pp1] by simp
  have "isdisjoint (set circle72_760_350) ([(\<lambda>y. (1500, y)) ` {300..400}, (\<lambda>y. (1440, y)) ` {300..400},
           set arc15_1450_300 \<union> (\<lambda>x. (x, 290)) ` {1450..1490} \<union> set arc15_1490_300,
           set arc15_1490_400 \<union> (\<lambda>x. (x, 410)) ` {1450..1490} \<union> set arc15_1450_400] ! 3)"
    apply (rule isdisjoint_lr[where m=780 and n=1440])
     apply (use circle72_760_350_box in fastforce)
    apply (use bottom15_1470_350_box in fastforce)
    apply simp
    done
  then show "\<not> touches measured_sample 72 15 kickoff 1 3"
    unfolding touches_Some[OF bp pp1] by simp
qed
subsection \<open>The concrete states\<close>

lemma side_hit_simps:
  "board_width side_hit = 1500" "board_height side_hit = 700" "ball_move_pixels side_hit = (10, 5)"
  "current_ball_direction side_hit = (- 1, 0)" "ball_position side_hit = (90, 350)"
  "paddles side_hit = [(30, 350), (1470, 350)]" "paddle_sizes side_hit = [120, 120]"
  "paddle_move_pixels side_hit = 10" "cpus side_hit = [False, False]" "scores side_hit = [0, 0]"
  "rally_counter side_hit = [0, 0]"
  by (simp_all add: side_hit_def kickoff_simps)

lemma two_players_side_hit: "two_players side_hit"
  by (simp add: two_players_def side_hit_simps)

lemma top_hit_simps:
  "board_width top_hit = 1500" "board_height top_hit = 700" "ball_move_pixels top_hit = (10, 5)"
  "current_ball_direction top_hit = (- 1, 1)" "ball_position top_hit = (40, 265)"
  "paddles top_hit = [(30, 350), (1470, 350)]" "paddle_sizes top_hit = [120, 120]"
  "paddle_move_pixels top_hit = 10" "cpus top_hit = [False, False]" "scores top_hit = [0, 0]"
  "rally_counter top_hit = [0, 0]"
  by (simp_all add: top_hit_def kickoff_simps)

lemma two_players_top_hit: "two_players top_hit"
  by (simp add: two_players_def top_hit_simps)

lemma bottom_hit_simps:
  "board_width bottom_hit = 1500" "board_height bottom_hit = 700" "ball_move_pixels bottom_hit = (10, 5)"
  "current_ball_direction bottom_hit = (- 1, - 1)" "ball_position bottom_hit = (40, 435)"
  "paddles bottom_hit = [(30, 350), (1470, 350)]" "paddle_sizes bottom_hit = [120, 120]"
  "paddle_move_pixels bottom_hit = 10" "cpus bottom_hit = [False, False]" "scores bottom_hit = [0, 0]"
  "rally_counter bottom_hit = [0, 0]"
  by (simp_all add: bottom_hit_def kickoff_simps)

lemma two_players_bottom_hit: "two_players bottom_hit"
  by (simp add: two_players_def bottom_hit_simps)

lemma behind_paddle_simps:
  "board_width behind_paddle = 1500" "board_height behind_paddle = 700" "ball_move_pixels behind_paddle = (10, 5)"
  "current_ball_direction behind_paddle = (- 1, 0)" "ball_position behind_paddle = (30, 350)"
  "paddles behind_paddle = [(30, 350), (1470, 350)]" "paddle_sizes behind_paddle = [120, 120]"
  "paddle_move_pixels behind_paddle = 10" "cpus behind_paddle = [False, False]" "scores behind_paddle = [0, 0]"
  "rally_counter behind_paddle = [0, 0]"
  by (simp_all add: behind_paddle_def kickoff_simps)

lemma two_players_behind_paddle: "two_players behind_paddle"
  by (simp add: two_players_def behind_paddle_simps)

lemma paddle_under_ball_simps:
  "board_width paddle_under_ball = 1500" "board_height paddle_under_ball = 700" "ball_move_pixels paddle_under_ball = (10, 5)"
  "current_ball_direction paddle_under_ball = (1, 0)" "ball_position paddle_under_ball = (30, 270)"
  "paddles paddle_under_ball = [(30, 365), (1470, 350)]" "paddle_sizes paddle_under_ball = [120, 120]"
  "paddle_move_pixels paddle_under_ball = 10" "cpus paddle_under_ball = [False, False]" "scores paddle_under_ball = [0, 0]"
  "rally_counter paddle_under_ball = [0, 0]"
  by (simp_all add: paddle_under_ball_def kickoff_simps)

lemma two_players_paddle_under_ball: "two_players paddle_under_ball"
  by (simp add: two_players_def paddle_under_ball_simps)

lemma near_top_wall_simps:
  "board_width near_top_wall = 1500" "board_height near_top_wall = 700" "ball_move_pixels near_top_wall = (10, 5)"
  "current_ball_direction near_top_wall = (1, - 1)" "ball_position near_top_wall = (750, 22)"
  "paddles near_top_wall = [(30, 350), (1470, 350)]" "paddle_sizes near_top_wall = [120, 120]"
  "paddle_move_pixels near_top_wall = 10" "cpus near_top_wall = [False, False]" "scores near_top_wall = [0, 0]"
  "rally_counter near_top_wall = [0, 0]"
  by (simp_all add: near_top_wall_def kickoff_simps)

lemma two_players_near_top_wall: "two_players near_top_wall"
  by (simp add: two_players_def near_top_wall_simps)

lemma near_bottom_wall_simps:
  "board_width near_bottom_wall = 1500" "board_height near_bottom_wall = 700" "ball_move_pixels near_bottom_wall = (10, 5)"
  "current_ball_direction near_bottom_wall = (- 1, 1)" "ball_position near_bottom_wall = (750, 678)"
  "paddles near_bottom_wall = [(30, 350), (1470, 350)]" "paddle_sizes near_bottom_wall = [120, 120]"
  "paddle_move_pixels near_bottom_wall = 10" "cpus near_bottom_wall = [False, False]" "scores near_bottom_wall = [0, 0]"
  "rally_counter near_bottom_wall = [0, 0]"
  by (simp_all add: near_bottom_wall_def kickoff_simps)

lemma two_players_near_bottom_wall: "two_players near_bottom_wall"
  by (simp add: two_players_def near_bottom_wall_simps)

lemma paddle_at_top_simps:
  "board_width paddle_at_top = 1500" "board_height paddle_at_top = 700" "ball_move_pixels paddle_at_top = (10, 5)"
  "current_ball_direction paddle_at_top = (1, 0)" "ball_position paddle_at_top = (750, 350)"
  "paddles paddle_at_top = [(30, 61), (1470, 350)]" "paddle_sizes paddle_at_top = [120, 120]"
  "paddle_move_pixels paddle_at_top = 10" "cpus paddle_at_top = [False, False]" "scores paddle_at_top = [0, 0]"
  "rally_counter paddle_at_top = [0, 0]"
  by (simp_all add: paddle_at_top_def kickoff_simps)

lemma two_players_paddle_at_top: "two_players paddle_at_top"
  by (simp add: two_players_def paddle_at_top_simps)

lemma left_goal_simps:
  "board_width left_goal = 1500" "board_height left_goal = 700" "ball_move_pixels left_goal = (10, 5)"
  "current_ball_direction left_goal = (- 1, 0)" "ball_position left_goal = (25, 350)"
  "paddles left_goal = [(30, 350), (1470, 350)]" "paddle_sizes left_goal = [120, 120]"
  "paddle_move_pixels left_goal = 10" "cpus left_goal = [False, False]" "scores left_goal = [0, 0]"
  "rally_counter left_goal = [0, 0]"
  by (simp_all add: left_goal_def kickoff_simps)

lemma two_players_left_goal: "two_players left_goal"
  by (simp add: two_players_def left_goal_simps)

lemma right_goal_simps:
  "board_width right_goal = 1500" "board_height right_goal = 700" "ball_move_pixels right_goal = (10, 5)"
  "current_ball_direction right_goal = (1, 0)" "ball_position right_goal = (1475, 350)"
  "paddles right_goal = [(30, 350), (1470, 350)]" "paddle_sizes right_goal = [120, 120]"
  "paddle_move_pixels right_goal = 10" "cpus right_goal = [False, False]" "scores right_goal = [0, 0]"
  "rally_counter right_goal = [0, 0]"
  by (simp_all add: right_goal_def kickoff_simps)

lemma two_players_right_goal: "two_players right_goal"
  by (simp add: two_players_def right_goal_simps)

lemma paddles_moved_simps:
  "board_width paddles_moved = 1500" "board_height paddles_moved = 700" "ball_move_pixels paddles_moved = (10, 5)"
  "current_ball_direction paddles_moved = (1, 0)" "ball_position paddles_moved = (750, 350)"
  "paddles paddles_moved = [(30, 100), (1470, 600)]" "paddle_sizes paddles_moved = [120, 120]"
  "paddle_move_pixels paddles_moved = 10" "cpus paddles_moved = [False, False]" "scores paddles_moved = [0, 0]"
  "rally_counter paddles_moved = [0, 0]"
  by (simp_all add: paddles_moved_def kickoff_simps)

lemma two_players_paddles_moved: "two_players paddles_moved"
  by (simp add: two_players_def paddles_moved_simps)
subsection \<open>The collision check in terms of what the ball touches\<close>

lemma check_paddle_collision_cases:
  assumes "two_players s"
  shows "check_paddle_collision smp g s =
     (if PADDLE_WIDTH * 2 < fst (tentative s) \<and> fst (tentative s) < board_width s - PADDLE_WIDTH * 2
      then Some (False, s, g)
      else if touches smp 360 90 s 0 0
      then Some (True, bounce s (fst (current_ball_direction s)) 0 ([-1, 0, 1] ! (g 0 mod 3))
                   (ball_move_amounts ! (g 1 mod length ball_move_amounts)), \<lambda>i. g (Suc (Suc i)))
      else if touches smp 360 90 s 0 2
      then Some (True, bounce s (fst (current_ball_direction s)) 0 (-1)
                   (ball_move_amounts ! (g 0 mod length ball_move_amounts)), \<lambda>i. g (Suc i))
      else if touches smp 360 90 s 0 3
      then Some (True, bounce s (fst (current_ball_direction s)) 0 1
                   (ball_move_amounts ! (g 0 mod length ball_move_amounts)), \<lambda>i. g (Suc i))
      else if touches smp 360 90 s 1 1
      then Some (True, bounce s (fst (current_ball_direction s)) 1 ([-1, 0, 1] ! (g 0 mod 3))
                   (ball_move_amounts ! (g 1 mod length ball_move_amounts)), \<lambda>i. g (Suc (Suc i)))
      else if touches smp 360 90 s 1 2
      then Some (True, bounce s (fst (current_ball_direction s)) 1 (-1)
                   (ball_move_amounts ! (g 0 mod length ball_move_amounts)), \<lambda>i. g (Suc i))
      else if touches smp 360 90 s 1 3
      then Some (True, bounce s (fst (current_ball_direction s)) 1 1
                   (ball_move_amounts ! (g 0 mod length ball_move_amounts)), \<lambda>i. g (Suc i))
      else Some (False, s, g))"
proof -
  have ne: "ball_move_amounts \<noteq> []" by (simp add: ball_move_amounts_first)
  have pos: "(0::nat) < 360" "(0::nat) < 90" by simp_all
  show ?thesis
    by (simp only: check_paddle_collision_two[OF assms] loop_two[OF assms pos ne])
qed

lemma main_check_paddle_collision_cases:
  assumes "two_players s"
  shows "main_check_paddle_collision smp g s =
     (if touches smp 72 15 s 0 0
      then Some (True, bounce s (fst (current_ball_direction s)) 0 ([-1, 0, 1] ! (g 0 mod 3))
                   (main_ball_move_amounts ! (g 1 mod length main_ball_move_amounts)), \<lambda>i. g (Suc (Suc i)))
      else if touches smp 72 15 s 0 2
      then Some (True, bounce s (fst (current_ball_direction s)) 0 (-1)
                   (main_ball_move_amounts ! (g 0 mod length main_ball_move_amounts)), \<lambda>i. g (Suc i))
      else if touches smp 72 15 s 0 3
      then Some (True, bounce s (fst (current_ball_direction s)) 0 1
                   (main_ball_move_amounts ! (g 0 mod length main_ball_move_amounts)), \<lambda>i. g (Suc i))
      else if touches smp 72 15 s 1 1
      then Some (True, bounce s (fst (current_ball_direction s)) 1 ([-1, 0, 1] ! (g 0 mod 3))
                   (main_ball_move_amounts ! (g 1 mod length main_ball_move_amounts)), \<lambda>i. g (Suc (Suc i)))
      else if touches smp 72 15 s 1 2
      then Some (True, bounce s (fst (current_ball_direction s)) 1 (-1)
                   (main_ball_move_amounts ! (g 0 mod length main_ball_move_amounts)), \<lambda>i. g (Suc i))
      else if touches smp 72 15 s 1 3
      then Some (True, bounce s (fst (current_ball_direction s)) 1 1
                   (main_ball_move_amounts ! (g 0 mod length main_ball_move_amounts)), \<lambda>i. g (Suc i))
      else Some (False, s, g))"
proof -
  have ne: "main_ball_move_amounts \<noteq> []" by (simp add: main_ball_move_amounts_first)
  have pos: "(0::nat) < 72" "(0::nat) < 15" by simp_all
  show ?thesis
    by (simp only: main_check_paddle_collision_two loop_two[OF assms pos ne])
qed

lemma zero_draws_simps: "zero_draws k = 0" "(\<lambda>i. 0) = zero_draws"
  by (simp_all add: zero_draws_def)

lemma side_hit_check:
  "check_paddle_collision measured_sample zero_draws side_hit =
     Some (True, side_hit\<lparr>current_ball_direction := (1, -1), ball_move_pixels := (10, 5),
                          rally_counter := [1, 0]\<rparr>, zero_draws)"
  by (simp add: check_paddle_collision_cases[OF two_players_side_hit] side_hit_touches tentative_def
      side_hit_simps PADDLE_WIDTH_def zero_draws_simps ball_move_amounts_first bounce_def)

lemma top_hit_check:
  "check_paddle_collision measured_sample zero_draws top_hit =
     Some (True, top_hit\<lparr>current_ball_direction := (1, -1), ball_move_pixels := (10, 5),
                         rally_counter := [1, 0]\<rparr>, zero_draws)"
  by (simp add: check_paddle_collision_cases[OF two_players_top_hit] top_hit_touches tentative_def
      top_hit_simps PADDLE_WIDTH_def zero_draws_simps ball_move_amounts_first bounce_def)

lemma bottom_hit_check:
  "check_paddle_collision measured_sample zero_draws bottom_hit =
     Some (True, bottom_hit\<lparr>current_ball_direction := (1, 1), ball_move_pixels := (10, 5),
                            rally_counter := [1, 0]\<rparr>, zero_draws)"
  by (simp add: check_paddle_collision_cases[OF two_players_bottom_hit] bottom_hit_touches tentative_def
      bottom_hit_simps PADDLE_WIDTH_def zero_draws_simps ball_move_amounts_first bounce_def)

lemma hits_classified:
  "ballHitsPaddleRegion measured_sample side_hit = Some (Side 0)"
  "ballHitsPaddleRegion measured_sample top_hit = Some (Top 0)"
  "ballHitsPaddleRegion measured_sample bottom_hit = Some (Bottom 0)"
  by (simp_all add: ballHitsPaddleRegion_def first_hit_two tentative_def PADDLE_WIDTH_def
      side_hit_simps top_hit_simps bottom_hit_simps side_hit_touches top_hit_touches bottom_hit_touches)

lemma kickoff_check:
  "check_paddle_collision smp g kickoff = Some (False, kickoff, g)"
  by (rule culled) (simp_all add: tentative_def kickoff_simps PADDLE_WIDTH_def)

lemma kickoff_main_check:
  "main_check_paddle_collision measured_sample g kickoff = Some (False, kickoff, g)"
  by (simp only: main_check_paddle_collision_cases[OF two_players_kickoff] kickoff_touches_main if_False)

lemma paddle_under_ball_blocked:
  "check_ball_collision measured_sample paddle_under_ball 0 350 120 = Some True"
proof -
  have "(30, 290) \<in> set circle360_30_270" by (simp add: circle360_30_270_def)
  then have "\<not> isdisjoint (set arc90_10_300 \<union> (\<lambda>x. (x, 290)) ` {10..50} \<union> set arc90_50_300)
               (set circle360_30_270)"
    by (intro isdisjoint_common[of "(30, 290)"]) simp_all
  then show ?thesis
    by (simp add: check_ball_collision_def Let_def paddle_under_ball_simps PADDLE_WIDTH_def index_def
        BALL_RADIUS_def BALL_DIAMETER_def circle360_30_270_points
        regions90_30_350[unfolded PADDLE_WIDTH_def, simplified])
qed
subsection \<open>Witnesses for the culling zone and the free tick\<close>

theorem culling_band_witness:
  "PADDLE_WIDTH * 2 < fst (tentative kickoff) \<and>
   fst (tentative kickoff) < board_width kickoff - PADDLE_WIDTH * 2 \<and>
   check_paddle_collision measured_sample zero_draws kickoff = Some (False, kickoff, zero_draws) \<and>
   PADDLE_WIDTH * 2 < fst (ball_position kickoff) \<and>
   fst (ball_position kickoff) < board_width kickoff - PADDLE_WIDTH * 2 \<and>
   check_ball_collision measured_sample kickoff 0 335 120 = Some False \<and>
   check_paddle_collision measured_sample zero_draws side_hit =
     Some (True, side_hit\<lparr>current_ball_direction := (1, -1), ball_move_pixels := (10, 5),
                          rally_counter := [1, 0]\<rparr>, zero_draws) \<and>
   fst (tentative side_hit) \<le> PADDLE_WIDTH * 2 \<and>
   check_ball_collision measured_sample paddle_under_ball 0 350 120 = Some True \<and>
   fst (ball_position paddle_under_ball) \<le> PADDLE_WIDTH * 2"
  using culling_band[of kickoff measured_sample zero_draws 0 335 120 kickoff zero_draws]
    culling_band[of side_hit measured_sample zero_draws 0 350 120
      "side_hit\<lparr>current_ball_direction := (1, -1), ball_move_pixels := (10, 5), rally_counter := [1, 0]\<rparr>"
      zero_draws]
    culling_band[of paddle_under_ball measured_sample zero_draws 0 350 120 paddle_under_ball zero_draws]
  by (simp add: tentative_def kickoff_simps side_hit_simps paddle_under_ball_simps PADDLE_WIDTH_def
      side_hit_check paddle_under_ball_blocked)

theorem move_ball_free_witness:
  "check_paddle_collision measured_sample zero_draws kickoff = Some (False, kickoff, zero_draws) \<and>
   main_check_paddle_collision measured_sample zero_draws kickoff = Some (False, kickoff, zero_draws) \<and>
   check_wall_collision kickoff (snd (tentative kickoff)) BALL_RADIUS = False \<and>
   move_ball measured_sample zero_draws kickoff = Some (kickoff\<lparr>ball_position := (760, 350)\<rparr>, zero_draws) \<and>
   main_move_ball measured_sample zero_draws kickoff = Some (kickoff\<lparr>ball_position := (760, 350)\<rparr>, zero_draws)"
  using move_ball_free[of measured_sample zero_draws kickoff kickoff zero_draws]
  by (simp add: kickoff_check kickoff_main_check check_wall_collision_def tentative_def kickoff_simps
      BALL_RADIUS_def BALL_DIAMETER_def)

lemma wall_states_check:
  "check_paddle_collision smp g near_top_wall = Some (False, near_top_wall, g)"
  "check_paddle_collision smp g near_bottom_wall = Some (False, near_bottom_wall, g)"
  by (rule culled; simp add: tentative_def near_top_wall_simps near_bottom_wall_simps PADDLE_WIDTH_def)+

theorem move_ball_wall_witness:
  "check_paddle_collision measured_sample zero_draws near_top_wall = Some (False, near_top_wall, zero_draws) \<and>
   snd (tentative near_top_wall) - BALL_RADIUS < 0 \<and>
   move_ball measured_sample zero_draws near_top_wall =
     Some (near_top_wall\<lparr>current_ball_direction := (1, 1), ball_position := (760, 27)\<rparr>, zero_draws) \<and>
   check_paddle_collision measured_sample zero_draws near_bottom_wall = Some (False, near_bottom_wall, zero_draws) \<and>
   snd (tentative near_bottom_wall) + BALL_RADIUS > board_height near_bottom_wall \<and>
   move_ball measured_sample zero_draws near_bottom_wall =
     Some (near_bottom_wall\<lparr>current_ball_direction := (-1, -1), ball_position := (740, 673)\<rparr>, zero_draws)"
  using move_ball_wall[of measured_sample zero_draws near_top_wall near_top_wall zero_draws]
    move_ball_wall[of measured_sample zero_draws near_bottom_wall near_bottom_wall zero_draws]
  by (simp add: wall_states_check tentative_def near_top_wall_simps near_bottom_wall_simps
      BALL_RADIUS_def BALL_DIAMETER_def)

text \<open>
  C1. Let the engine hold two players, and let the ball's tentative position hit a paddle
  in the sense of the contract \<open>ballHitsPaddleRegion\<close>: side, top or bottom of player
  \<open>p\<close>'s paddle, the first match in the order of the check. Then \<^verbatim>\<open>move_ball\<close> of
  \<^verbatim>\<open>Pong.py\<close> returns, and in the state it leaves the ball is where it was, the
  horizontal direction is the negated one, player \<open>p\<close>'s rally counter is one higher and
  the other one unchanged, the speed is a member of \<open>ball_move_amounts\<close>, and the vertical
  direction is in \<open>{-1, 0, 1}\<close> after a side hit, \<open>-1\<close> after a top hit and \<open>1\<close> after a
  bottom hit.
\<close>

theorem paddle_bounce:
  assumes "two_players s"
  shows
  "(ballHitsPaddleRegion smp s = Some (Side p) \<longrightarrow>
      (\<exists>s' g'. move_ball smp g s = Some (s', g') \<and> p < 2 \<and>
         ball_position s' = ball_position s \<and>
         fst (current_ball_direction s') = - fst (current_ball_direction s) \<and>
         snd (current_ball_direction s') \<in> {-1, 0, 1} \<and>
         rally_counter s' = (rally_counter s)[p := rally_counter s ! p + 1] \<and>
         ball_move_pixels s' \<in> set ball_move_amounts)) \<and>
   (ballHitsPaddleRegion smp s = Some (Top p) \<longrightarrow>
      (\<exists>s' g'. move_ball smp g s = Some (s', g') \<and> p < 2 \<and>
         ball_position s' = ball_position s \<and>
         fst (current_ball_direction s') = - fst (current_ball_direction s) \<and>
         snd (current_ball_direction s') = -1 \<and>
         rally_counter s' = (rally_counter s)[p := rally_counter s ! p + 1] \<and>
         ball_move_pixels s' \<in> set ball_move_amounts)) \<and>
   (ballHitsPaddleRegion smp s = Some (Bottom p) \<longrightarrow>
      (\<exists>s' g'. move_ball smp g s = Some (s', g') \<and> p < 2 \<and>
         ball_position s' = ball_position s \<and>
         fst (current_ball_direction s') = - fst (current_ball_direction s) \<and>
         snd (current_ball_direction s') = 1 \<and>
         rally_counter s' = (rally_counter s)[p := rally_counter s ! p + 1] \<and>
         ball_move_pixels s' \<in> set ball_move_amounts))"
proof -
  have step: "\<exists>p' dy mv g'. p' < 2 \<and> mv \<in> set ball_move_amounts \<and>
      move_ball smp g s = Some (bounce s (fst (current_ball_direction s)) p' dy mv, g') \<and>
      (h = Side p' \<and> dy \<in> {-1, 0, 1} \<or> h = Top p' \<and> dy = -1 \<or> h = Bottom p' \<and> dy = 1)"
    if "ballHitsPaddleRegion smp s = Some h" for h
  proof -
    from hit_bounces[OF assms that, of g] obtain p' dy mv g' where
      "p' < 2" "mv \<in> set ball_move_amounts"
      "check_paddle_collision smp g s = Some (True, bounce s (fst (current_ball_direction s)) p' dy mv, g')"
      "h = Side p' \<and> dy \<in> {-1, 0, 1} \<or> h = Top p' \<and> dy = -1 \<or> h = Bottom p' \<and> dy = 1"
      by blast
    moreover from this(3)
    have "move_ball smp g s = Some (bounce s (fst (current_ball_direction s)) p' dy mv, g')"
      by (simp add: move_ball_unfold)
    ultimately show ?thesis by blast
  qed
  show ?thesis
  proof (intro conjI impI)
    assume "ballHitsPaddleRegion smp s = Some (Side p)"
    from step[OF this] obtain dy mv g' where "p < 2" "mv \<in> set ball_move_amounts"
      "move_ball smp g s = Some (bounce s (fst (current_ball_direction s)) p dy mv, g')"
      "dy \<in> {-1, 0, 1}" by auto
    then show "\<exists>s' g'. move_ball smp g s = Some (s', g') \<and> p < 2 \<and>
         ball_position s' = ball_position s \<and>
         fst (current_ball_direction s') = - fst (current_ball_direction s) \<and>
         snd (current_ball_direction s') \<in> {-1, 0, 1} \<and>
         rally_counter s' = (rally_counter s)[p := rally_counter s ! p + 1] \<and>
         ball_move_pixels s' \<in> set ball_move_amounts"
      by (simp add: bounce_simps)
  next
    assume "ballHitsPaddleRegion smp s = Some (Top p)"
    from step[OF this] obtain mv g' where "p < 2" "mv \<in> set ball_move_amounts"
      "move_ball smp g s = Some (bounce s (fst (current_ball_direction s)) p (-1) mv, g')"
      by auto
    then show "\<exists>s' g'. move_ball smp g s = Some (s', g') \<and> p < 2 \<and>
         ball_position s' = ball_position s \<and>
         fst (current_ball_direction s') = - fst (current_ball_direction s) \<and>
         snd (current_ball_direction s') = -1 \<and>
         rally_counter s' = (rally_counter s)[p := rally_counter s ! p + 1] \<and>
         ball_move_pixels s' \<in> set ball_move_amounts"
      by (simp add: bounce_simps)
  next
    assume "ballHitsPaddleRegion smp s = Some (Bottom p)"
    from step[OF this] obtain mv g' where "p < 2" "mv \<in> set ball_move_amounts"
      "move_ball smp g s = Some (bounce s (fst (current_ball_direction s)) p 1 mv, g')"
      by auto
    then show "\<exists>s' g'. move_ball smp g s = Some (s', g') \<and> p < 2 \<and>
         ball_position s' = ball_position s \<and>
         fst (current_ball_direction s') = - fst (current_ball_direction s) \<and>
         snd (current_ball_direction s') = 1 \<and>
         rally_counter s' = (rally_counter s)[p := rally_counter s ! p + 1] \<and>
         ball_move_pixels s' \<in> set ball_move_amounts"
      by (simp add: bounce_simps)
  qed
qed

lemma hit_states_move_ball:
  "move_ball measured_sample zero_draws side_hit =
     Some (side_hit\<lparr>current_ball_direction := (1, -1), ball_move_pixels := (10, 5),
                     rally_counter := [1, 0]\<rparr>, zero_draws)"
  "move_ball measured_sample zero_draws top_hit =
     Some (top_hit\<lparr>current_ball_direction := (1, -1), ball_move_pixels := (10, 5),
                    rally_counter := [1, 0]\<rparr>, zero_draws)"
  "move_ball measured_sample zero_draws bottom_hit =
     Some (bottom_hit\<lparr>current_ball_direction := (1, 1), ball_move_pixels := (10, 5),
                       rally_counter := [1, 0]\<rparr>, zero_draws)"
  by (simp_all add: move_ball_unfold side_hit_check top_hit_check bottom_hit_check)

theorem paddle_bounce_witness:
  "two_players side_hit \<and> two_players top_hit \<and> two_players bottom_hit \<and>
   ballHitsPaddleRegion measured_sample side_hit = Some (Side 0) \<and>
   current_ball_direction side_hit = (-1, 0) \<and> ball_position side_hit = (90, 350) \<and>
   rally_counter side_hit = [0, 0] \<and>
   move_ball measured_sample zero_draws side_hit =
     Some (side_hit\<lparr>current_ball_direction := (1, -1), ball_move_pixels := (10, 5),
                     rally_counter := [1, 0]\<rparr>, zero_draws) \<and>
   ballHitsPaddleRegion measured_sample top_hit = Some (Top 0) \<and>
   current_ball_direction top_hit = (-1, 1) \<and> ball_position top_hit = (40, 265) \<and>
   move_ball measured_sample zero_draws top_hit =
     Some (top_hit\<lparr>current_ball_direction := (1, -1), ball_move_pixels := (10, 5),
                    rally_counter := [1, 0]\<rparr>, zero_draws) \<and>
   ballHitsPaddleRegion measured_sample bottom_hit = Some (Bottom 0) \<and>
   current_ball_direction bottom_hit = (-1, -1) \<and> ball_position bottom_hit = (40, 435) \<and>
   move_ball measured_sample zero_draws bottom_hit =
     Some (bottom_hit\<lparr>current_ball_direction := (1, 1), ball_move_pixels := (10, 5),
                       rally_counter := [1, 0]\<rparr>, zero_draws) \<and>
   (10, 5) \<in> set ball_move_amounts"
  using paddle_bounce[OF two_players_side_hit, of measured_sample 0 zero_draws]
    paddle_bounce[OF two_players_top_hit, of measured_sample 0 zero_draws]
    paddle_bounce[OF two_players_bottom_hit, of measured_sample 0 zero_draws]
  by (simp add: hits_classified hit_states_move_ball two_players_side_hit two_players_top_hit
      two_players_bottom_hit side_hit_simps top_hit_simps bottom_hit_simps)

text \<open>
  C10. The collision check of \<^verbatim>\<open>move_ball\<close> tests one side edge per paddle, the region
  whose number is the player's: the right edge (region 0) of player 0's paddle and the
  left edge (region 1) of player 1's paddle. With two players, if the ball's sampled
  perimeter at the tentative position misses these two edges and the top and bottom
  regions of both paddles, then \<^verbatim>\<open>check_paddle_collision\<close> reports no collision and
  leaves the whole state, with direction, speed and rally counters, and the random source
  unchanged, whether or not the perimeter meets an outward-facing edge (region 1 of
  player 0's paddle, region 0 of player 1's). This holds in both files, with their sample
  counts 360 and 90, and 72 and 15.
\<close>

theorem outward_edge_ignored:
  assumes "two_players s"
  shows
  "(\<not> touches smp 360 90 s 0 0 \<and> \<not> touches smp 360 90 s 0 2 \<and> \<not> touches smp 360 90 s 0 3 \<and>
    \<not> touches smp 360 90 s 1 1 \<and> \<not> touches smp 360 90 s 1 2 \<and> \<not> touches smp 360 90 s 1 3 \<longrightarrow>
      check_paddle_collision smp g s = Some (False, s, g)) \<and>
   (\<not> touches smp 72 15 s 0 0 \<and> \<not> touches smp 72 15 s 0 2 \<and> \<not> touches smp 72 15 s 0 3 \<and>
    \<not> touches smp 72 15 s 1 1 \<and> \<not> touches smp 72 15 s 1 2 \<and> \<not> touches smp 72 15 s 1 3 \<longrightarrow>
      main_check_paddle_collision smp g s = Some (False, s, g))"
  by (simp only: check_paddle_collision_cases[OF assms] main_check_paddle_collision_cases[OF assms])
     simp

theorem outward_edge_ignored_witness:
  "two_players behind_paddle \<and> tentative behind_paddle = (20, 350) \<and>
   touches measured_sample 360 90 behind_paddle 0 1 \<and>
   check_paddle_collision measured_sample zero_draws behind_paddle = Some (False, behind_paddle, zero_draws) \<and>
   touches measured_sample 72 15 behind_paddle 0 1 \<and>
   main_check_paddle_collision measured_sample zero_draws behind_paddle = Some (False, behind_paddle, zero_draws)"
  using outward_edge_ignored[OF two_players_behind_paddle, of measured_sample zero_draws]
  by (simp del: One_nat_def add: behind_paddle_touches behind_paddle_touches_main two_players_behind_paddle
      tentative_def behind_paddle_simps)

subsection \<open>Moving a paddle\<close>

lemma check_ball_collision_total:
  assumes "player < length (paddles s)"
  shows "\<exists>b. check_ball_collision smp s player new_y offset = Some b"
proof -
  obtain pp where "get_rounded_rectangle_points smp (fst (paddles s ! player), new_y) PADDLE_WIDTH offset 10 90 = Some pp"
    using regions_Some[of 90 smp "(fst (paddles s ! player), new_y)" PADDLE_WIDTH offset 10] by auto
  then show ?thesis
    using assms by (auto simp: check_ball_collision_def Let_def index_def circle_points_Some)
qed

lemma main_check_ball_collision_total:
  assumes "player < length (paddles s)"
  shows "\<exists>b. main_check_ball_collision smp s player new_y offset = Some b"
proof -
  obtain pp where "get_rounded_rectangle_points smp (fst (paddles s ! player), new_y) PADDLE_WIDTH offset 10 15 = Some pp"
    using regions_Some[of 15 smp "(fst (paddles s ! player), new_y)" PADDLE_WIDTH offset 10] by auto
  then show ?thesis
    using assms by (auto simp: main_check_ball_collision_def Let_def index_def circle_points_Some)
qed

lemma move_paddle_result:
  assumes "player < length (paddles s)" "player < length (paddle_sizes s)"
  shows "\<exists>blocked. move_paddle smp player direction pixels s =
     Some (s\<lparr>paddles := (paddles s)[player := (fst (paddles s ! player),
        if blocked then snd (paddles s ! player)
        else if direction > 0
          then min (snd (paddles s ! player) + pixels * direction)
                 (board_height s - paddle_sizes s ! player div 2 - 1)
          else max (snd (paddles s ! player) + pixels * direction)
                 (paddle_sizes s ! player div 2 + 1))]\<rparr>)"
proof -
  define ny where "ny = (if direction > 0
          then min (snd (paddles s ! player) + pixels * direction)
                 (board_height s - paddle_sizes s ! player div 2 - 1)
          else max (snd (paddles s ! player) + pixels * direction)
                 (paddle_sizes s ! player div 2 + 1))"
  obtain b where b: "check_ball_collision smp s player ny (paddle_sizes s ! player) = Some b"
    using check_ball_collision_total[OF assms(1)] by blast
  have "move_paddle smp player direction pixels s =
     Some (s\<lparr>paddles := (paddles s)[player := (fst (paddles s ! player),
        if (check_wall_collision s ny (paddle_sizes s ! player div 2) \<or> b)
        then snd (paddles s ! player) else ny)]\<rparr>)"
    using assms b by (simp add: move_paddle_def index_def Let_def ny_def[symmetric])
  then show ?thesis unfolding ny_def by blast
qed

lemma main_move_paddle_result:
  assumes "player < length (paddles s)" "player < length (paddle_sizes s)"
  shows "\<exists>blocked. main_move_paddle smp player direction s =
     Some (s\<lparr>paddles := (paddles s)[player := (fst (paddles s ! player),
        if blocked then snd (paddles s ! player)
        else if direction > 0
          then min (snd (paddles s ! player) + paddle_move_pixels s * direction)
                 (board_height s - paddle_sizes s ! player div 2 - 1)
          else max (snd (paddles s ! player) + paddle_move_pixels s * direction)
                 (paddle_sizes s ! player div 2 + 1))]\<rparr>)"
proof -
  define ny where "ny = (if direction > 0
          then min (snd (paddles s ! player) + paddle_move_pixels s * direction)
                 (board_height s - paddle_sizes s ! player div 2 - 1)
          else max (snd (paddles s ! player) + paddle_move_pixels s * direction)
                 (paddle_sizes s ! player div 2 + 1))"
  obtain b where b: "main_check_ball_collision smp s player ny (paddle_sizes s ! player) = Some b"
    using main_check_ball_collision_total[OF assms(1)] by blast
  have "main_move_paddle smp player direction s =
     Some (s\<lparr>paddles := (paddles s)[player := (fst (paddles s ! player),
        if (check_wall_collision s ny (paddle_sizes s ! player div 2) \<or> b)
        then snd (paddles s ! player) else ny)]\<rparr>)"
    using assms b by (simp add: main_move_paddle_def index_def Let_def ny_def[symmetric])
  then show ?thesis unfolding ny_def by blast
qed

lemma clamped_between:
  fixes y d :: int
  assumes "lo \<le> y" "y \<le> hi" "up \<longrightarrow> 0 \<le> d" "\<not> up \<longrightarrow> d \<le> 0"
  shows "lo \<le> (if blocked then y else if up then min (y + d) hi else max (y + d) lo)"
    and "(if blocked then y else if up then min (y + d) hi else max (y + d) lo) \<le> hi"
  using assms by auto

lemma clamped_in_range:
  fixes y :: int
  assumes "lo \<le> y" "y \<le> hi" "0 \<le> pixels"
  shows "lo \<le> (if blocked then y else if direction > 0 then min (y + pixels * direction) hi
                 else max (y + pixels * direction) lo)"
    and "(if blocked then y else if direction > 0 then min (y + pixels * direction) hi
                 else max (y + pixels * direction) lo) \<le> hi"
proof -
  have up: "direction > 0 \<longrightarrow> 0 \<le> pixels * direction"
    using assms(3) by simp
  have down: "\<not> direction > 0 \<longrightarrow> pixels * direction \<le> 0"
    using assms(3) by (simp add: mult_nonneg_nonpos)
  show "lo \<le> (if blocked then y else if direction > 0 then min (y + pixels * direction) hi
                 else max (y + pixels * direction) lo)"
    by (rule clamped_between(1)[OF assms(1,2) up down])
  show "(if blocked then y else if direction > 0 then min (y + pixels * direction) hi
                 else max (y + pixels * direction) lo) \<le> hi"
    by (rule clamped_between(2)[OF assms(1,2) up down])
qed

lemma paddle_in_range_update:
  assumes "player < length (paddles s)" "paddle_in_range s q"
    and "q = player \<Longrightarrow> paddle_sizes s ! q div 2 + 1 \<le> y \<and> y \<le> board_height s - paddle_sizes s ! q div 2 - 1"
  shows "paddle_in_range (s\<lparr>paddles := (paddles s)[player := (x, y)]\<rparr>) q"
  using assms by (cases "q = player") (simp_all add: paddle_in_range_def)

text \<open>
  C4. A pixel step is a number of pixels, not negative: every call passes
  \<open>PADDLE_MOVE_PIXELS\<close> or \<open>min gap PADDLE_MOVE_PIXELS\<close> with \<open>gap\<close> an absolute value,
  and \<^verbatim>\<open>main.py\<close> reads the step from the attribute \<open>paddle_move_pixels\<close>. For every
  state, every player whose paddle and paddle size exist, every direction and every such
  step, \<^verbatim>\<open>move_paddle\<close> returns, and every paddle \<open>q\<close> whose centre y was within
  \<open>[size div 2 + 1, board_height - size div 2 - 1]\<close> before the call is within that range
  after it. This holds in both files.
\<close>

theorem move_paddle_keeps_range:
  assumes "player < length (paddles s)" "player < length (paddle_sizes s)"
    and "paddle_in_range s q"
    and "0 \<le> pixels" "0 \<le> paddle_move_pixels s"
  shows "(\<exists>s'. move_paddle smp player direction pixels s = Some s' \<and> paddle_in_range s' q) \<and>
         (\<exists>s'. main_move_paddle smp player direction s = Some s' \<and> paddle_in_range s' q)"
proof
  from move_paddle_result[OF assms(1,2), of smp direction pixels] obtain blocked where
    r: "move_paddle smp player direction pixels s =
     Some (s\<lparr>paddles := (paddles s)[player := (fst (paddles s ! player),
        if blocked then snd (paddles s ! player)
        else if direction > 0
          then min (snd (paddles s ! player) + pixels * direction)
                 (board_height s - paddle_sizes s ! player div 2 - 1)
          else max (snd (paddles s ! player) + pixels * direction)
                 (paddle_sizes s ! player div 2 + 1))]\<rparr>)" by blast
  have "paddle_in_range (s\<lparr>paddles := (paddles s)[player := (fst (paddles s ! player),
        if blocked then snd (paddles s ! player)
        else if direction > 0
          then min (snd (paddles s ! player) + pixels * direction)
                 (board_height s - paddle_sizes s ! player div 2 - 1)
          else max (snd (paddles s ! player) + pixels * direction)
                 (paddle_sizes s ! player div 2 + 1))]\<rparr>) q"
  proof (rule paddle_in_range_update[OF assms(1) assms(3)])
    assume "q = player"
    with assms(3) have "paddle_sizes s ! player div 2 + 1 \<le> snd (paddles s ! player)"
      "snd (paddles s ! player) \<le> board_height s - paddle_sizes s ! player div 2 - 1"
      by (simp_all add: paddle_in_range_def)
    from clamped_in_range[OF this assms(4), of blocked direction] \<open>q = player\<close>
    show "paddle_sizes s ! q div 2 + 1 \<le> (if blocked then snd (paddles s ! player)
        else if direction > 0
          then min (snd (paddles s ! player) + pixels * direction)
                 (board_height s - paddle_sizes s ! player div 2 - 1)
          else max (snd (paddles s ! player) + pixels * direction)
                 (paddle_sizes s ! player div 2 + 1)) \<and>
       (if blocked then snd (paddles s ! player)
        else if direction > 0
          then min (snd (paddles s ! player) + pixels * direction)
                 (board_height s - paddle_sizes s ! player div 2 - 1)
          else max (snd (paddles s ! player) + pixels * direction)
                 (paddle_sizes s ! player div 2 + 1)) \<le> board_height s - paddle_sizes s ! q div 2 - 1"
      by simp
  qed
  with r show "\<exists>s'. move_paddle smp player direction pixels s = Some s' \<and> paddle_in_range s' q"
    by blast
next
  from main_move_paddle_result[OF assms(1,2), of smp direction] obtain blocked where
    r: "main_move_paddle smp player direction s =
     Some (s\<lparr>paddles := (paddles s)[player := (fst (paddles s ! player),
        if blocked then snd (paddles s ! player)
        else if direction > 0
          then min (snd (paddles s ! player) + paddle_move_pixels s * direction)
                 (board_height s - paddle_sizes s ! player div 2 - 1)
          else max (snd (paddles s ! player) + paddle_move_pixels s * direction)
                 (paddle_sizes s ! player div 2 + 1))]\<rparr>)" by blast
  have "paddle_in_range (s\<lparr>paddles := (paddles s)[player := (fst (paddles s ! player),
        if blocked then snd (paddles s ! player)
        else if direction > 0
          then min (snd (paddles s ! player) + paddle_move_pixels s * direction)
                 (board_height s - paddle_sizes s ! player div 2 - 1)
          else max (snd (paddles s ! player) + paddle_move_pixels s * direction)
                 (paddle_sizes s ! player div 2 + 1))]\<rparr>) q"
  proof (rule paddle_in_range_update[OF assms(1) assms(3)])
    assume "q = player"
    with assms(3) have "paddle_sizes s ! player div 2 + 1 \<le> snd (paddles s ! player)"
      "snd (paddles s ! player) \<le> board_height s - paddle_sizes s ! player div 2 - 1"
      by (simp_all add: paddle_in_range_def)
    from clamped_in_range[OF this assms(5), of blocked direction] \<open>q = player\<close>
    show "paddle_sizes s ! q div 2 + 1 \<le> (if blocked then snd (paddles s ! player)
        else if direction > 0
          then min (snd (paddles s ! player) + paddle_move_pixels s * direction)
                 (board_height s - paddle_sizes s ! player div 2 - 1)
          else max (snd (paddles s ! player) + paddle_move_pixels s * direction)
                 (paddle_sizes s ! player div 2 + 1)) \<and>
       (if blocked then snd (paddles s ! player)
        else if direction > 0
          then min (snd (paddles s ! player) + paddle_move_pixels s * direction)
                 (board_height s - paddle_sizes s ! player div 2 - 1)
          else max (snd (paddles s ! player) + paddle_move_pixels s * direction)
                 (paddle_sizes s ! player div 2 + 1)) \<le> board_height s - paddle_sizes s ! q div 2 - 1"
      by simp
  qed
  with r show "\<exists>s'. main_move_paddle smp player direction s = Some s' \<and> paddle_in_range s' q"
    by blast
qed

lemma circle72_750_350_length: "length circle72_750_350 = 73"
  by (simp add: circle72_750_350_def)

lemma circle72_750_350_points: "get_circle_points measured_sample (750, 350) 20 72 a b = Some (set circle72_750_350)"
  by (rule measured_circle) (simp_all add: measurements_def circle72_750_350_length)

lemma circle72_750_350_box: "\<forall>p\<in>set circle72_750_350. 730 \<le> fst p \<and> fst p \<le> 770 \<and> 330 \<le> snd p \<and> snd p \<le> 370"
  by (simp add: circle72_750_350_def)

lemma arc15_10_290_length: "length arc15_10_290 = 16"
  by (simp add: arc15_10_290_def)

lemma arc15_10_290_points: "get_circle_points measured_sample (10, 290) 10 15 a b = Some (set arc15_10_290)"
  by (rule measured_circle) (simp_all add: measurements_def arc15_10_290_length)

lemma arc15_10_290_box: "\<forall>p\<in>set arc15_10_290. 0 \<le> fst p \<and> fst p \<le> 10 \<and> 290 \<le> snd p \<and> snd p \<le> 300"
  by (simp add: arc15_10_290_def)

lemma arc15_50_290_length: "length arc15_50_290 = 16"
  by (simp add: arc15_50_290_def)

lemma arc15_50_290_points: "get_circle_points measured_sample (50, 290) 10 15 a b = Some (set arc15_50_290)"
  by (rule measured_circle) (simp_all add: measurements_def arc15_50_290_length)

lemma arc15_50_290_box: "\<forall>p\<in>set arc15_50_290. 50 \<le> fst p \<and> fst p \<le> 60 \<and> 290 \<le> snd p \<and> snd p \<le> 300"
  by (simp add: arc15_50_290_def)

lemma arc15_50_390_length: "length arc15_50_390 = 16"
  by (simp add: arc15_50_390_def)

lemma arc15_50_390_points: "get_circle_points measured_sample (50, 390) 10 15 a b = Some (set arc15_50_390)"
  by (rule measured_circle) (simp_all add: measurements_def arc15_50_390_length)

lemma arc15_50_390_box: "\<forall>p\<in>set arc15_50_390. 50 \<le> fst p \<and> fst p \<le> 60 \<and> 380 \<le> snd p \<and> snd p \<le> 390"
  by (simp add: arc15_50_390_def)

lemma arc15_10_390_length: "length arc15_10_390 = 16"
  by (simp add: arc15_10_390_def)

lemma arc15_10_390_points: "get_circle_points measured_sample (10, 390) 10 15 a b = Some (set arc15_10_390)"
  by (rule measured_circle) (simp_all add: measurements_def arc15_10_390_length)

lemma arc15_10_390_box: "\<forall>p\<in>set arc15_10_390. 0 \<le> fst p \<and> fst p \<le> 9 \<and> 380 \<le> snd p \<and> snd p \<le> 390"
  by (simp add: arc15_10_390_def)

lemma regions15_30_340:
  "get_rounded_rectangle_points measured_sample (30, 340) PADDLE_WIDTH 120 10 15 =
     Some [(\<lambda>y. (60, y)) ` {290..390}, (\<lambda>y. (0, y)) ` {290..390},
           set arc15_10_290 \<union> (\<lambda>x. (x, 280)) ` {10..50} \<union> set arc15_50_290,
           set arc15_50_390 \<union> (\<lambda>x. (x, 400)) ` {10..50} \<union> set arc15_10_390]"
  by (simp add: get_rounded_rectangle_points_def Let_def PADDLE_WIDTH_def range_py_def
      arc15_10_290_points arc15_50_290_points arc15_50_390_points arc15_10_390_points)

lemma kickoff_paddle_free_main:
  "main_check_ball_collision measured_sample kickoff 0 340 120 = Some False"
proof -
  have t: "isdisjoint (set arc15_10_290 \<union> (\<lambda>x. (x, 280)) ` {10..50} \<union> set arc15_50_290)
             (set circle72_750_350)"
    apply (rule isdisjoint_lr[where m=60 and n=730])
      apply (use arc15_10_290_box arc15_50_290_box in fastforce)
     apply (use circle72_750_350_box in fastforce)
    apply simp
    done
  have b: "isdisjoint (set arc15_50_390 \<union> (\<lambda>x. (x, 400)) ` {10..50} \<union> set arc15_10_390)
             (set circle72_750_350)"
    apply (rule isdisjoint_lr[where m=60 and n=730])
      apply (use arc15_50_390_box arc15_10_390_box in fastforce)
     apply (use circle72_750_350_box in fastforce)
    apply simp
    done
  show ?thesis
    using t b
    by (simp add: main_check_ball_collision_def Let_def kickoff_simps index_def
        BALL_RADIUS_def BALL_DIAMETER_def circle72_750_350_points
        regions15_30_340[unfolded PADDLE_WIDTH_def, simplified] PADDLE_WIDTH_def)
qed

lemma move_paddle_examples:
  "move_paddle measured_sample 0 (-1) 15 kickoff = Some (kickoff\<lparr>paddles := [(30, 335), (1470, 350)]\<rparr>)"
  "move_paddle measured_sample 0 (-1) 15 paddle_at_top = Some (paddle_at_top\<lparr>paddles := [(30, 61), (1470, 350)]\<rparr>)"
  "move_paddle measured_sample 0 (-1) 15 paddle_under_ball =
     Some (paddle_under_ball\<lparr>paddles := [(30, 365), (1470, 350)]\<rparr>)"
  "main_move_paddle measured_sample 0 (-1) kickoff = Some (kickoff\<lparr>paddles := [(30, 340), (1470, 350)]\<rparr>)"
  by (simp_all add: move_paddle_def main_move_paddle_def index_def Let_def check_wall_collision_def
      kickoff_simps paddle_at_top_simps paddle_under_ball_simps paddle_under_ball_blocked
      kickoff_paddle_free_main)
     (simp_all add: check_ball_collision_def kickoff_simps paddle_at_top_simps PADDLE_WIDTH_def)

theorem move_paddle_keeps_range_witness:
  "paddle_in_range kickoff 0 \<and>
   move_paddle measured_sample 0 (-1) 15 kickoff = Some (kickoff\<lparr>paddles := [(30, 335), (1470, 350)]\<rparr>) \<and>
   paddle_in_range (kickoff\<lparr>paddles := [(30, 335), (1470, 350)]\<rparr>) 0 \<and>
   main_move_paddle measured_sample 0 (-1) kickoff = Some (kickoff\<lparr>paddles := [(30, 340), (1470, 350)]\<rparr>) \<and>
   paddle_in_range (kickoff\<lparr>paddles := [(30, 340), (1470, 350)]\<rparr>) 0 \<and>
   paddle_in_range paddle_at_top 0 \<and>
   move_paddle measured_sample 0 (-1) 15 paddle_at_top = Some (paddle_at_top\<lparr>paddles := [(30, 61), (1470, 350)]\<rparr>) \<and>
   paddle_in_range (paddle_at_top\<lparr>paddles := [(30, 61), (1470, 350)]\<rparr>) 0 \<and>
   paddle_in_range paddle_under_ball 0 \<and>
   move_paddle measured_sample 0 (-1) 15 paddle_under_ball =
     Some (paddle_under_ball\<lparr>paddles := [(30, 365), (1470, 350)]\<rparr>) \<and>
   paddle_in_range (paddle_under_ball\<lparr>paddles := [(30, 365), (1470, 350)]\<rparr>) 0"
  using move_paddle_keeps_range[where player=0 and s=kickoff and q=0 and pixels=15
      and smp=measured_sample and direction="-1"]
    move_paddle_keeps_range[where player=0 and s=paddle_at_top and q=0 and pixels=15
      and smp=measured_sample and direction="-1"]
    move_paddle_keeps_range[where player=0 and s=paddle_under_ball and q=0 and pixels=15
      and smp=measured_sample and direction="-1"]
  by (simp add: move_paddle_examples paddle_in_range_def kickoff_simps paddle_at_top_simps
      paddle_under_ball_simps)

end
